theory Spec2Isabelle
  imports Main "HOL-Library.Word" "HOL-Library.Monad_Syntax"
begin

unbundle bit_operations_syntax

section \<open>The hex edit control of libwin/hexedit.c\<close>

text \<open>
  The control is a C structure that every routine mutates through a pointer. Here it is
  a record that every routine takes and returns. The Windows integer types keep their
  widths: arithmetic on them wraps as the C arithmetic does, and each cast of the source
  is a \<open>ucast\<close>.
\<close>

type_synonym UCHAR = "8 word"
type_synonym WORD = "16 word"
type_synonym TCHAR = "16 word"
type_synonym SHORT = "16 word"
type_synonym DWORD = "32 word"
type_synonym DWORDLONG = "64 word"

subsection \<open>Data\<close>

datatype YORI_WIN_HEX_EDIT_SELECT_STATE =
    YoriWinHexEditSelectNotActive
  | YoriWinHexEditSelectActive

record YORI_WIN_HEX_EDIT_SELECT =
  Active :: YORI_WIN_HEX_EDIT_SELECT_STATE
  FirstByteOffset :: DWORDLONG
  LastByteOffset :: DWORDLONG

text \<open>
  A counted string of yorilib. \<open>StartOfString\<close> is the character allocation (\<open>None\<close> is
  the null pointer), of which \<open>LengthInChars\<close> characters are in use.
\<close>

record YORI_STRING =
  StartOfString :: "TCHAR list option"
  LengthInChars :: DWORD
  LengthAllocated :: DWORD

text \<open>
  The client area of the control, which the source reads with
  \<open>YoriWinGetControlClientSize\<close> from the common control header.
\<close>

record COORD =
  X :: SHORT
  Y :: SHORT

text \<open>
  The fields of \<open>YORI_WIN_CTRL_HEX_EDIT\<close>. \<open>Buffer\<close> is the data allocation: \<open>None\<close> is
  the null pointer, \<open>Some bs\<close> a block of \<open>length bs\<close> bytes. \<open>BufferAllocated\<close> and
  \<open>BufferValid\<close> are the two lengths that the control records beside it. The scroll bar,
  the timer, the mouse position and the callback pointer belong to the window manager
  and are left out.
\<close>

record YORI_WIN_CTRL_HEX_EDIT =
  ClientSize :: COORD
  Caption :: YORI_STRING
  Buffer :: "UCHAR list option"
  BufferAllocated :: DWORDLONG
  BufferValid :: DWORDLONG
  BytesPerLine :: DWORD
  BytesPerWord :: DWORD
  ViewportTop :: DWORD
  ViewportLeft :: DWORD
  CursorLine :: DWORD
  CursorOffset :: DWORD
  FirstDirtyLine :: DWORD
  LastDirtyLine :: DWORD
  Selection :: YORI_WIN_HEX_EDIT_SELECT
  TextAttributes :: WORD
  SelectedAttributes :: WORD
  CaptionAttributes :: WORD
  OffsetWidth :: UCHAR
  PercentCursorVisibleLastPaint :: UCHAR
  InsertMode :: bool
  ReadOnly :: bool
  HasFocus :: bool
  UserModified :: bool

datatype YORI_WIN_HEX_EDIT_CELL_TYPE =
    YoriWinHexEditCellTypeOffset
  | YoriWinHexEditCellTypeWhitespace
  | YoriWinHexEditCellTypeHexDigit
  | YoriWinHexEditCellTypeCharValue

text \<open>
  Modelled from the spec: \<open>YORI_LIB_HEXDUMP_BYTES_PER_LINE\<close> is a macro of yorilib.h,
  which is not among the sources. The specification fixes the number of bytes per line
  at 16.
\<close>

definition YORI_LIB_HEXDUMP_BYTES_PER_LINE :: DWORD where
  "YORI_LIB_HEXDUMP_BYTES_PER_LINE = 16"

subsection \<open>Coordinate model\<close>

definition YoriWinHexEditLinesPopulated :: "YORI_WIN_CTRL_HEX_EDIT \<Rightarrow> DWORD" where
  "YoriWinHexEditLinesPopulated HexEdit =
     ucast ((BufferValid HexEdit + ucast (BytesPerLine HexEdit) - 1)
              div ucast (BytesPerLine HexEdit))"

definition YoriWinHexEditOffsetSizeInCells :: "YORI_WIN_CTRL_HEX_EDIT \<Rightarrow> DWORD" where
  "YoriWinHexEditOffsetSizeInCells HexEdit =
     (if OffsetWidth HexEdit = 64 then 18
      else if OffsetWidth HexEdit = 32 then 9
      else 0)"

definition YoriWinHexEditGetCellsPerWord :: "YORI_WIN_CTRL_HEX_EDIT \<Rightarrow> DWORD" where
  "YoriWinHexEditGetCellsPerWord HexEdit =
     (let CellsPerWord = BytesPerWord HexEdit * 2 + 1
      in if BytesPerWord HexEdit = 8 then CellsPerWord + 1 else CellsPerWord)"

definition YoriWinHexEditGetCellIndexForBitShift ::
  "YORI_WIN_CTRL_HEX_EDIT \<Rightarrow> DWORD \<Rightarrow> DWORD" where
  "YoriWinHexEditGetCellIndexForBitShift HexEdit BitShift =
     (let CellIndex = BitShift div 4
      in if BitShift \<ge> 32 then CellIndex + 1 else CellIndex)"

text \<open>
  The meaning of a display cell. The three output parameters of the source are the last
  three components of the result: the byte offset within the line, the bit shift, and
  whether the cell lies beyond the end of the valid data. They are zero and false on
  every path that returns before writing them.
\<close>

definition YoriWinHexEditCellType ::
  "YORI_WIN_CTRL_HEX_EDIT \<Rightarrow> DWORD \<Rightarrow> DWORD
     \<Rightarrow> YORI_WIN_HEX_EDIT_CELL_TYPE \<times> DWORD \<times> DWORD \<times> bool" where
  "YoriWinHexEditCellType HexEdit LineIndex CellOffset =
     (let LinesPopulated = YoriWinHexEditLinesPopulated HexEdit;
          BytesThisLine =
            (if LineIndex + 1 = LinesPopulated
             then ucast (BufferValid HexEdit
                           - (ucast LineIndex :: DWORDLONG) * ucast (BytesPerLine HexEdit))
             else BytesPerLine HexEdit);
          OffsetInChars = YoriWinHexEditOffsetSizeInCells HexEdit
      in if OffsetInChars > 0 \<and> CellOffset < OffsetInChars
           then (YoriWinHexEditCellTypeOffset, 0, 0, False)
         else if OffsetInChars > 0 \<and> CellOffset = OffsetInChars
           then (YoriWinHexEditCellTypeWhitespace, 0, 0, False)
         else
           (let CellsPerWord = YoriWinHexEditGetCellsPerWord HexEdit;
                WordsPerLine = BytesPerLine HexEdit div BytesPerWord HexEdit;
                DataOffset0 = CellOffset - OffsetInChars;
                DataOffset = (if OffsetInChars = 0 then DataOffset0 + 1 else DataOffset0)
            in if DataOffset < WordsPerLine * CellsPerWord then
                 (let ModValue0 = DataOffset mod CellsPerWord;
                      LocalByteOffset = (DataOffset div CellsPerWord) * BytesPerWord HexEdit
                  in if ModValue0 = 0
                       then (YoriWinHexEditCellTypeWhitespace, 0, 0, False)
                     else
                       (let ModValue1 = CellsPerWord - 1 - ModValue0
                        in if ModValue1 = 8
                             then (YoriWinHexEditCellTypeWhitespace, 0, 0, False)
                           else
                             (let ModValue = (if ModValue1 > 8 then ModValue1 - 1 else ModValue1);
                                  LocalBitShift = 4 * ModValue
                              in (YoriWinHexEditCellTypeHexDigit, LocalByteOffset, LocalBitShift,
                                  LineIndex \<ge> LinesPopulated
                                    \<or> LocalByteOffset + LocalBitShift div 8 \<ge> BytesThisLine))))
               else
                 (let DataOffset1 = DataOffset - WordsPerLine * CellsPerWord
                  in if DataOffset1 < 2
                       then (YoriWinHexEditCellTypeWhitespace, 0, 0, False)
                     else
                       (let DataOffset2 = DataOffset1 - 2
                        in if DataOffset2 \<ge> BytesPerLine HexEdit
                             then (YoriWinHexEditCellTypeWhitespace, 0, 0, False)
                           else (YoriWinHexEditCellTypeCharValue, DataOffset2, 0,
                                 LineIndex \<ge> LinesPopulated \<or> DataOffset2 \<ge> BytesThisLine)))))"

text \<open>
  The two inverse mappings always return TRUE; the model returns the line and the cell.
\<close>

definition YoriWinHexEditCellFromCharBufferOffset ::
  "YORI_WIN_CTRL_HEX_EDIT \<Rightarrow> DWORDLONG \<Rightarrow> DWORD \<times> DWORD" where
  "YoriWinHexEditCellFromCharBufferOffset HexEdit BufferOffset =
     (let OffsetInChars0 = YoriWinHexEditOffsetSizeInCells HexEdit;
          OffsetInChars = (if OffsetInChars0 > 0 then OffsetInChars0 + 1 else OffsetInChars0);
          CellsPerWord = YoriWinHexEditGetCellsPerWord HexEdit;
          WordsPerLine = BytesPerLine HexEdit div BytesPerWord HexEdit;
          EndLine = (ucast (BufferOffset div ucast (BytesPerLine HexEdit)) :: DWORD);
          LineByteOffset = (ucast (BufferOffset mod ucast (BytesPerLine HexEdit)) :: DWORD)
      in (EndLine, OffsetInChars + WordsPerLine * CellsPerWord + 1 + LineByteOffset))"

definition YoriWinHexEditCellFromHexBufferOffset ::
  "YORI_WIN_CTRL_HEX_EDIT \<Rightarrow> DWORDLONG \<Rightarrow> DWORD \<Rightarrow> DWORD \<times> DWORD" where
  "YoriWinHexEditCellFromHexBufferOffset HexEdit BufferOffset BitShift =
     (let OffsetInChars = YoriWinHexEditOffsetSizeInCells HexEdit;
          MarginToRemove = (if OffsetInChars = 0 then 1 else 0);
          CellsPerWord = YoriWinHexEditGetCellsPerWord HexEdit;
          EndLine = (ucast (BufferOffset div ucast (BytesPerLine HexEdit)) :: DWORD);
          LineByteOffset = (ucast (BufferOffset mod ucast (BytesPerLine HexEdit)) :: DWORD);
          LineCellOffset = (LineByteOffset + BytesPerWord HexEdit - 1) div BytesPerWord HexEdit;
          BitShiftCellIndex = YoriWinHexEditGetCellIndexForBitShift HexEdit BitShift
      in (EndLine,
          OffsetInChars + ((LineCellOffset + 1) * CellsPerWord) - BitShiftCellIndex
            - MarginToRemove - 1))"

text \<open>
  The next cell of the same kind. The source returns FALSE, writing no cell, for a kind
  other than hex digit and character value: \<open>None\<close> here.
\<close>

definition YoriWinHexEditNextCellSameType ::
  "YORI_WIN_CTRL_HEX_EDIT \<Rightarrow> YORI_WIN_HEX_EDIT_CELL_TYPE \<Rightarrow> DWORDLONG \<Rightarrow> DWORD
     \<Rightarrow> (DWORD \<times> DWORD) option" where
  "YoriWinHexEditNextCellSameType HexEdit CellType BufferOffset BitShift =
     (if CellType \<noteq> YoriWinHexEditCellTypeHexDigit \<and> CellType \<noteq> YoriWinHexEditCellTypeCharValue
        then None
      else if CellType = YoriWinHexEditCellTypeCharValue
        then Some (YoriWinHexEditCellFromCharBufferOffset HexEdit (BufferOffset + 1))
      else
        (let Unaligned = (ucast (BufferOffset mod ucast (BytesPerWord HexEdit)) :: DWORD);
             NewBufferOffset0 = (if Unaligned \<noteq> 0 then BufferOffset - ucast Unaligned
                                 else BufferOffset);
             NewBitShift0 = (if Unaligned \<noteq> 0 then BitShift + 8 * Unaligned else BitShift)
         in if NewBitShift0 \<ge> 4
              then Some (YoriWinHexEditCellFromHexBufferOffset HexEdit NewBufferOffset0
                           (NewBitShift0 - 4))
            else Some (YoriWinHexEditCellFromHexBufferOffset HexEdit
                         (BufferOffset + ucast (BytesPerWord HexEdit))
                         (8 * BytesPerWord HexEdit - 4))))"

subsection \<open>Dirty range and painting\<close>

definition YoriWinHexEditExpandDirtyRange ::
  "YORI_WIN_CTRL_HEX_EDIT \<Rightarrow> DWORD \<Rightarrow> DWORD \<Rightarrow> YORI_WIN_CTRL_HEX_EDIT" where
  "YoriWinHexEditExpandDirtyRange HexEdit NewFirstDirtyLine NewLastDirtyLine =
     (let HexEdit1 = (if NewFirstDirtyLine < FirstDirtyLine HexEdit
                      then HexEdit\<lparr>FirstDirtyLine := NewFirstDirtyLine\<rparr> else HexEdit)
      in if NewLastDirtyLine > LastDirtyLine HexEdit1
           then HexEdit1\<lparr>LastDirtyLine := NewLastDirtyLine\<rparr> else HexEdit1)"

text \<open>
  The lines that a paint draws: the rows of the client area whose line is in the dirty
  range. \<open>RowIndex\<close> is a 16-bit counter compared with the signed height of the client
  area.
\<close>

definition YoriWinHexEditPaintedLines :: "YORI_WIN_CTRL_HEX_EDIT \<Rightarrow> DWORD list" where
  "YoriWinHexEditPaintedLines HexEdit =
     (if FirstDirtyLine HexEdit \<le> LastDirtyLine HexEdit
      then filter (\<lambda>LineIndex. LineIndex \<ge> FirstDirtyLine HexEdit
                                  \<and> LineIndex \<le> LastDirtyLine HexEdit)
             (map (\<lambda>RowIndex. ViewportTop HexEdit + of_nat RowIndex)
                  [0 ..< nat (sint (Y (ClientSize HexEdit)))])
      else [])"

text \<open>
  What a paint leaves in the control: the dirty range is reset when it was not empty, and
  the cursor visibility that was handed to the window manager is remembered. The
  additions of the client size to the viewport are in 32 bits, the 16-bit signed size
  being sign extended.
\<close>

definition YoriWinHexEditPaint :: "YORI_WIN_CTRL_HEX_EDIT \<Rightarrow> YORI_WIN_CTRL_HEX_EDIT" where
  "YoriWinHexEditPaint HexEdit =
     (let HexEdit1 =
            (if FirstDirtyLine HexEdit \<le> LastDirtyLine HexEdit
             then HexEdit\<lparr>FirstDirtyLine := - 1, LastDirtyLine := 0\<rparr>
             else HexEdit);
          Percent0 = (if HasFocus HexEdit1 then (if InsertMode HexEdit1 then 20 else 50) else 0);
          Percent1 =
            (if CursorLine HexEdit1 < ViewportTop HexEdit1
                \<or> CursorLine HexEdit1 \<ge> ViewportTop HexEdit1 + scast (Y (ClientSize HexEdit1))
             then 0 else Percent0);
          Percent2 =
            (if CursorOffset HexEdit1 < ViewportLeft HexEdit1
                \<or> CursorOffset HexEdit1 \<ge> ViewportLeft HexEdit1 + scast (X (ClientSize HexEdit1))
             then 0 else Percent1)
      in HexEdit1\<lparr>PercentCursorVisibleLastPaint := Percent2\<rparr>)"

subsection \<open>Memory\<close>

text \<open>
  An access outside an allocation is undefined in C. In the model every routine that
  reads or writes memory returns an option, and \<open>None\<close> is such an access. An access of
  no bytes touches nothing and is allowed at any address.
\<close>

definition memory_read :: "'a list \<Rightarrow> nat \<Rightarrow> nat \<Rightarrow> 'a list option" where
  "memory_read Block Offset Count =
     (if Count = 0 then Some []
      else if Offset + Count \<le> length Block then Some (take Count (drop Offset Block))
      else None)"

definition memory_write :: "'a list \<Rightarrow> nat \<Rightarrow> 'a list \<Rightarrow> 'a list option" where
  "memory_write Block Offset Data =
     (if Data = [] then Some Block
      else if Offset + length Data \<le> length Block
        then Some (take Offset Block @ Data @ drop (Offset + length Data) Block)
      else None)"

text \<open>Reading and writing through the \<open>Buffer\<close> pointer of the control.\<close>

definition BufferRead :: "YORI_WIN_CTRL_HEX_EDIT \<Rightarrow> nat \<Rightarrow> nat \<Rightarrow> UCHAR list option" where
  "BufferRead HexEdit Offset Count =
     memory_read (case Buffer HexEdit of None \<Rightarrow> [] | Some Block \<Rightarrow> Block) Offset Count"

definition BufferWrite ::
  "YORI_WIN_CTRL_HEX_EDIT \<Rightarrow> nat \<Rightarrow> UCHAR list \<Rightarrow> YORI_WIN_CTRL_HEX_EDIT option" where
  "BufferWrite HexEdit Offset Data =
     (case Buffer HexEdit of
        None \<Rightarrow> (if Data = [] then Some HexEdit else None)
      | Some Block \<Rightarrow>
          map_option (\<lambda>NewBlock. HexEdit\<lparr>Buffer := Some NewBlock\<rparr>)
            (memory_write Block Offset Data))"

text \<open>
  The allocator of yorilib is not among the sources and is a parameter: asked for a
  number of bytes it fails (\<open>None\<close>) or gives the contents that the fresh block happens
  to hold. \<open>YoriLibReferencedMalloc\<close> returns a block of exactly the size asked for.
\<close>

type_synonym 'a allocator = "nat \<Rightarrow> (nat \<Rightarrow> 'a) option"

definition YoriLibReferencedMalloc :: "UCHAR allocator \<Rightarrow> DWORD \<Rightarrow> UCHAR list option" where
  "YoriLibReferencedMalloc Heap Bytes =
     map_option (\<lambda>Contents. map Contents [0 ..< unat Bytes]) (Heap (unat Bytes))"

subsection \<open>Buffer store\<close>

definition YoriWinHexEditEnsureBufferLength ::
  "UCHAR allocator \<Rightarrow> YORI_WIN_CTRL_HEX_EDIT \<Rightarrow> DWORDLONG
     \<Rightarrow> (bool \<times> YORI_WIN_CTRL_HEX_EDIT) option" where
  "YoriWinHexEditEnsureBufferLength Heap HexEdit NewBufferLength =
     (if BufferAllocated HexEdit \<ge> NewBufferLength then Some (True, HexEdit)
      else if NewBufferLength < BufferValid HexEdit then Some (False, HexEdit)
      else
        (let PaddedBufferLength = NewBufferLength + 16384
         in if PaddedBufferLength \<ge> 0xFFFFFFFF then Some (False, HexEdit)
            else
              (case YoriLibReferencedMalloc Heap (ucast PaddedBufferLength) of
                 None \<Rightarrow> Some (False, HexEdit)
               | Some NewBuffer \<Rightarrow>
                   do {
                     Copied \<leftarrow>
                       (if BufferValid HexEdit > 0
                        then do {
                          Data \<leftarrow> BufferRead HexEdit 0
                                    (unat (ucast (BufferValid HexEdit) :: DWORD));
                          memory_write NewBuffer 0 Data
                        }
                        else Some NewBuffer);
                     Some (True, HexEdit\<lparr>Buffer := Some Copied,
                                          BufferAllocated := PaddedBufferLength\<rparr>)
                   })))"

definition YoriWinHexEditEnsureBufferValid ::
  "UCHAR allocator \<Rightarrow> YORI_WIN_CTRL_HEX_EDIT \<Rightarrow> DWORDLONG
     \<Rightarrow> (bool \<times> YORI_WIN_CTRL_HEX_EDIT) option" where
  "YoriWinHexEditEnsureBufferValid Heap HexEdit NewBufferLength =
     (if NewBufferLength \<le> BufferValid HexEdit then Some (True, HexEdit)
      else do {
        (Grown, HexEdit1) \<leftarrow> YoriWinHexEditEnsureBufferLength Heap HexEdit NewBufferLength;
        if \<not> Grown then Some (False, HexEdit1)
        else do {
          HexEdit2 \<leftarrow> BufferWrite HexEdit1 (unat (BufferValid HexEdit1))
                        (replicate (unat (ucast (NewBufferLength - BufferValid HexEdit1) :: DWORD)) 0);
          Some (True, HexEdit2\<lparr>BufferValid := NewBufferLength\<rparr>)
        }
      })"

definition YoriWinHexEditInsertSpaceInBuffer ::
  "UCHAR allocator \<Rightarrow> YORI_WIN_CTRL_HEX_EDIT \<Rightarrow> DWORDLONG \<Rightarrow> DWORD
     \<Rightarrow> (bool \<times> YORI_WIN_CTRL_HEX_EDIT) option" where
  "YoriWinHexEditInsertSpaceInBuffer Heap HexEdit BufferOffset BytesToInsert =
     (if BufferOffset > BufferValid HexEdit then Some (False, HexEdit)
      else do {
        (Grown, HexEdit1) \<leftarrow>
          YoriWinHexEditEnsureBufferLength Heap HexEdit
            (BufferValid HexEdit + ucast BytesToInsert);
        if \<not> Grown then Some (False, HexEdit1)
        else
          (let BytesToMove = BufferValid HexEdit1 - BufferOffset
           in if BytesToMove > 0xFFFFFFFF then Some (False, HexEdit1)
              else do {
                HexEdit2 \<leftarrow>
                  (if BytesToMove > 0
                   then do {
                     Data \<leftarrow> BufferRead HexEdit1 (unat BufferOffset)
                               (unat (ucast BytesToMove :: DWORD));
                     BufferWrite HexEdit1 (unat (BufferOffset + ucast BytesToInsert)) Data
                   }
                   else Some HexEdit1);
                HexEdit3 \<leftarrow> BufferWrite HexEdit2 (unat BufferOffset)
                              (replicate (unat BytesToInsert) 0);
                Some (True, HexEdit3\<lparr>BufferValid := BufferValid HexEdit3 + ucast BytesToInsert\<rparr>)
              })
      })"

subsection \<open>Cursor\<close>

text \<open>
  Moving the cursor. The notification callback that the source invokes here is code of
  the application and does not touch the control.
\<close>

definition YoriWinHexEditSetCursorLocationInternal ::
  "YORI_WIN_CTRL_HEX_EDIT \<Rightarrow> DWORD \<Rightarrow> DWORD \<Rightarrow> YORI_WIN_CTRL_HEX_EDIT" where
  "YoriWinHexEditSetCursorLocationInternal HexEdit NewCursorOffset NewCursorLine =
     (if NewCursorOffset = CursorOffset HexEdit \<and> NewCursorLine = CursorLine HexEdit
      then HexEdit
      else HexEdit\<lparr>CursorOffset := NewCursorOffset, CursorLine := NewCursorLine\<rparr>)"

definition YoriWinHexEditEnsureCursorVisible ::
  "YORI_WIN_CTRL_HEX_EDIT \<Rightarrow> YORI_WIN_CTRL_HEX_EDIT" where
  "YoriWinHexEditEnsureCursorVisible HexEdit =
     (let SizeX = (scast (X (ClientSize HexEdit)) :: DWORD);
          SizeY = (scast (Y (ClientSize HexEdit)) :: DWORD);
          NewViewportLeft =
            (if CursorOffset HexEdit < ViewportLeft HexEdit then CursorOffset HexEdit
             else if CursorOffset HexEdit \<ge> ViewportLeft HexEdit + SizeX
               then CursorOffset HexEdit - SizeX + 1
             else ViewportLeft HexEdit);
          NewViewportTop =
            (if CursorLine HexEdit < ViewportTop HexEdit then CursorLine HexEdit
             else if CursorLine HexEdit \<ge> ViewportTop HexEdit + SizeY
               then CursorLine HexEdit - SizeY + 1
             else ViewportTop HexEdit);
          HexEdit1 =
            (if NewViewportTop \<noteq> ViewportTop HexEdit
             then YoriWinHexEditExpandDirtyRange (HexEdit\<lparr>ViewportTop := NewViewportTop\<rparr>)
                    NewViewportTop (- 1)
             else HexEdit)
      in if NewViewportLeft \<noteq> ViewportLeft HexEdit1
           then YoriWinHexEditExpandDirtyRange (HexEdit1\<lparr>ViewportLeft := NewViewportLeft\<rparr>)
                  NewViewportTop (- 1)
         else HexEdit1)"

definition YoriWinHexEditSetCursorToBufferLocation ::
  "YORI_WIN_CTRL_HEX_EDIT \<Rightarrow> YORI_WIN_HEX_EDIT_CELL_TYPE \<Rightarrow> DWORDLONG \<Rightarrow> DWORD
     \<Rightarrow> bool \<times> YORI_WIN_CTRL_HEX_EDIT" where
  "YoriWinHexEditSetCursorToBufferLocation HexEdit CellType BufferOffset BitShift =
     (let (NewCursorLine, NewCursorOffset) =
            (if CellType = YoriWinHexEditCellTypeHexDigit
             then YoriWinHexEditCellFromHexBufferOffset HexEdit BufferOffset BitShift
             else YoriWinHexEditCellFromCharBufferOffset HexEdit BufferOffset)
      in if NewCursorLine \<noteq> CursorLine HexEdit \<or> NewCursorOffset \<noteq> CursorOffset HexEdit
           then (True,
                 YoriWinHexEditPaint
                   (YoriWinHexEditEnsureCursorVisible
                      (YoriWinHexEditSetCursorLocationInternal HexEdit
                         NewCursorOffset NewCursorLine)))
         else (False, HexEdit))"

definition YoriWinHexEditSetCursorLocationToZero ::
  "YORI_WIN_CTRL_HEX_EDIT \<Rightarrow> bool \<times> YORI_WIN_CTRL_HEX_EDIT" where
  "YoriWinHexEditSetCursorLocationToZero HexEdit =
     YoriWinHexEditSetCursorToBufferLocation HexEdit YoriWinHexEditCellTypeHexDigit 0
       (BytesPerWord HexEdit * 8 - 4)"

subsection \<open>Cell editor\<close>

definition YoriWinHexEditInputCharToByte :: "TCHAR \<Rightarrow> UCHAR" where
  "YoriWinHexEditInputCharToByte InputTChar = ucast InputTChar"

text \<open>
  Modelled from the spec: \<open>YoriLibUpcaseChar\<close> is a routine of yorilib, which is not
  among the sources. The specification has the hex digits accepted without regard to
  case: a lower case letter becomes its upper case letter and any other character is
  kept.
\<close>

definition YoriLibUpcaseChar :: "TCHAR \<Rightarrow> TCHAR" where
  "YoriLibUpcaseChar c = (if 0x61 \<le> c \<and> c \<le> 0x7A then c - 0x20 else c)"

text \<open>
  The value of a hex digit, as both editing routines compute it from the upper-cased
  byte; \<open>None\<close> where the source leaves the switch because the byte is no hex digit.
\<close>

definition NewNibbleOf :: "UCHAR \<Rightarrow> UCHAR option" where
  "NewNibbleOf InputChar =
     (let c = (ucast (YoriLibUpcaseChar (ucast InputChar)) :: UCHAR)
      in if c \<ge> 0x30 \<and> c \<le> 0x39 then Some (c - 0x30)
         else if c \<ge> 0x41 \<and> c \<le> 0x46 then Some (c - 0x41 + 10)
         else None)"

text \<open>
  Replacing one nibble of the byte at \<open>EditBufferOffset\<close>: the mask is \<open>0xF\<close> shifted
  left by the bit shift, cut to a byte, and the new nibble is shifted likewise.
\<close>

definition WriteNibble ::
  "YORI_WIN_CTRL_HEX_EDIT \<Rightarrow> DWORDLONG \<Rightarrow> DWORD \<Rightarrow> UCHAR \<Rightarrow> YORI_WIN_CTRL_HEX_EDIT option" where
  "WriteNibble HexEdit EditBufferOffset EditBitShift NewNibble =
     do {
       Cell \<leftarrow> BufferRead HexEdit (unat EditBufferOffset) 1;
       let BitMask = (ucast (push_bit (unat EditBitShift) (0xF :: DWORD)) :: UCHAR);
           InputChar = hd Cell AND NOT BitMask;
           InputChar1 = InputChar
              OR (ucast (push_bit (unat EditBitShift) (ucast NewNibble :: DWORD)) :: UCHAR)
       in BufferWrite HexEdit (unat EditBufferOffset) [InputChar1]
     }"

text \<open>
  The result of an edit of one cell: the value returned, the line and the cell where the
  cursor goes, and the control.
\<close>

type_synonym cell_edit = "bool \<times> DWORD \<times> DWORD \<times> YORI_WIN_CTRL_HEX_EDIT"

definition YoriWinHexEditInsertCell ::
  "UCHAR allocator \<Rightarrow> YORI_WIN_CTRL_HEX_EDIT \<Rightarrow> DWORD \<Rightarrow> DWORD \<Rightarrow> TCHAR
     \<Rightarrow> cell_edit option" where
  "YoriWinHexEditInsertCell Heap HexEdit FirstLine FirstCharOffset InputTChar =
     (let (CellType, ByteOffset, BitShift, BeyondBufferEnd) =
            YoriWinHexEditCellType HexEdit FirstLine FirstCharOffset;
          BufferOffset = (ucast FirstLine :: DWORDLONG) * ucast (BytesPerLine HexEdit)
                           + ucast ByteOffset
      in do {
        (Reached, HexEdit1) \<leftarrow>
          (if BeyondBufferEnd \<and> BufferOffset > BufferValid HexEdit
           then YoriWinHexEditEnsureBufferValid Heap HexEdit BufferOffset
           else Some (True, HexEdit));
        if \<not> Reached then Some (True, FirstLine, FirstCharOffset, HexEdit1)
        else
          (let DirtyLastLine0 = (if BeyondBufferEnd then - 1 else FirstLine);
               EditBufferOffset = (if BitShift \<ge> 8 then BufferOffset + ucast (BitShift div 8)
                                   else BufferOffset);
               EditBitShift = (if BitShift \<ge> 8 then BitShift mod 8 else BitShift);
               InputChar = YoriWinHexEditInputCharToByte InputTChar
           in do {
             (CellUpdated, DirtyLastLine, HexEdit2) \<leftarrow>
               (case CellType of
                  YoriWinHexEditCellTypeOffset \<Rightarrow> Some (False, DirtyLastLine0, HexEdit1)
                | YoriWinHexEditCellTypeWhitespace \<Rightarrow> Some (False, DirtyLastLine0, HexEdit1)
                | YoriWinHexEditCellTypeHexDigit \<Rightarrow>
                    (case NewNibbleOf InputChar of
                       None \<Rightarrow> Some (False, DirtyLastLine0, HexEdit1)
                     | Some NewNibble \<Rightarrow>
                         do {
                           (Inserted, DirtyLastLine1, HexEdit3) \<leftarrow>
                             (if BitShift = BytesPerWord HexEdit1 * 8 - 4
                              then do {
                                (Ok, HexEdit4) \<leftarrow>
                                  YoriWinHexEditInsertSpaceInBuffer Heap HexEdit1 BufferOffset
                                    (BytesPerWord HexEdit1);
                                Some (Ok, if Ok then - 1 else DirtyLastLine0, HexEdit4)
                              }
                              else Some (True, DirtyLastLine0, HexEdit1));
                           if \<not> Inserted then Some (False, DirtyLastLine1, HexEdit3)
                           else do {
                             HexEdit5 \<leftarrow> WriteNibble HexEdit3 EditBufferOffset EditBitShift NewNibble;
                             Some (True, DirtyLastLine1, HexEdit5)
                           }
                         })
                | YoriWinHexEditCellTypeCharValue \<Rightarrow>
                    do {
                      (Ok, HexEdit3) \<leftarrow>
                        YoriWinHexEditInsertSpaceInBuffer Heap HexEdit1 EditBufferOffset 1;
                      if \<not> Ok then Some (False, DirtyLastLine0, HexEdit3)
                      else do {
                        HexEdit4 \<leftarrow> BufferWrite HexEdit3 (unat EditBufferOffset) [InputChar];
                        Some (True, - 1, HexEdit4)
                      }
                    });
             let (CurrentLine, CurrentCharOffset, HexEdit6) =
                   (if CellUpdated
                    then (case YoriWinHexEditNextCellSameType HexEdit2 CellType BufferOffset BitShift of
                            Some (Line, Cell) \<Rightarrow> (Line, Cell, HexEdit2\<lparr>UserModified := True\<rparr>)
                          | None \<Rightarrow> (FirstLine, FirstCharOffset, HexEdit2\<lparr>UserModified := True\<rparr>))
                    else (FirstLine, FirstCharOffset, HexEdit2))
             in Some (True, CurrentLine, CurrentCharOffset,
                      YoriWinHexEditExpandDirtyRange HexEdit6 FirstLine DirtyLastLine)
           })
      })"

definition YoriWinHexEditOverwriteCell ::
  "UCHAR allocator \<Rightarrow> YORI_WIN_CTRL_HEX_EDIT \<Rightarrow> DWORD \<Rightarrow> DWORD \<Rightarrow> TCHAR
     \<Rightarrow> cell_edit option" where
  "YoriWinHexEditOverwriteCell Heap HexEdit FirstLine FirstCharOffset InputTChar =
     (let (CellType, ByteOffset, BitShift, BeyondBufferEnd) =
            YoriWinHexEditCellType HexEdit FirstLine FirstCharOffset;
          BufferOffset = (ucast FirstLine :: DWORDLONG) * ucast (BytesPerLine HexEdit)
                           + ucast ByteOffset;
          EditBufferOffset = (if BitShift \<ge> 8 then BufferOffset + ucast (BitShift div 8)
                              else BufferOffset);
          EditBitShift = (if BitShift \<ge> 8 then BitShift mod 8 else BitShift);
          InputChar = YoriWinHexEditInputCharToByte InputTChar;
          Unchanged = Some (True, FirstLine, FirstCharOffset, HexEdit);
          Updated = (\<lambda>HexEdit2.
            (case YoriWinHexEditNextCellSameType HexEdit2 CellType BufferOffset BitShift of
               Some (Line, Cell) \<Rightarrow>
                 (True, Line, Cell,
                  (YoriWinHexEditExpandDirtyRange HexEdit2 FirstLine Line)\<lparr>UserModified := True\<rparr>)
             | None \<Rightarrow>
                 (True, FirstLine, FirstCharOffset,
                  (YoriWinHexEditExpandDirtyRange HexEdit2 FirstLine FirstLine)
                    \<lparr>UserModified := True\<rparr>)))
      in case CellType of
           YoriWinHexEditCellTypeOffset \<Rightarrow> Unchanged
         | YoriWinHexEditCellTypeWhitespace \<Rightarrow> Unchanged
         | YoriWinHexEditCellTypeHexDigit \<Rightarrow>
             (case NewNibbleOf InputChar of
                None \<Rightarrow> Unchanged
              | Some NewNibble \<Rightarrow>
                  do {
                    (Reached, HexEdit1) \<leftarrow>
                      (if BeyondBufferEnd
                       then YoriWinHexEditEnsureBufferValid Heap HexEdit (EditBufferOffset + 1)
                       else Some (True, HexEdit));
                    if \<not> Reached then Some (True, FirstLine, FirstCharOffset, HexEdit1)
                    else do {
                      HexEdit2 \<leftarrow> WriteNibble HexEdit1 EditBufferOffset EditBitShift NewNibble;
                      Some (Updated HexEdit2)
                    }
                  })
         | YoriWinHexEditCellTypeCharValue \<Rightarrow>
             do {
               (Reached, HexEdit1) \<leftarrow>
                 (if BeyondBufferEnd
                  then YoriWinHexEditEnsureBufferValid Heap HexEdit (EditBufferOffset + 1)
                  else Some (True, HexEdit));
               if \<not> Reached then Some (True, FirstLine, FirstCharOffset, HexEdit1)
               else do {
                 HexEdit2 \<leftarrow> BufferWrite HexEdit1 (unat EditBufferOffset) [InputChar];
                 Some (Updated HexEdit2)
               }
             })"

subsection \<open>Data exchange\<close>

text \<open>
  Handing a buffer to the control, and reading the buffer of the control. Both return
  TRUE on every path. The reference counts that they adjust are kept by the allocator of
  yorilib, beside the block, and are not part of the control.
\<close>

definition YoriWinHexEditSetDataNoCopy ::
  "YORI_WIN_CTRL_HEX_EDIT \<Rightarrow> UCHAR list \<Rightarrow> DWORDLONG \<Rightarrow> DWORDLONG
     \<Rightarrow> bool \<times> YORI_WIN_CTRL_HEX_EDIT" where
  "YoriWinHexEditSetDataNoCopy HexEdit NewBuffer NewBufferAllocated NewBufferValid =
     (True,
      YoriWinHexEditPaint
        (YoriWinHexEditExpandDirtyRange
           (HexEdit\<lparr>Buffer := Some NewBuffer,
                    BufferAllocated := NewBufferAllocated,
                    BufferValid := NewBufferValid\<rparr>)
           0 (- 1)))"

definition YoriWinHexEditGetDataNoCopy ::
  "YORI_WIN_CTRL_HEX_EDIT \<Rightarrow> bool \<times> UCHAR list option \<times> DWORDLONG" where
  "YoriWinHexEditGetDataNoCopy HexEdit = (True, Buffer HexEdit, BufferValid HexEdit)"

subsection \<open>Selection\<close>

definition YoriWinHexEditClearSelection ::
  "YORI_WIN_CTRL_HEX_EDIT \<Rightarrow> YORI_WIN_CTRL_HEX_EDIT" where
  "YoriWinHexEditClearSelection HexEdit =
     (if Active (Selection HexEdit) = YoriWinHexEditSelectNotActive then HexEdit
      else
        (let FirstDirty = (ucast (FirstByteOffset (Selection HexEdit)
                                    div ucast (BytesPerLine HexEdit)) :: DWORD);
             LastDirty = (ucast (LastByteOffset (Selection HexEdit)
                                   div ucast (BytesPerLine HexEdit)) :: DWORD)
         in YoriWinHexEditExpandDirtyRange
              (HexEdit\<lparr>Selection := (Selection HexEdit)
                          \<lparr>Active := YoriWinHexEditSelectNotActive\<rparr>\<rparr>)
              FirstDirty LastDirty))"

definition YoriWinHexEditSelectionActive :: "YORI_WIN_CTRL_HEX_EDIT \<Rightarrow> bool" where
  "YoriWinHexEditSelectionActive HexEdit =
     (if Active (Selection HexEdit) = YoriWinHexEditSelectNotActive then False else True)"

definition YoriWinHexEditSetSelectionRange ::
  "YORI_WIN_CTRL_HEX_EDIT \<Rightarrow> DWORDLONG \<Rightarrow> DWORDLONG \<Rightarrow> bool \<times> YORI_WIN_CTRL_HEX_EDIT" where
  "YoriWinHexEditSetSelectionRange HexEdit First Last =
     (let HexEdit1 = YoriWinHexEditClearSelection HexEdit;
          HexEdit2 = HexEdit1\<lparr>Selection := (Selection HexEdit1)
                                 \<lparr>Active := YoriWinHexEditSelectActive\<rparr>\<rparr>
      in if First \<ge> BufferValid HexEdit2 \<or> Last \<ge> BufferValid HexEdit2
           then (False, HexEdit2)
         else
           (let HexEdit3 = HexEdit2\<lparr>Selection := (Selection HexEdit2)
                                      \<lparr>FirstByteOffset := First, LastByteOffset := Last\<rparr>\<rparr>;
                FirstDirty = (ucast (FirstByteOffset (Selection HexEdit3)
                                       div ucast (BytesPerLine HexEdit3)) :: DWORD);
                LastDirty = (ucast (LastByteOffset (Selection HexEdit3)
                                      div ucast (BytesPerLine HexEdit3)) :: DWORD)
            in (True,
                YoriWinHexEditPaint
                  (YoriWinHexEditExpandDirtyRange HexEdit3 FirstDirty LastDirty))))"

text \<open>
  A copy of the selected bytes: FALSE with no selection, with a length that does not fit
  32 bits, or when the allocation fails; otherwise TRUE, the copy and its length.
\<close>

definition YoriWinHexEditGetSelectedData ::
  "UCHAR allocator \<Rightarrow> YORI_WIN_CTRL_HEX_EDIT \<Rightarrow> (bool \<times> UCHAR list \<times> DWORDLONG) option" where
  "YoriWinHexEditGetSelectedData Heap HexEdit =
     (if Active (Selection HexEdit) = YoriWinHexEditSelectNotActive then Some (False, [], 0)
      else
        (let LocalDataLength = LastByteOffset (Selection HexEdit)
                                 - FirstByteOffset (Selection HexEdit) + 1
         in if drop_bit 32 LocalDataLength \<noteq> 0 then Some (False, [], 0)
            else
              (case YoriLibReferencedMalloc Heap (ucast LocalDataLength) of
                 None \<Rightarrow> Some (False, [], 0)
               | Some NewBlock \<Rightarrow>
                   do {
                     Data \<leftarrow> BufferRead HexEdit (unat (FirstByteOffset (Selection HexEdit)))
                               (unat (ucast LocalDataLength :: DWORD));
                     Copy \<leftarrow> memory_write NewBlock 0 Data;
                     Some (True, Copy, LocalDataLength)
                   })))"

subsection \<open>Clearing, caption and the mutation interface\<close>

definition YoriWinHexEditClear :: "YORI_WIN_CTRL_HEX_EDIT \<Rightarrow> bool \<times> YORI_WIN_CTRL_HEX_EDIT" where
  "YoriWinHexEditClear HexEdit =
     (let HexEdit1 = HexEdit\<lparr>Buffer := None, BufferAllocated := 0, BufferValid := 0,
                             ViewportTop := 0, ViewportLeft := 0\<rparr>;
          HexEdit2 = YoriWinHexEditExpandDirtyRange HexEdit1 (ViewportTop HexEdit1) (- 1);
          (Moved, HexEdit3) = YoriWinHexEditSetCursorLocationToZero HexEdit2
      in (True, YoriWinHexEditPaint HexEdit3))"

text \<open>
  Modelled from the spec: \<open>YoriLibAllocateString\<close> is a routine of yorilib, which is not
  among the sources. The specification has the growth of the caption fail only when the
  allocation fails; a successful allocation is an empty string with room for the
  characters asked for.
\<close>

definition YoriLibAllocateString :: "TCHAR allocator \<Rightarrow> DWORD \<Rightarrow> YORI_STRING option" where
  "YoriLibAllocateString Heap CharsToAllocate =
     map_option
       (\<lambda>Contents. \<lparr>StartOfString = Some (map Contents [0 ..< unat CharsToAllocate]),
                     LengthInChars = 0,
                     LengthAllocated = CharsToAllocate\<rparr>)
       (Heap (unat CharsToAllocate))"

definition YoriWinHexEditSetCaption ::
  "TCHAR allocator \<Rightarrow> YORI_WIN_CTRL_HEX_EDIT \<Rightarrow> YORI_STRING
     \<Rightarrow> (bool \<times> YORI_WIN_CTRL_HEX_EDIT) option" where
  "YoriWinHexEditSetCaption Heap HexEdit NewText =
     (let Grown =
            (if LengthAllocated (Caption HexEdit) < LengthInChars NewText
             then map_option (\<lambda>NewCaption. HexEdit\<lparr>Caption := NewCaption\<rparr>)
                    (YoriLibAllocateString Heap (LengthInChars NewText))
             else Some HexEdit)
      in case Grown of
           None \<Rightarrow> Some (False, HexEdit)
         | Some HexEdit1 \<Rightarrow>
             do {
               Copied \<leftarrow>
                 (if LengthInChars NewText > 0
                  then do {
                    Data \<leftarrow> memory_read
                              (case StartOfString NewText of None \<Rightarrow> [] | Some Block \<Rightarrow> Block)
                              0 (unat (LengthInChars NewText));
                    Block \<leftarrow> memory_write
                               (case StartOfString (Caption HexEdit1) of
                                  None \<Rightarrow> [] | Some Block \<Rightarrow> Block)
                               0 Data;
                    Some (Some Block)
                  }
                  else Some (StartOfString (Caption HexEdit1)));
               Some (True,
                     HexEdit1\<lparr>Caption := (Caption HexEdit1)
                                 \<lparr>StartOfString := Copied,
                                  LengthInChars := LengthInChars NewText\<rparr>\<rparr>)
             })"

definition YoriWinHexEditDeleteData ::
  "YORI_WIN_CTRL_HEX_EDIT \<Rightarrow> DWORDLONG \<Rightarrow> DWORDLONG
     \<Rightarrow> (bool \<times> YORI_WIN_CTRL_HEX_EDIT) option" where
  "YoriWinHexEditDeleteData HexEdit DataOffset Length =
     (if DataOffset \<ge> BufferValid HexEdit then Some (False, HexEdit)
      else
        (let LengthToRemove =
               (if DataOffset + Length > BufferValid HexEdit
                then BufferValid HexEdit - DataOffset else Length)
         in do {
           HexEdit1 \<leftarrow>
             (if BufferValid HexEdit > DataOffset + LengthToRemove
              then do {
                Data \<leftarrow> BufferRead HexEdit (unat (DataOffset + LengthToRemove))
                          (unat (ucast (BufferValid HexEdit - DataOffset - LengthToRemove)
                                   :: DWORD));
                BufferWrite HexEdit (unat DataOffset) Data
              }
              else Some HexEdit);
           Some (True,
                 YoriWinHexEditExpandDirtyRange
                   (HexEdit1\<lparr>BufferValid := BufferValid HexEdit1 - LengthToRemove\<rparr>)
                   (ucast (DataOffset div ucast (BytesPerLine HexEdit1))) (- 1))
         }))"



subsection \<open>Creation\<close>

text \<open>
  The control as \<open>ZeroMemory\<close> leaves it at the start of \<open>YoriWinHexEditCreate\<close>.
\<close>

definition ZeroedHexEdit :: YORI_WIN_CTRL_HEX_EDIT where
  "ZeroedHexEdit =
     \<lparr>ClientSize = \<lparr>X = 0, Y = 0\<rparr>,
      Caption = \<lparr>StartOfString = None, LengthInChars = 0, LengthAllocated = 0\<rparr>,
      Buffer = None, BufferAllocated = 0, BufferValid = 0,
      BytesPerLine = 0, BytesPerWord = 0,
      ViewportTop = 0, ViewportLeft = 0, CursorLine = 0, CursorOffset = 0,
      FirstDirtyLine = 0, LastDirtyLine = 0,
      Selection = \<lparr>Active = YoriWinHexEditSelectNotActive,
                    FirstByteOffset = 0, LastByteOffset = 0\<rparr>,
      TextAttributes = 0, SelectedAttributes = 0, CaptionAttributes = 0,
      OffsetWidth = 0, PercentCursorVisibleLastPaint = 0,
      InsertMode = False, ReadOnly = False, HasFocus = False, UserModified = False\<rparr>"

text \<open>
  What the window manager and yorilib contribute to the creation of a control: the two
  style bits for the offset column, which are macros of yoriwin.h, whether the control
  structure could be allocated, the client area of the created control once the border
  is taken off (\<open>None\<close> when \<open>YoriWinCreateControl\<close> fails), the copy of the caption
  (\<open>None\<close> when \<open>YoriLibCopyString\<close> fails), and three colours.
\<close>

record YORI_WIN_HEX_EDIT_CREATE =
  YORI_WIN_HEX_EDIT_STYLE_OFFSET :: DWORD
  YORI_WIN_HEX_EDIT_STYLE_LARGE_OFFSET :: DWORD
  ControlAllocated :: bool
  ControlCreated :: "COORD option"
  CaptionCopied :: "YORI_STRING option"
  DefaultAttributes :: WORD
  ColorEditSelectedText :: WORD
  ColorMultilineCaption :: WORD

definition YORI_WIN_HEX_EDIT_STYLE_READ_ONLY :: DWORD where
  "YORI_WIN_HEX_EDIT_STYLE_READ_ONLY = 0x0002"

text \<open>The new control, or \<open>None\<close> where the source returns the null pointer.\<close>

definition YoriWinHexEditCreate ::
  "YORI_WIN_HEX_EDIT_CREATE \<Rightarrow> YORI_STRING option \<Rightarrow> DWORD \<Rightarrow> DWORD
     \<Rightarrow> YORI_WIN_CTRL_HEX_EDIT option" where
  "YoriWinHexEditCreate Env InitialCaption WordBytes Style =
     (let BothOffsets = YORI_WIN_HEX_EDIT_STYLE_OFFSET Env OR YORI_WIN_HEX_EDIT_STYLE_LARGE_OFFSET Env
      in if Style AND BothOffsets = BothOffsets then None
         else if WordBytes \<noteq> 1 \<and> WordBytes \<noteq> 2 \<and> WordBytes \<noteq> 4 \<and> WordBytes \<noteq> 8 then None
         else if \<not> ControlAllocated Env then None
         else
           (case ControlCreated Env of
              None \<Rightarrow> None
            | Some Client \<Rightarrow>
                (let HexEdit0 = ZeroedHexEdit\<lparr>ClientSize := Client\<rparr>;
                     WithCaption =
                       (case InitialCaption of
                          None \<Rightarrow> Some HexEdit0
                        | Some Text \<Rightarrow>
                            if LengthInChars Text > 0
                            then map_option (\<lambda>Copy. HexEdit0\<lparr>Caption := Copy\<rparr>)
                                   (CaptionCopied Env)
                            else Some HexEdit0)
                 in case WithCaption of
                      None \<Rightarrow> None
                    | Some HexEdit1 \<Rightarrow>
                        (let HexEdit2 =
                               HexEdit1\<lparr>ReadOnly :=
                                           (Style AND YORI_WIN_HEX_EDIT_STYLE_READ_ONLY \<noteq> 0),
                                        OffsetWidth :=
                                           (if Style AND YORI_WIN_HEX_EDIT_STYLE_OFFSET Env \<noteq> 0
                                              then 32
                                            else if Style AND YORI_WIN_HEX_EDIT_STYLE_LARGE_OFFSET Env \<noteq> 0
                                              then 64
                                            else 0),
                                        BytesPerLine := YORI_LIB_HEXDUMP_BYTES_PER_LINE,
                                        BytesPerWord := WordBytes,
                                        InsertMode := False,
                                        TextAttributes := DefaultAttributes Env,
                                        SelectedAttributes := ColorEditSelectedText Env,
                                        CaptionAttributes := ColorMultilineCaption Env\<rparr>;
                             (Moved, HexEdit3) = YoriWinHexEditSetCursorLocationToZero HexEdit2
                         in Some (YoriWinHexEditPaint
                                    (YoriWinHexEditExpandDirtyRange HexEdit3 0 (- 1)))))))"

subsection \<open>Auxiliary notions for the properties\<close>


text \<open>The bytes behind the \<open>Buffer\<close> pointer; none behind the null pointer.\<close>

definition BufferBytes :: "YORI_WIN_CTRL_HEX_EDIT \<Rightarrow> UCHAR list" where
  "BufferBytes HexEdit = (case Buffer HexEdit of None \<Rightarrow> [] | Some Block \<Rightarrow> Block)"

text \<open>
  A control whose lengths describe its buffer: the block holds the bytes that
  \<open>BufferAllocated\<close> counts, the valid bytes are among them, and the size of the block
  fits the 32-bit size that the allocator takes.
\<close>

definition BufferWellFormed :: "YORI_WIN_CTRL_HEX_EDIT \<Rightarrow> bool" where
  "BufferWellFormed HexEdit \<longleftrightarrow>
     unat (BufferAllocated HexEdit) \<le> length (BufferBytes HexEdit)
     \<and> BufferValid HexEdit \<le> BufferAllocated HexEdit
     \<and> BufferAllocated HexEdit \<le> 0xFFFFFFFF"

text \<open>
  A control with four bytes of data, sixteen bytes to the line and one byte to the word,
  for the concrete runs below.
\<close>

definition FourByteHexEdit :: YORI_WIN_CTRL_HEX_EDIT where
  "FourByteHexEdit =
     ZeroedHexEdit\<lparr>Buffer := Some [0x00, 0x01, 0x02, 0x03],
                   BufferAllocated := 4, BufferValid := 4,
                   BytesPerLine := YORI_LIB_HEXDUMP_BYTES_PER_LINE, BytesPerWord := 1\<rparr>"

text \<open>
  What the surroundings contribute to a creation that succeeds, with the values that
  yoriwin.h gives the two style bits.
\<close>

definition ExampleCreate :: YORI_WIN_HEX_EDIT_CREATE where
  "ExampleCreate =
     \<lparr>YORI_WIN_HEX_EDIT_STYLE_OFFSET = 0x0004,
      YORI_WIN_HEX_EDIT_STYLE_LARGE_OFFSET = 0x0008,
      ControlAllocated = True,
      ControlCreated = Some \<lparr>X = 78, Y = 20\<rparr>,
      CaptionCopied = None,
      DefaultAttributes = 0x07,
      ColorEditSelectedText = 0x70,
      ColorMultilineCaption = 0x0F\<rparr>"

text \<open>The four-byte control with its bytes 1 to 2 selected.\<close>

definition SelectedHexEdit :: YORI_WIN_CTRL_HEX_EDIT where
  "SelectedHexEdit =
     FourByteHexEdit\<lparr>Selection := \<lparr>Active = YoriWinHexEditSelectActive,
                                    FirstByteOffset = 1, LastByteOffset = 2\<rparr>\<rparr>"

text \<open>An allocator that always succeeds, with zeroed blocks, and one that always fails.\<close>

definition ZeroHeap :: "'a::zero allocator" where
  "ZeroHeap = (\<lambda>Bytes. Some (\<lambda>Index. 0))"

definition FailingHeap :: "'a allocator" where
  "FailingHeap = (\<lambda>Bytes. None)"

text \<open>
  The configurations that \<open>YoriWinHexEditCreate\<close> produces: sixteen bytes to the line, a
  word of 1, 2, 4 or 8 bytes, and no offset column or one of 32 or 64 bits.
\<close>

definition HexEditConfigured :: "YORI_WIN_CTRL_HEX_EDIT \<Rightarrow> bool" where
  "HexEditConfigured HexEdit \<longleftrightarrow>
     BytesPerLine HexEdit = YORI_LIB_HEXDUMP_BYTES_PER_LINE
     \<and> BytesPerWord HexEdit \<in> {1, 2, 4, 8}
     \<and> OffsetWidth HexEdit \<in> {0, 32, 64}"

text \<open>
  The four-byte control with none of its allocated bytes valid, for edits at and beyond
  the end of the data that need no allocation.
\<close>

definition EmptyValidHexEdit :: YORI_WIN_CTRL_HEX_EDIT where
  "EmptyValidHexEdit = FourByteHexEdit\<lparr>BufferValid := 0\<rparr>"

section \<open>Properties\<close>

subsection \<open>Frame lemmas\<close>



lemma ExpandDirtyRange_frame:
  "Buffer (YoriWinHexEditExpandDirtyRange H a b) = Buffer H"
  "BufferValid (YoriWinHexEditExpandDirtyRange H a b) = BufferValid H"
  "BufferAllocated (YoriWinHexEditExpandDirtyRange H a b) = BufferAllocated H"
  "Selection (YoriWinHexEditExpandDirtyRange H a b) = Selection H"
  "Caption (YoriWinHexEditExpandDirtyRange H a b) = Caption H"
  "BytesPerLine (YoriWinHexEditExpandDirtyRange H a b) = BytesPerLine H"
  "BytesPerWord (YoriWinHexEditExpandDirtyRange H a b) = BytesPerWord H"
  by (auto simp: YoriWinHexEditExpandDirtyRange_def Let_def)

lemma Paint_frame:
  "Buffer (YoriWinHexEditPaint H) = Buffer H"
  "BufferValid (YoriWinHexEditPaint H) = BufferValid H"
  "BufferAllocated (YoriWinHexEditPaint H) = BufferAllocated H"
  "Selection (YoriWinHexEditPaint H) = Selection H"
  "Caption (YoriWinHexEditPaint H) = Caption H"
  by (auto simp: YoriWinHexEditPaint_def Let_def)

lemma EnsureCursorVisible_frame:
  "Buffer (YoriWinHexEditEnsureCursorVisible H) = Buffer H"
  "BufferValid (YoriWinHexEditEnsureCursorVisible H) = BufferValid H"
  "BufferAllocated (YoriWinHexEditEnsureCursorVisible H) = BufferAllocated H"
  "Selection (YoriWinHexEditEnsureCursorVisible H) = Selection H"
  by (simp_all add: YoriWinHexEditEnsureCursorVisible_def Let_def ExpandDirtyRange_frame)

lemma SetCursorLocationInternal_frame:
  "Buffer (YoriWinHexEditSetCursorLocationInternal H a b) = Buffer H"
  "BufferValid (YoriWinHexEditSetCursorLocationInternal H a b) = BufferValid H"
  "BufferAllocated (YoriWinHexEditSetCursorLocationInternal H a b) = BufferAllocated H"
  "Selection (YoriWinHexEditSetCursorLocationInternal H a b) = Selection H"
  by (simp_all add: YoriWinHexEditSetCursorLocationInternal_def)

lemma SetCursorToBufferLocation_frame:
  "Buffer (snd (YoriWinHexEditSetCursorToBufferLocation H t a b)) = Buffer H"
  "BufferValid (snd (YoriWinHexEditSetCursorToBufferLocation H t a b)) = BufferValid H"
  "BufferAllocated (snd (YoriWinHexEditSetCursorToBufferLocation H t a b)) = BufferAllocated H"
  "Selection (snd (YoriWinHexEditSetCursorToBufferLocation H t a b)) = Selection H"
  by (simp_all add: YoriWinHexEditSetCursorToBufferLocation_def Let_def Paint_frame
        EnsureCursorVisible_frame SetCursorLocationInternal_frame split: prod.splits)

lemma SetCursorLocationToZero_frame:
  "Buffer (snd (YoriWinHexEditSetCursorLocationToZero H)) = Buffer H"
  "BufferValid (snd (YoriWinHexEditSetCursorLocationToZero H)) = BufferValid H"
  "BufferAllocated (snd (YoriWinHexEditSetCursorLocationToZero H)) = BufferAllocated H"
  "Selection (snd (YoriWinHexEditSetCursorLocationToZero H)) = Selection H"
  by (simp_all add: YoriWinHexEditSetCursorLocationToZero_def SetCursorToBufferLocation_frame)

lemma Clear_result:
  "fst (YoriWinHexEditClear H)"
  "Buffer (snd (YoriWinHexEditClear H)) = None"
  "BufferValid (snd (YoriWinHexEditClear H)) = 0"
  "BufferAllocated (snd (YoriWinHexEditClear H)) = 0"
  "Selection (snd (YoriWinHexEditClear H)) = Selection H"
  by (simp_all add: YoriWinHexEditClear_def Let_def case_prod_beta Paint_frame
        SetCursorLocationToZero_frame ExpandDirtyRange_frame)

lemma Create_result:
  assumes "YoriWinHexEditCreate Env Cap bpw Style = Some H"
  shows "Buffer H = None" and "BufferValid H = 0"
  using assms
  by (auto simp add: YoriWinHexEditCreate_def Let_def case_prod_beta Paint_frame
        SetCursorLocationToZero_frame ExpandDirtyRange_frame ZeroedHexEdit_def
      split: option.splits if_splits)

subsection \<open>Dirty range\<close>






subsection \<open>Reading the buffer of the control\<close>

text \<open>
  Claim C10. \<open>YoriWinHexEditGetDataNoCopy\<close> returns TRUE for every control, with the
  buffer pointer and the valid length of the control, whatever the allocated length is:
  a control that was handed a buffer reports the valid length it was handed. For a
  control that was cleared, and for a control as it is created, it reports the null
  pointer and length 0.
\<close>

theorem C10_get_data_no_copy:
  "fst (YoriWinHexEditGetDataNoCopy H)
   \<and> fst (snd (YoriWinHexEditGetDataNoCopy H)) = Buffer H
   \<and> snd (snd (YoriWinHexEditGetDataNoCopy H)) = BufferValid H
   \<and> YoriWinHexEditGetDataNoCopy
        (snd (YoriWinHexEditSetDataNoCopy H NewBuffer NewAllocated NewValid))
       = (True, Some NewBuffer, NewValid)
   \<and> YoriWinHexEditGetDataNoCopy (snd (YoriWinHexEditClear H)) = (True, None, 0)
   \<and> (\<forall>H0. YoriWinHexEditCreate Env Cap bpw Style = Some H0
          \<longrightarrow> YoriWinHexEditGetDataNoCopy H0 = (True, None, 0))"
  by (auto simp add: YoriWinHexEditGetDataNoCopy_def Clear_result Create_result
        YoriWinHexEditSetDataNoCopy_def Paint_frame ExpandDirtyRange_frame)

lemma Create_example: "YoriWinHexEditCreate ExampleCreate None 1 0 \<noteq> None"
  by (simp add: YoriWinHexEditCreate_def ExampleCreate_def Let_def case_prod_beta)

theorem C10_get_data_no_copy_witness:
  "YoriWinHexEditCreate ExampleCreate None 1 0 \<noteq> None
   \<and> YoriWinHexEditGetDataNoCopy (the (YoriWinHexEditCreate ExampleCreate None 1 0))
       = (True, None, 0)"
  using C10_get_data_no_copy[of ZeroedHexEdit "[]" 0 0 ExampleCreate None 1 0] Create_example
  by auto

subsection \<open>Selection\<close>

lemma SetSelectionRange_rejects:
  "First \<ge> BufferValid H \<or> Last \<ge> BufferValid H \<Longrightarrow>
   fst (YoriWinHexEditSetSelectionRange H First Last) = False
   \<and> Active (Selection (snd (YoriWinHexEditSetSelectionRange H First Last)))
       = YoriWinHexEditSelectActive"
  by (auto simp: YoriWinHexEditSetSelectionRange_def YoriWinHexEditClearSelection_def Let_def
        ExpandDirtyRange_frame)

lemma SetSelectionRange_accepts:
  "First < BufferValid H \<Longrightarrow> Last < BufferValid H \<Longrightarrow>
   fst (YoriWinHexEditSetSelectionRange H First Last) = True
   \<and> Selection (snd (YoriWinHexEditSetSelectionRange H First Last)) =
       \<lparr>Active = YoriWinHexEditSelectActive, FirstByteOffset = First, LastByteOffset = Last\<rparr>"
  by (auto simp: YoriWinHexEditSetSelectionRange_def YoriWinHexEditClearSelection_def Let_def
        ExpandDirtyRange_frame Paint_frame)

text \<open>
  Claim C3, at the input where the code departs from it. The control holds four valid
  bytes and no selection. Setting the range from 4 to 5, which is beyond the data,
  returns FALSE, and yet the selection is active afterwards, on the bytes 0 to 0 that
  the range fields held before: \<open>YoriWinHexEditSetSelectionRange\<close> marks the selection
  active before it compares the bounds with the valid length.
\<close>

theorem C3_rejected_range_activates_selection:
  "Active (Selection FourByteHexEdit) = YoriWinHexEditSelectNotActive
   \<and> YoriWinHexEditSetSelectionRange FourByteHexEdit 4 5
       = (False, FourByteHexEdit\<lparr>Selection := \<lparr>Active = YoriWinHexEditSelectActive,
                                  FirstByteOffset = 0, LastByteOffset = 0\<rparr>\<rparr>)"
  by (simp add: YoriWinHexEditSetSelectionRange_def YoriWinHexEditClearSelection_def Let_def
        FourByteHexEdit_def ZeroedHexEdit_def)

lemma DeleteData_SelectedHexEdit:
  "YoriWinHexEditDeleteData SelectedHexEdit 0 4 =
     Some (True, SelectedHexEdit\<lparr>BufferValid := 0, LastDirtyLine := - 1\<rparr>)"
  by (simp add: YoriWinHexEditDeleteData_def SelectedHexEdit_def FourByteHexEdit_def
        ZeroedHexEdit_def YORI_LIB_HEXDUMP_BYTES_PER_LINE_def
        YoriWinHexEditExpandDirtyRange_def Let_def word_gt_0)

text \<open>
  Claim C4, at the input where the code departs from it. The control holds four valid
  bytes, of which bytes 1 to 2 are selected. After \<open>YoriWinHexEditClear\<close> no byte is
  valid and the selection is still active on bytes 1 to 2; the same holds after
  \<open>YoriWinHexEditDeleteData\<close> has removed all four bytes. Neither routine touches the
  selection. \<open>YoriWinHexEditGetSelectedData\<close> on the cleared control then reads through
  the null buffer pointer.
\<close>

theorem C4_selection_survives_clear_and_delete:
  "Selection (snd (YoriWinHexEditClear SelectedHexEdit))
     = \<lparr>Active = YoriWinHexEditSelectActive, FirstByteOffset = 1, LastByteOffset = 2\<rparr>
   \<and> BufferValid (snd (YoriWinHexEditClear SelectedHexEdit)) = 0
   \<and> map_option (\<lambda>(Ok, H). (Ok, Selection H, BufferValid H))
        (YoriWinHexEditDeleteData SelectedHexEdit 0 4)
       = Some (True,
               \<lparr>Active = YoriWinHexEditSelectActive, FirstByteOffset = 1, LastByteOffset = 2\<rparr>,
               0)
   \<and> YoriWinHexEditGetSelectedData ZeroHeap (snd (YoriWinHexEditClear SelectedHexEdit)) = None"
  by (simp add: Clear_result DeleteData_SelectedHexEdit YoriWinHexEditGetSelectedData_def
        YoriLibReferencedMalloc_def ZeroHeap_def BufferRead_def memory_read_def Let_def)
    (simp add: SelectedHexEdit_def FourByteHexEdit_def)

subsection \<open>Buffer store\<close>

lemma unat_ucast_mod:
  "unat (ucast w :: 'b::len word) = unat (w :: 'a::len word) mod 2 ^ LENGTH('b)"
  by (simp add: unsigned_ucast_eq take_bit_eq_mod)

lemma unat_ucast_DWORD:
  "unat (w :: DWORDLONG) < 2 ^ 32 \<Longrightarrow> unat (ucast w :: DWORD) = unat w"
  by (simp add: unat_ucast_mod)

lemma unat_ucast_up:
  "unat (ucast (w :: DWORD) :: DWORDLONG) = unat w"
proof -
  have "unat w < 2 ^ 32" using unsigned_less[of w, where 'a=nat] by simp
  then show ?thesis by (simp add: unat_ucast_mod)
qed

lemma memory_read_Some:
  "Offset + Count \<le> length Block \<Longrightarrow>
   memory_read Block Offset Count = Some (take Count (drop Offset Block))"
  by (simp add: memory_read_def)

lemma memory_write_Some:
  "Offset + length Data \<le> length Block \<Longrightarrow>
   memory_write Block Offset Data = Some (take Offset Block @ Data @ drop (Offset + length Data) Block)"
  by (simp add: memory_write_def)

lemma BufferRead_Some:
  "Offset + Count \<le> length (BufferBytes H) \<Longrightarrow>
   BufferRead H Offset Count = Some (take Count (drop Offset (BufferBytes H)))"
  by (simp add: BufferRead_def BufferBytes_def memory_read_Some)

lemma BufferWrite_Some:
  "Data \<noteq> [] \<Longrightarrow> Offset + length Data \<le> length (BufferBytes H) \<Longrightarrow>
   BufferWrite H Offset Data =
     Some (H\<lparr>Buffer := Some (take Offset (BufferBytes H) @ Data @ drop (Offset + length Data) (BufferBytes H))\<rparr>)"
  by (auto simp add: BufferWrite_def BufferBytes_def memory_write_Some split: option.splits)

lemma BufferWrite_Nil: "BufferWrite H Offset [] = Some H"
  by (simp add: BufferWrite_def memory_write_def split: option.splits)

lemma EnsureBufferLength_noop:
  "NewBufferLength \<le> BufferAllocated H \<Longrightarrow>
   YoriWinHexEditEnsureBufferLength Heap H NewBufferLength = Some (True, H)"
  by (simp add: YoriWinHexEditEnsureBufferLength_def)

lemma EnsureBufferLength_failure_unchanged:
  "YoriWinHexEditEnsureBufferLength Heap H NewBufferLength = Some (False, H') \<Longrightarrow> H' = H"
  by (auto simp add: YoriWinHexEditEnsureBufferLength_def Let_def bind_eq_Some_conv
      split: if_splits option.splits)

lemma EnsureBufferLength_no_allocation:
  "BufferAllocated H < n \<Longrightarrow> Heap (unat (ucast (n + 16384) :: DWORD)) = None \<Longrightarrow>
   YoriWinHexEditEnsureBufferLength Heap H n = Some (False, H)"
  by (auto simp add: YoriWinHexEditEnsureBufferLength_def Let_def YoriLibReferencedMalloc_def)

lemma EnsureBufferLength_grow_word:
  assumes "BufferAllocated H < n" "BufferValid H \<le> n" "n + 16384 < 0xFFFFFFFF"
    and "Heap (unat (n + 16384)) = Some Contents"
    and "unat (ucast (BufferValid H) :: DWORD) \<le> length (BufferBytes H)"
    and "unat (ucast (BufferValid H) :: DWORD) \<le> unat (n + 16384)"
  shows "YoriWinHexEditEnsureBufferLength Heap H n =
     Some (True, H\<lparr>Buffer := Some (take (unat (ucast (BufferValid H) :: DWORD)) (BufferBytes H)
                                   @ drop (unat (ucast (BufferValid H) :: DWORD))
                                       (map Contents [0 ..< unat (n + 16384)])),
                   BufferAllocated := n + 16384\<rparr>)"
proof -
  have u: "unat (ucast (n + 16384) :: DWORD) = unat (n + 16384)"
    using assms(3) by (simp add: unat_ucast_mod word_less_nat_alt)
  show ?thesis
    using assms
    by (auto simp add: YoriWinHexEditEnsureBufferLength_def Let_def YoriLibReferencedMalloc_def u
        BufferRead_Some memory_write_Some word_gt_0 not_less)
qed


lemma unat_plus_16384:
  "unat (n :: DWORDLONG) + 16384 < 2 ^ 64 \<Longrightarrow> unat (n + 16384) = unat n + 16384"
  by (simp add: unat_word_ariths)

lemma EnsureBufferLength_grow:
  assumes "BufferAllocated H < n" "BufferValid H \<le> n" "unat n + 16384 < 2 ^ 32 - 1"
    and "Heap (unat n + 16384) = Some Contents"
    and "unat (BufferValid H) \<le> length (BufferBytes H)"
  shows "YoriWinHexEditEnsureBufferLength Heap H n =
     Some (True, H\<lparr>Buffer := Some (take (unat (BufferValid H)) (BufferBytes H)
                                   @ drop (unat (BufferValid H))
                                       (map Contents [0 ..< unat n + 16384])),
                   BufferAllocated := n + 16384\<rparr>)"
proof -
  have p: "unat (n + 16384) = unat n + 16384"
    using assms(3) by (intro unat_plus_16384) simp
  have v: "unat (BufferValid H) \<le> unat n"
    using assms(2) by (simp add: word_le_nat_alt)
  have vd: "unat (ucast (BufferValid H) :: DWORD) = unat (BufferValid H)"
    using v assms(3) by (intro unat_ucast_DWORD) simp
  have lt: "n + 16384 < 0xFFFFFFFF"
    using assms(3) by (simp add: word_less_nat_alt p)
  show ?thesis
    using EnsureBufferLength_grow_word[of H n Heap Contents] assms lt v
    by (simp add: p vd)
qed

lemma EnsureBufferLength_ceiling:
  assumes "BufferAllocated H < n" "unat n + 16384 < 2 ^ 64" "2 ^ 32 - 1 \<le> unat n + 16384"
  shows "YoriWinHexEditEnsureBufferLength Heap H n = Some (False, H)"
proof -
  have p: "unat (n + 16384) = unat n + 16384"
    using assms(2) by (rule unat_plus_16384)
  have "0xFFFFFFFF \<le> n + 16384"
    using assms(3) by (simp add: word_le_nat_alt p)
  then show ?thesis
    using assms(1) by (auto simp add: YoriWinHexEditEnsureBufferLength_def Let_def)
qed

text \<open>
  Claim C5, as amended. For a control whose block holds its valid bytes:
  \<open>YoriWinHexEditEnsureBufferLength\<close> returns TRUE and changes nothing when the allocated
  length already reaches the requested length \<open>n\<close>. Otherwise, when \<open>n\<close> is not below the
  valid length and the padded size \<open>n + 16384\<close> is below the ceiling \<open>2^32 - 1\<close>, it asks
  the allocator for exactly \<open>n + 16384\<close> bytes: if the allocator fails it returns FALSE,
  and if not it returns TRUE with a block of \<open>n + 16384\<close> bytes that starts with the old
  valid bytes, the allocated length set to \<open>n + 16384\<close> and nothing else changed. When
  the padded size reaches the ceiling without exceeding 64 bits, it returns FALSE
  without asking the allocator. Whenever it returns FALSE the control is unchanged.
\<close>

theorem C5_ensure_buffer_length:
  assumes "unat (BufferValid H) \<le> length (BufferBytes H)"
  shows
    "(n \<le> BufferAllocated H \<longrightarrow> YoriWinHexEditEnsureBufferLength Heap H n = Some (True, H))
     \<and> (BufferAllocated H < n \<and> BufferValid H \<le> n \<and> unat n + 16384 < 2 ^ 32 - 1 \<longrightarrow>
          (case Heap (unat n + 16384) of
             None \<Rightarrow> YoriWinHexEditEnsureBufferLength Heap H n = Some (False, H)
           | Some Contents \<Rightarrow>
               (\<exists>NewBlock.
                  YoriWinHexEditEnsureBufferLength Heap H n
                    = Some (True, H\<lparr>Buffer := Some NewBlock, BufferAllocated := n + 16384\<rparr>)
                  \<and> length NewBlock = unat n + 16384
                  \<and> unat (n + 16384) = unat n + 16384
                  \<and> take (unat (BufferValid H)) NewBlock
                      = take (unat (BufferValid H)) (BufferBytes H))))
     \<and> (BufferAllocated H < n \<and> unat n + 16384 < 2 ^ 64 \<and> 2 ^ 32 - 1 \<le> unat n + 16384 \<longrightarrow>
          YoriWinHexEditEnsureBufferLength Heap H n = Some (False, H))
     \<and> (\<forall>H'. YoriWinHexEditEnsureBufferLength Heap H n = Some (False, H') \<longrightarrow> H' = H)"
proof (intro conjI impI allI)
  assume "BufferAllocated H < n \<and> unat n + 16384 < 2 ^ 64 \<and> 2 ^ 32 - 1 \<le> unat n + 16384"
  then show "YoriWinHexEditEnsureBufferLength Heap H n = Some (False, H)"
    by (intro EnsureBufferLength_ceiling) simp_all
next
  assume "n \<le> BufferAllocated H"
  then show "YoriWinHexEditEnsureBufferLength Heap H n = Some (True, H)"
    by (rule EnsureBufferLength_noop)
next
  fix H'
  assume "YoriWinHexEditEnsureBufferLength Heap H n = Some (False, H')"
  then show "H' = H" by (rule EnsureBufferLength_failure_unchanged)
next
  assume a: "BufferAllocated H < n \<and> BufferValid H \<le> n \<and> unat n + 16384 < 2 ^ 32 - 1"
  have p: "unat (n + 16384) = unat n + 16384"
    using a by (intro unat_plus_16384) simp
  have v: "unat (BufferValid H) \<le> unat n"
    using a by (simp add: word_le_nat_alt)
  show "case Heap (unat n + 16384) of
          None \<Rightarrow> YoriWinHexEditEnsureBufferLength Heap H n = Some (False, H)
        | Some Contents \<Rightarrow>
            (\<exists>NewBlock.
               YoriWinHexEditEnsureBufferLength Heap H n
                 = Some (True, H\<lparr>Buffer := Some NewBlock, BufferAllocated := n + 16384\<rparr>)
               \<and> length NewBlock = unat n + 16384
               \<and> unat (n + 16384) = unat n + 16384
               \<and> take (unat (BufferValid H)) NewBlock
                   = take (unat (BufferValid H)) (BufferBytes H))"
  proof (cases "Heap (unat n + 16384)")
    case None
    have "unat (ucast (n + 16384) :: DWORD) = unat n + 16384"
      using a by (simp add: unat_ucast_mod p)
    with None a show ?thesis
      by (simp add: EnsureBufferLength_no_allocation)
  next
    case (Some Contents)
    from a assms have "YoriWinHexEditEnsureBufferLength Heap H n =
        Some (True, H\<lparr>Buffer := Some (take (unat (BufferValid H)) (BufferBytes H)
                                   @ drop (unat (BufferValid H))
                                       (map Contents [0 ..< unat n + 16384])),
                   BufferAllocated := n + 16384\<rparr>)"
      by (intro EnsureBufferLength_grow Some) simp_all
    moreover have "length (take (unat (BufferValid H)) (BufferBytes H)
                     @ drop (unat (BufferValid H)) (map Contents [0 ..< unat n + 16384]))
                   = unat n + 16384"
      using assms v by simp
    moreover have "take (unat (BufferValid H)) (take (unat (BufferValid H)) (BufferBytes H)
                     @ drop (unat (BufferValid H)) (map Contents [0 ..< unat n + 16384]))
                   = take (unat (BufferValid H)) (BufferBytes H)"
      using assms by simp
    ultimately show ?thesis
      unfolding Some option.case using p by blast
  qed
qed

text \<open>
  Claim C5 as stated fails: with an allocator that never fails, a request for \<open>2^32\<close>
  bytes on the empty control returns FALSE, because of the ceiling on the padded size.
\<close>

theorem C5_counterexample:
  "YoriWinHexEditEnsureBufferLength ZeroHeap ZeroedHexEdit 0x100000000 = Some (False, ZeroedHexEdit)
   \<and> (ZeroHeap :: UCHAR allocator) (unat (0x100000000 :: DWORDLONG) + 16384) \<noteq> None"
  by (simp add: YoriWinHexEditEnsureBufferLength_def ZeroedHexEdit_def ZeroHeap_def)

theorem C5_ensure_buffer_length_witness:
  "YoriWinHexEditEnsureBufferLength ZeroHeap FourByteHexEdit 4 = Some (True, FourByteHexEdit)
   \<and> (\<exists>NewBlock.
         YoriWinHexEditEnsureBufferLength ZeroHeap FourByteHexEdit 5
           = Some (True, FourByteHexEdit\<lparr>Buffer := Some NewBlock, BufferAllocated := 16389\<rparr>)
         \<and> length NewBlock = 16389
         \<and> take 4 NewBlock = [0x00, 0x01, 0x02, 0x03])
   \<and> YoriWinHexEditEnsureBufferLength FailingHeap FourByteHexEdit 5 = Some (False, FourByteHexEdit)"
proof -
  have w: "unat (BufferValid FourByteHexEdit) \<le> length (BufferBytes FourByteHexEdit)"
    by (simp add: FourByteHexEdit_def BufferBytes_def)
  have f: "BufferAllocated FourByteHexEdit = 4" "BufferValid FourByteHexEdit = 4"
    "BufferBytes FourByteHexEdit = [0x00, 0x01, 0x02, 0x03]"
    by (simp_all add: FourByteHexEdit_def BufferBytes_def)
  show ?thesis
    using C5_ensure_buffer_length[OF w, of 4 ZeroHeap]
      C5_ensure_buffer_length[OF w, of 5 ZeroHeap]
      C5_ensure_buffer_length[OF w, of 5 FailingHeap]
    by (simp add: f ZeroHeap_def FailingHeap_def)
qed

text \<open>
  Claim C9, at the input where the code departs from it. For the requested length
  \<open>2^64 - 1\<close> on the empty control the 64-bit sum \<open>n + 16384\<close> wraps to 16383, which
  passes the comparison with the ceiling: the routine allocates 16383 bytes, records
  16383 as the allocated length and returns TRUE, although far more was requested.
\<close>

theorem C9_padded_size_wraps:
  "map_option (\<lambda>(Ok, H). (Ok, BufferAllocated H, length (BufferBytes H)))
     (YoriWinHexEditEnsureBufferLength ZeroHeap ZeroedHexEdit 0xFFFFFFFFFFFFFFFF)
   = Some (True, 16383, 16383)"
proof -
  have "YoriWinHexEditEnsureBufferLength ZeroHeap ZeroedHexEdit 0xFFFFFFFFFFFFFFFF =
     Some (True, ZeroedHexEdit\<lparr>Buffer := Some (take (unat (ucast (BufferValid ZeroedHexEdit) :: DWORD)) (BufferBytes ZeroedHexEdit)
                                   @ drop (unat (ucast (BufferValid ZeroedHexEdit) :: DWORD))
                                       (map (\<lambda>Index. 0) [0 ..< unat (0xFFFFFFFFFFFFFFFF + 16384 :: DWORDLONG)])),
                   BufferAllocated := 0xFFFFFFFFFFFFFFFF + 16384\<rparr>)"
    by (rule EnsureBufferLength_grow_word) (simp_all add: ZeroedHexEdit_def ZeroHeap_def)
  then show ?thesis
    by (simp add: BufferBytes_def ZeroedHexEdit_def)
qed

subsection \<open>Buffer store of a well-formed control\<close>

lemma BufferBytes_update [simp]:
  "BufferBytes (H\<lparr>Buffer := Some Block\<rparr>) = Block"
  "BufferBytes (H\<lparr>BufferAllocated := A\<rparr>) = BufferBytes H"
  "BufferBytes (H\<lparr>BufferValid := V\<rparr>) = BufferBytes H"
  by (simp_all add: BufferBytes_def)

lemma BufferBytes_ExpandDirtyRange [simp]:
  "BufferBytes (YoriWinHexEditExpandDirtyRange H a b) = BufferBytes H"
  by (simp add: BufferBytes_def ExpandDirtyRange_frame)

lemma BufferWrite_ok:
  assumes "Offset + length Data \<le> length (BufferBytes H)"
  shows "\<exists>H'. BufferWrite H Offset Data = Some H'
            \<and> H' = H\<lparr>Buffer := Buffer H'\<rparr>
            \<and> length (BufferBytes H') = length (BufferBytes H)
            \<and> BufferBytes H' = take Offset (BufferBytes H) @ Data
                                 @ drop (Offset + length Data) (BufferBytes H)"
proof (cases "Data = []")
  case True
  then show ?thesis by (simp add: BufferWrite_Nil)
next
  case False
  with assms show ?thesis
    by (simp add: BufferWrite_Some)
qed

lemma WellFormed_valid_bound:
  assumes "BufferWellFormed H"
  shows "unat (BufferValid H) \<le> unat (BufferAllocated H)"
    and "unat (BufferAllocated H) \<le> length (BufferBytes H)"
    and "unat (BufferAllocated H) < 2 ^ 32"
    and "unat (BufferValid H) < 2 ^ 32"
  using assms by (auto simp add: BufferWellFormed_def word_le_nat_alt)

lemma EnsureBufferLength_cases:
  assumes wf: "BufferWellFormed H" and vn: "BufferValid H \<le> n" and nw: "unat n + 16384 < 2 ^ 64"
  shows "YoriWinHexEditEnsureBufferLength Heap H n = Some (False, H)
         \<or> (\<exists>H1. YoriWinHexEditEnsureBufferLength Heap H n = Some (True, H1)
               \<and> H1 = H\<lparr>Buffer := Buffer H1, BufferAllocated := BufferAllocated H1\<rparr>
               \<and> BufferWellFormed H1 \<and> n \<le> BufferAllocated H1
               \<and> take (unat (BufferValid H)) (BufferBytes H1)
                   = take (unat (BufferValid H)) (BufferBytes H))"
proof -
  note b = WellFormed_valid_bound[OF wf]
  have p: "unat (n + 16384) = unat n + 16384" using nw by (rule unat_plus_16384)
  consider (noop) "n \<le> BufferAllocated H"
    | (ceil) "BufferAllocated H < n" "0xFFFFFFFF \<le> n + 16384"
    | (nomem) "BufferAllocated H < n" "n + 16384 < 0xFFFFFFFF" "Heap (unat (n + 16384)) = None"
    | (grow) Contents where "BufferAllocated H < n" "n + 16384 < 0xFFFFFFFF"
        "Heap (unat (n + 16384)) = Some Contents"
    by (cases "Heap (unat (n + 16384))"; cases "n \<le> BufferAllocated H";
        cases "0xFFFFFFFF \<le> n + 16384") (auto simp: not_le)
  then show ?thesis
  proof cases
    case noop
    then have "YoriWinHexEditEnsureBufferLength Heap H n = Some (True, H)"
      by (rule EnsureBufferLength_noop)
    with wf noop show ?thesis by simp
  next
    case ceil
    then show ?thesis
      by (auto simp add: YoriWinHexEditEnsureBufferLength_def Let_def)
  next
    case nomem
    have "unat (ucast (n + 16384) :: DWORD) = unat (n + 16384)"
      using nomem(2) by (simp add: unat_ucast_mod word_less_nat_alt)
    with nomem show ?thesis
      by (simp add: EnsureBufferLength_no_allocation)
  next
    case grow
    have vd: "unat (ucast (BufferValid H) :: DWORD) = unat (BufferValid H)"
      using b by (intro unat_ucast_DWORD) simp
    have vn': "unat (BufferValid H) \<le> unat n" using vn by (simp add: word_le_nat_alt)
    have pl: "unat n + 16384 < 2 ^ 32 - 1"
      using grow(2) by (simp add: word_less_nat_alt p)
    let ?B = "take (unat (BufferValid H)) (BufferBytes H)
                @ drop (unat (BufferValid H)) (map Contents [0 ..< unat (n + 16384)])"
    have e: "YoriWinHexEditEnsureBufferLength Heap H n =
        Some (True, H\<lparr>Buffer := Some ?B, BufferAllocated := n + 16384\<rparr>)"
      using EnsureBufferLength_grow_word[of H n Heap Contents] grow vn b vn'
      by (simp add: vd p)
    have len: "length ?B = unat n + 16384"
      using b vn' by (simp add: p)
    have "BufferWellFormed (H\<lparr>Buffer := Some ?B, BufferAllocated := n + 16384\<rparr>)"
      using len vn' pl grow(2) unfolding BufferWellFormed_def
      by (simp add: word_le_nat_alt p)
    moreover have "n \<le> n + 16384" by (simp add: word_le_nat_alt p)
    moreover have "take (unat (BufferValid H)) ?B = take (unat (BufferValid H)) (BufferBytes H)"
      using b by simp
    ultimately show ?thesis
      using e by simp
  qed
qed



lemma EnsureBufferValid_cases:
  assumes wf: "BufferWellFormed H" and nw: "unat n + 16384 < 2 ^ 64"
  shows "(YoriWinHexEditEnsureBufferValid Heap H n = Some (False, H)
            \<and> BufferValid H < n
            \<and> YoriWinHexEditEnsureBufferLength Heap H n = Some (False, H))
         \<or> (\<exists>H'. YoriWinHexEditEnsureBufferValid Heap H n = Some (True, H')
               \<and> H' = H\<lparr>Buffer := Buffer H', BufferAllocated := BufferAllocated H',
                         BufferValid := BufferValid H'\<rparr>
               \<and> BufferWellFormed H'
               \<and> BufferValid H' = (if n \<le> BufferValid H then BufferValid H else n)
               \<and> take (unat (BufferValid H)) (BufferBytes H')
                   = take (unat (BufferValid H)) (BufferBytes H))"
proof (cases "n \<le> BufferValid H")
  case True
  then have "YoriWinHexEditEnsureBufferValid Heap H n = Some (True, H)"
    by (simp add: YoriWinHexEditEnsureBufferValid_def)
  with wf True show ?thesis by simp
next
  case False
  then have vn: "BufferValid H \<le> n" and vn': "BufferValid H < n" by simp_all
  from EnsureBufferLength_cases[OF wf vn nw, of Heap] show ?thesis
  proof (elim disjE exE conjE)
    assume "YoriWinHexEditEnsureBufferLength Heap H n = Some (False, H)"
    with False vn' show ?thesis
      by (simp add: YoriWinHexEditEnsureBufferValid_def)
  next
    fix H1
    assume e: "YoriWinHexEditEnsureBufferLength Heap H n = Some (True, H1)"
      and fr: "H1 = H\<lparr>Buffer := Buffer H1, BufferAllocated := BufferAllocated H1\<rparr>"
      and wf1: "BufferWellFormed H1" and na: "n \<le> BufferAllocated H1"
      and tk: "take (unat (BufferValid H)) (BufferBytes H1)
                 = take (unat (BufferValid H)) (BufferBytes H)"
    note b1 = WellFormed_valid_bound[OF wf1]
    have v1: "BufferValid H1 = BufferValid H"
      by (subst fr) simp
    have n32: "unat n < 2 ^ 32" using na b1 by (simp add: word_le_nat_alt)
    have d: "unat (n - BufferValid H) = unat n - unat (BufferValid H)"
      using vn by (simp add: unat_sub)
    have cnt: "unat (ucast (n - BufferValid H) :: DWORD) = unat n - unat (BufferValid H)"
      using n32 d by (simp add: unat_ucast_mod)
    have fit: "unat (BufferValid H1) + length (replicate (unat n - unat (BufferValid H)) (0::UCHAR))
                \<le> length (BufferBytes H1)"
      using vn na b1 by (simp add: v1 word_le_nat_alt)
    from BufferWrite_ok[OF fit] obtain H2 where
      w: "BufferWrite H1 (unat (BufferValid H1)) (replicate (unat n - unat (BufferValid H)) 0) = Some H2"
      and fr2: "H2 = H1\<lparr>Buffer := Buffer H2\<rparr>"
      and len2: "length (BufferBytes H2) = length (BufferBytes H1)"
      and by2: "BufferBytes H2 = take (unat (BufferValid H1)) (BufferBytes H1)
                  @ replicate (unat n - unat (BufferValid H)) 0
                  @ drop (unat (BufferValid H1) + length (replicate (unat n - unat (BufferValid H)) (0::UCHAR)))
                      (BufferBytes H1)"
      by blast
    let ?H' = "H2\<lparr>BufferValid := n\<rparr>"
    have res: "YoriWinHexEditEnsureBufferValid Heap H n = Some (True, ?H')"
      using False e w by (simp add: YoriWinHexEditEnsureBufferValid_def v1 cnt)
    have a2: "BufferAllocated H2 = BufferAllocated H1" by (subst fr2) simp
    have wf': "BufferWellFormed ?H'"
      using wf1 na len2 unfolding BufferWellFormed_def by (simp add: a2)
    have fr': "?H' = H\<lparr>Buffer := Buffer ?H', BufferAllocated := BufferAllocated ?H',
                         BufferValid := BufferValid ?H'\<rparr>"
      by (subst fr2, subst fr) (simp add: a2)
    have tk': "take (unat (BufferValid H)) (BufferBytes ?H')
                 = take (unat (BufferValid H)) (BufferBytes H)"
      using tk b1 vn WellFormed_valid_bound[OF wf] by (simp add: by2 v1 word_le_nat_alt)
    show ?thesis
      using res wf' fr' tk' False by (intro disjI2 exI[of _ ?H']) simp
  qed
qed


lemma InsertSpaceInBuffer_cases:
  assumes wf: "BufferWellFormed H" and ov: "BufferOffset \<le> BufferValid H"
  shows "(YoriWinHexEditInsertSpaceInBuffer Heap H BufferOffset k = Some (False, H)
            \<and> YoriWinHexEditEnsureBufferLength Heap H (BufferValid H + ucast k) = Some (False, H))
         \<or> (\<exists>H'. YoriWinHexEditInsertSpaceInBuffer Heap H BufferOffset k = Some (True, H')
               \<and> H' = H\<lparr>Buffer := Buffer H', BufferAllocated := BufferAllocated H',
                         BufferValid := BufferValid H'\<rparr>
               \<and> BufferWellFormed H'
               \<and> BufferValid H' = BufferValid H + ucast k
               \<and> unat (BufferValid H') = unat (BufferValid H) + unat k)"
proof -
  note b = WellFormed_valid_bound[OF wf]
  let ?n = "BufferValid H + ucast k"
  have k32: "unat k < 2 ^ 32" using unsigned_less[of k, where 'a=nat] by simp
  have uk: "unat (ucast k :: DWORDLONG) = unat k" by (rule unat_ucast_up)
  have un: "unat ?n = unat (BufferValid H) + unat k"
    using b k32 by (simp add: unat_word_ariths uk)
  have vn: "BufferValid H \<le> ?n" by (simp add: word_le_nat_alt un)
  have nw: "unat ?n + 16384 < 2 ^ 64" using b k32 by (simp add: un)
  have ov': "unat BufferOffset \<le> unat (BufferValid H)" using ov by (simp add: word_le_nat_alt)
  have notgt: "\<not> BufferValid H < BufferOffset" using ov by simp
  from EnsureBufferLength_cases[OF wf vn nw, of Heap] show ?thesis
  proof (elim disjE exE conjE)
    assume "YoriWinHexEditEnsureBufferLength Heap H ?n = Some (False, H)"
    then show ?thesis using notgt
      by (simp add: YoriWinHexEditInsertSpaceInBuffer_def)
  next
    fix H1
    assume e: "YoriWinHexEditEnsureBufferLength Heap H ?n = Some (True, H1)"
      and fr: "H1 = H\<lparr>Buffer := Buffer H1, BufferAllocated := BufferAllocated H1\<rparr>"
      and wf1: "BufferWellFormed H1" and na: "?n \<le> BufferAllocated H1"
    note b1 = WellFormed_valid_bound[OF wf1]
    have v1: "BufferValid H1 = BufferValid H" by (subst fr) simp
    have na': "unat (BufferValid H) + unat k \<le> unat (BufferAllocated H1)"
      using na by (simp add: word_le_nat_alt un)
    let ?m = "unat (BufferValid H) - unat BufferOffset"
    have mv: "unat (BufferValid H - BufferOffset) = ?m" using ov by (simp add: unat_sub)
    have mv32: "unat (ucast (BufferValid H - BufferOffset) :: DWORD) = ?m"
      using b by (simp add: unat_ucast_mod mv)
    have nbig: "\<not> 0xFFFFFFFF < BufferValid H - BufferOffset"
      using b by (simp add: word_less_nat_alt mv)
    have dst: "unat (BufferOffset + ucast k) = unat BufferOffset + unat k"
      using b ov' k32 by (simp add: unat_word_ariths uk)
    \<comment> \<open>moving the tail up\<close>
    have "\<exists>H2. (if 0 < BufferValid H - BufferOffset
                 then do {
                     Data \<leftarrow> BufferRead H1 (unat BufferOffset) ?m;
                     BufferWrite H1 (unat (BufferOffset + ucast k)) Data
                   }
                 else Some H1) = Some H2
              \<and> H2 = H1\<lparr>Buffer := Buffer H2\<rparr>
              \<and> length (BufferBytes H2) = length (BufferBytes H1)"
    proof (cases "0 < BufferValid H - BufferOffset")
      case False
      then show ?thesis by simp
    next
      case True
      have rd: "BufferRead H1 (unat BufferOffset) ?m
                  = Some (take ?m (drop (unat BufferOffset) (BufferBytes H1)))"
        using b1 ov' na' by (intro BufferRead_Some) simp
      have ln: "length (take ?m (drop (unat BufferOffset) (BufferBytes H1))) = ?m"
        using b1 ov' na' by simp
      have fit: "unat BufferOffset + unat k
                   + length (take ?m (drop (unat BufferOffset) (BufferBytes H1)))
                 \<le> length (BufferBytes H1)"
        unfolding ln using b1 ov' na' by simp
      from BufferWrite_ok[OF fit] True rd show ?thesis
        by (auto simp add: dst)
    qed
    then obtain H2 where
      mvup: "(if 0 < BufferValid H - BufferOffset
              then do {
                  Data \<leftarrow> BufferRead H1 (unat BufferOffset) ?m;
                  BufferWrite H1 (unat (BufferOffset + ucast k)) Data
                }
              else Some H1) = Some H2"
      and fr2: "H2 = H1\<lparr>Buffer := Buffer H2\<rparr>"
      and len2: "length (BufferBytes H2) = length (BufferBytes H1)"
      by blast
    have fit3: "unat BufferOffset + length (replicate (unat k) (0::UCHAR)) \<le> length (BufferBytes H2)"
      using b1 ov' na' by (simp add: len2)
    from BufferWrite_ok[OF fit3] obtain H3 where
      w3: "BufferWrite H2 (unat BufferOffset) (replicate (unat k) 0) = Some H3"
      and fr3: "H3 = H2\<lparr>Buffer := Buffer H3\<rparr>"
      and len3: "length (BufferBytes H3) = length (BufferBytes H2)"
      by blast
    have v3: "BufferValid H3 = BufferValid H" by (subst fr3, subst fr2) (simp add: v1)
    have a3: "BufferAllocated H3 = BufferAllocated H1" by (subst fr3, subst fr2) simp
    let ?H' = "H3\<lparr>BufferValid := BufferValid H + ucast k\<rparr>"
    have res: "YoriWinHexEditInsertSpaceInBuffer Heap H BufferOffset k = Some (True, ?H')"
      using notgt e nbig mvup w3
      by (auto simp add: YoriWinHexEditInsertSpaceInBuffer_def Let_def v1 mv32 v3
            bind_eq_Some_conv split: if_splits)
    have wf': "BufferWellFormed ?H'"
      using wf1 na unfolding BufferWellFormed_def by (simp add: a3 len3 len2)
    have fr': "?H' = H\<lparr>Buffer := Buffer ?H', BufferAllocated := BufferAllocated ?H',
                         BufferValid := BufferValid ?H'\<rparr>"
      by (subst fr3, subst fr2, subst fr) (simp add: a3)
    show ?thesis
      using res wf' fr' un by (intro disjI2 exI[of _ ?H']) simp
  qed
qed









lemma FourByteHexEdit_WellFormed: "BufferWellFormed FourByteHexEdit"
  by (simp add: BufferWellFormed_def FourByteHexEdit_def BufferBytes_def)





subsection \<open>Coordinate model\<close>

lemma dword_lt_16_cases:
  "(b :: DWORD) < 16 \<Longrightarrow> b \<in> {0, 1, 2, 3, 4, 5, 6, 7, 8, 9, 10, 11, 12, 13, 14, 15}"
  by (simp, unat_arith)

lemma dword_shift_cases:
  assumes "(s :: DWORD) \<le> 60" "s mod 4 = 0"
  shows "s \<in> {0, 4, 8, 12, 16, 20, 24, 28, 32, 36, 40, 44, 48, 52, 56, 60}"
proof -
  have a: "unat s \<le> 60" using assms(1) by (simp add: word_le_nat_alt)
  have "unat (s mod 4) = 0" using assms(2) by simp
  then have b: "unat s mod 4 = 0" by (simp add: unat_mod)
  from a b have "unat s \<in> {0, 4, 8, 12, 16, 20, 24, 28, 32, 36, 40, 44, 48, 52, 56, 60}"
    by simp presburger
  then show ?thesis by (simp add: word_unat_eq_iff)
qed

lemmas coord_defs = YoriWinHexEditCellType_def YoriWinHexEditOffsetSizeInCells_def
  YoriWinHexEditGetCellsPerWord_def YoriWinHexEditGetCellIndexForBitShift_def

lemma dword_aligned_cases:
  assumes "(b :: DWORD) < 16"
  shows "b mod 2 = 0 \<Longrightarrow> b \<in> {0, 2, 4, 6, 8, 10, 12, 14}"
    and "b mod 4 = 0 \<Longrightarrow> b \<in> {0, 4, 8, 12}"
    and "b mod 8 = 0 \<Longrightarrow> b \<in> {0, 8}"
proof -
  have a: "unat b < 16" using assms by (simp add: word_less_nat_alt)
  { assume "b mod 2 = 0"
    then have "unat (b mod 2) = 0" by simp
    then have "unat b mod 2 = 0" by (simp add: unat_mod)
    with a have "unat b \<in> {0, 2, 4, 6, 8, 10, 12, 14}" by simp presburger
    then show "b \<in> {0, 2, 4, 6, 8, 10, 12, 14}" by (simp add: word_unat_eq_iff) }
  { assume "b mod 4 = 0"
    then have "unat (b mod 4) = 0" by simp
    then have "unat b mod 4 = 0" by (simp add: unat_mod)
    with a have "unat b \<in> {0, 4, 8, 12}" by simp presburger
    then show "b \<in> {0, 4, 8, 12}" by (simp add: word_unat_eq_iff) }
  { assume "b mod 8 = 0"
    then have "unat (b mod 8) = 0" by simp
    then have "unat b mod 8 = 0" by (simp add: unat_mod)
    with a have "unat b \<in> {0, 8}" by simp presburger
    then show "b \<in> {0, 8}" by (simp add: word_unat_eq_iff) }
qed

lemma dword_shift_cases_le:
  assumes "(s :: DWORD) mod 4 = 0"
  shows "s \<le> 4 \<Longrightarrow> s \<in> {0, 4}"
    and "s \<le> 12 \<Longrightarrow> s \<in> {0, 4, 8, 12}"
    and "s \<le> 28 \<Longrightarrow> s \<in> {0, 4, 8, 12, 16, 20, 24, 28}"
proof -
  have m: "unat s mod 4 = 0"
  proof -
    have "unat (s mod 4) = 0" using assms by simp
    then show ?thesis by (simp add: unat_mod)
  qed
  { assume "s \<le> 4"
    then have "unat s \<le> 4" by (simp add: word_le_nat_alt)
    with m have "unat s \<in> {0, 4}" by simp presburger
    then show "s \<in> {0, 4}" by (simp add: word_unat_eq_iff) }
  { assume "s \<le> 12"
    then have "unat s \<le> 12" by (simp add: word_le_nat_alt)
    with m have "unat s \<in> {0, 4, 8, 12}" by simp presburger
    then show "s \<in> {0, 4, 8, 12}" by (simp add: word_unat_eq_iff) }
  { assume "s \<le> 28"
    then have "unat s \<le> 28" by (simp add: word_le_nat_alt)
    with m have "unat s \<in> {0, 4, 8, 12, 16, 20, 24, 28}" by simp presburger
    then show "s \<in> {0, 4, 8, 12, 16, 20, 24, 28}" by (simp add: word_unat_eq_iff) }
qed

lemma hex_cell_1:
  assumes l: "BytesPerLine H = 16" and ow: "OffsetWidth H \<in> {0, 32, 64}"
    and w: "BytesPerWord H = 1"
    and b: "b < 16" and s: "s mod 4 = 0" "s \<le> 4"
  shows "\<exists>Beyond. YoriWinHexEditCellType H Line
           (YoriWinHexEditOffsetSizeInCells H
              + (((b + BytesPerWord H - 1) div BytesPerWord H + 1) * YoriWinHexEditGetCellsPerWord H)
              - YoriWinHexEditGetCellIndexForBitShift H s
              - (if YoriWinHexEditOffsetSizeInCells H = 0 then 1 else 0) - 1)
         = (YoriWinHexEditCellTypeHexDigit, b, s, Beyond)"
  using ow dword_lt_16_cases[OF b] dword_shift_cases_le(1)[OF s] l w
  by (elim insertE emptyE; simp add: coord_defs Let_def)

lemma hex_cell_2:
  assumes l: "BytesPerLine H = 16" and ow: "OffsetWidth H \<in> {0, 32, 64}"
    and w: "BytesPerWord H = 2"
    and b: "b < 16" "b mod 2 = 0" and s: "s mod 4 = 0" "s \<le> 12"
  shows "\<exists>Beyond. YoriWinHexEditCellType H Line
           (YoriWinHexEditOffsetSizeInCells H
              + (((b + BytesPerWord H - 1) div BytesPerWord H + 1) * YoriWinHexEditGetCellsPerWord H)
              - YoriWinHexEditGetCellIndexForBitShift H s
              - (if YoriWinHexEditOffsetSizeInCells H = 0 then 1 else 0) - 1)
         = (YoriWinHexEditCellTypeHexDigit, b, s, Beyond)"
  using ow dword_aligned_cases(1)[OF b] dword_shift_cases_le(2)[OF s] l w
  by (elim insertE emptyE; simp add: coord_defs Let_def)


lemma hex_cell_4:
  assumes l: "BytesPerLine H = 16" and ow: "OffsetWidth H \<in> {0, 32, 64}"
    and w: "BytesPerWord H = 4"
    and b: "b < 16" "b mod 4 = 0" and s: "s mod 4 = 0" "s \<le> 28"
  shows "\<exists>Beyond. YoriWinHexEditCellType H Line
           (YoriWinHexEditOffsetSizeInCells H
              + (((b + BytesPerWord H - 1) div BytesPerWord H + 1) * YoriWinHexEditGetCellsPerWord H)
              - YoriWinHexEditGetCellIndexForBitShift H s
              - (if YoriWinHexEditOffsetSizeInCells H = 0 then 1 else 0) - 1)
         = (YoriWinHexEditCellTypeHexDigit, b, s, Beyond)"
  using ow dword_aligned_cases(2)[OF b] dword_shift_cases_le(3)[OF s] l w
  by (elim insertE emptyE; simp add: coord_defs Let_def)

lemma hex_cell_8:
  assumes l: "BytesPerLine H = 16" and ow: "OffsetWidth H \<in> {0, 32, 64}"
    and w: "BytesPerWord H = 8"
    and b: "b < 16" "b mod 8 = 0" and s: "s \<le> 60" "s mod 4 = 0"
  shows "\<exists>Beyond. YoriWinHexEditCellType H Line
           (YoriWinHexEditOffsetSizeInCells H
              + (((b + BytesPerWord H - 1) div BytesPerWord H + 1) * YoriWinHexEditGetCellsPerWord H)
              - YoriWinHexEditGetCellIndexForBitShift H s
              - (if YoriWinHexEditOffsetSizeInCells H = 0 then 1 else 0) - 1)
         = (YoriWinHexEditCellTypeHexDigit, b, s, Beyond)"
  using ow dword_aligned_cases(3)[OF b] dword_shift_cases[OF s] l w
  by (elim insertE emptyE; simp add: coord_defs Let_def)

lemma dword_16_le_1 [simp]: "\<not> 16 \<le> (1 :: DWORD)"
  by (simp add: word_le_nat_alt)

lemma char_cell_w:
  assumes l: "BytesPerLine H = 16" and ow: "OffsetWidth H \<in> {0, 32, 64}"
    and w: "BytesPerWord H \<in> {1, 2, 4, 8}"
    and b: "b < 16"
  shows "\<exists>Beyond. YoriWinHexEditCellType H Line
           ((if YoriWinHexEditOffsetSizeInCells H > 0 then YoriWinHexEditOffsetSizeInCells H + 1
             else YoriWinHexEditOffsetSizeInCells H)
              + BytesPerLine H div BytesPerWord H * YoriWinHexEditGetCellsPerWord H + 1 + b)
         = (YoriWinHexEditCellTypeCharValue, b, 0, Beyond)"
  using w ow dword_lt_16_cases[OF b] l
  apply (elim insertE emptyE)
  apply (simp_all add: coord_defs Let_def)
  done

lemma hex_cell:
  assumes cfg: "HexEditConfigured H"
    and b: "b < 16" "b mod BytesPerWord H = 0"
    and s: "s mod 4 = 0" "s \<le> BytesPerWord H * 8 - 4"
  shows "\<exists>Beyond. YoriWinHexEditCellType H Line
           (YoriWinHexEditOffsetSizeInCells H
              + (((b + BytesPerWord H - 1) div BytesPerWord H + 1) * YoriWinHexEditGetCellsPerWord H)
              - YoriWinHexEditGetCellIndexForBitShift H s
              - (if YoriWinHexEditOffsetSizeInCells H = 0 then 1 else 0) - 1)
         = (YoriWinHexEditCellTypeHexDigit, b, s, Beyond)"
proof -
  from cfg have l: "BytesPerLine H = 16" and ow: "OffsetWidth H \<in> {0, 32, 64}"
    and w: "BytesPerWord H = 1 \<or> BytesPerWord H = 2 \<or> BytesPerWord H = 4 \<or> BytesPerWord H = 8"
    by (auto simp: HexEditConfigured_def YORI_LIB_HEXDUMP_BYTES_PER_LINE_def)
  from w show ?thesis
  proof (elim disjE)
    assume w1: "BytesPerWord H = 1"
    have "s \<le> 4" using s(2) by (simp add: w1)
    from hex_cell_1[OF l ow w1 b(1) s(1) this] show ?thesis .
  next
    assume w2: "BytesPerWord H = 2"
    have le: "s \<le> 12" using s(2) by (simp add: w2)
    have m: "b mod 2 = 0" using b(2) by (simp only: w2)
    from hex_cell_2[OF l ow w2 b(1) m s(1) le] show ?thesis .
  next
    assume w4: "BytesPerWord H = 4"
    have le: "s \<le> 28" using s(2) by (simp add: w4)
    have m: "b mod 4 = 0" using b(2) by (simp only: w4)
    from hex_cell_4[OF l ow w4 b(1) m s(1) le] show ?thesis .
  next
    assume w8: "BytesPerWord H = 8"
    have le: "s \<le> 60" using s(2) by (simp add: w8)
    have m: "b mod 8 = 0" using b(2) by (simp only: w8)
    from hex_cell_8[OF l ow w8 b(1) m le s(1)] show ?thesis .
  qed
qed

lemma line_byte_offset:
  fixes BufferOffset :: DWORDLONG
  defines "b \<equiv> (ucast (BufferOffset mod 16) :: DWORD)"
  shows "b < 16" and "(ucast b :: DWORDLONG) = BufferOffset mod 16"
    and "unat b = unat BufferOffset mod 16"
proof -
  have m: "unat (BufferOffset mod 16) = unat BufferOffset mod 16" by (simp add: unat_mod)
  show u: "unat b = unat BufferOffset mod 16"
    unfolding b_def by (simp add: unat_ucast_mod m)
  show "b < 16" by (simp add: word_less_nat_alt u)
  show "(ucast b :: DWORDLONG) = BufferOffset mod 16"
    by (rule word_unat_eq_iff[THEN iffD2]) (simp add: unat_ucast_up u m)
qed

lemma line_byte_offset_aligned:
  fixes BufferOffset :: DWORDLONG and w :: DWORD
  assumes w: "w \<in> {1, 2, 4, 8}" and a: "BufferOffset mod ucast w = 0"
  shows "(ucast (BufferOffset mod 16) :: DWORD) mod w = 0"
proof -
  have uw: "unat (ucast w :: DWORDLONG) = unat w" by (rule unat_ucast_up)
  have "unat (BufferOffset mod ucast w) = 0" using a by simp
  then have n: "unat BufferOffset mod unat w = 0" by (simp add: unat_mod uw)
  have d: "unat w dvd 16" using w by auto
  have "unat BufferOffset mod 16 mod unat w = 0"
    using n d by (simp add: mod_mod_cancel)
  then show ?thesis
    by (intro word_unat_eq_iff[THEN iffD2]) (simp add: unat_mod line_byte_offset(3))
qed

lemma line_reconstruct:
  fixes BufferOffset :: DWORDLONG
  assumes "BufferOffset < 0x1000000000"
  shows "(ucast (ucast (BufferOffset div 16) :: DWORD) :: DWORDLONG) * 16
           + ucast (ucast (BufferOffset mod 16) :: DWORD) = BufferOffset"
proof -
  have lt: "unat BufferOffset < 2 ^ 36" using assms by (simp add: word_less_nat_alt)
  have d: "unat (BufferOffset div 16) = unat BufferOffset div 16" by (simp add: unat_div)
  have l: "unat (ucast (BufferOffset div 16) :: DWORD) = unat BufferOffset div 16"
    using lt by (simp add: unat_ucast_mod d)
  have l64: "unat (ucast (ucast (BufferOffset div 16) :: DWORD) :: DWORDLONG)
               = unat BufferOffset div 16"
    by (simp add: unat_ucast_up l)
  have m: "unat (ucast (ucast (BufferOffset mod 16) :: DWORD) :: DWORDLONG)
             = unat BufferOffset mod 16"
    by (simp add: unat_ucast_up line_byte_offset(3))
  show ?thesis
    using lt by (intro word_unat_eq_iff[THEN iffD2]) (simp add: unat_word_ariths l64 m)
qed

lemma Configured_facts:
  assumes "HexEditConfigured H"
  shows "BytesPerLine H = 16" and "(ucast (BytesPerLine H) :: DWORDLONG) = 16"
    and "BytesPerWord H \<in> {1, 2, 4, 8}"
  using assms by (auto simp: HexEditConfigured_def YORI_LIB_HEXDUMP_BYTES_PER_LINE_def)

lemma hex_round_trip:
  assumes cfg: "HexEditConfigured H"
    and al: "BufferOffset mod ucast (BytesPerWord H) = 0"
    and s: "BitShift mod 4 = 0" "BitShift \<le> BytesPerWord H * 8 - 4"
  shows "case YoriWinHexEditCellFromHexBufferOffset H BufferOffset BitShift of
           (Line, Cell) \<Rightarrow>
             (case YoriWinHexEditCellType H Line Cell of
                (CellType, ByteOffset, Shift, Beyond) \<Rightarrow>
                  CellType = YoriWinHexEditCellTypeHexDigit \<and> Shift = BitShift
                  \<and> ByteOffset = ucast (BufferOffset mod ucast (BytesPerLine H))
                  \<and> (BufferOffset < 0x1000000000 \<longrightarrow>
                        ucast Line * ucast (BytesPerLine H) + ucast ByteOffset = BufferOffset))"
proof -
  note c = Configured_facts[OF cfg]
  let ?b = "(ucast (BufferOffset mod 16) :: DWORD)"
  let ?Line = "(ucast (BufferOffset div 16) :: DWORD)"
  have b: "?b < 16" "?b mod BytesPerWord H = 0"
    using line_byte_offset(1)[of BufferOffset] line_byte_offset_aligned[OF c(3) al] by simp_all
  from hex_cell[OF cfg b s, of ?Line] obtain Beyond where
    t: "YoriWinHexEditCellType H ?Line
           (YoriWinHexEditOffsetSizeInCells H
              + (((?b + BytesPerWord H - 1) div BytesPerWord H + 1) * YoriWinHexEditGetCellsPerWord H)
              - YoriWinHexEditGetCellIndexForBitShift H BitShift
              - (if YoriWinHexEditOffsetSizeInCells H = 0 then 1 else 0) - 1)
         = (YoriWinHexEditCellTypeHexDigit, ?b, BitShift, Beyond)"
    by blast
  show ?thesis
    using t line_reconstruct[of BufferOffset]
    by (simp add: YoriWinHexEditCellFromHexBufferOffset_def Let_def c)
qed

lemma char_round_trip:
  assumes cfg: "HexEditConfigured H"
  shows "case YoriWinHexEditCellFromCharBufferOffset H BufferOffset of
           (Line, Cell) \<Rightarrow>
             (case YoriWinHexEditCellType H Line Cell of
                (CellType, ByteOffset, Shift, Beyond) \<Rightarrow>
                  CellType = YoriWinHexEditCellTypeCharValue \<and> Shift = 0
                  \<and> ByteOffset = ucast (BufferOffset mod ucast (BytesPerLine H))
                  \<and> (BufferOffset < 0x1000000000 \<longrightarrow>
                        ucast Line * ucast (BytesPerLine H) + ucast ByteOffset = BufferOffset))"
proof -
  note c = Configured_facts[OF cfg]
  from cfg have ow: "OffsetWidth H \<in> {0, 32, 64}" by (simp add: HexEditConfigured_def)
  let ?b = "(ucast (BufferOffset mod 16) :: DWORD)"
  let ?Line = "(ucast (BufferOffset div 16) :: DWORD)"
  from char_cell_w[OF c(1) ow c(3) line_byte_offset(1)[of BufferOffset], of ?Line]
  obtain Beyond where
    t: "YoriWinHexEditCellType H ?Line
           ((if YoriWinHexEditOffsetSizeInCells H > 0 then YoriWinHexEditOffsetSizeInCells H + 1
             else YoriWinHexEditOffsetSizeInCells H)
              + BytesPerLine H div BytesPerWord H * YoriWinHexEditGetCellsPerWord H + 1 + ?b)
         = (YoriWinHexEditCellTypeCharValue, ?b, 0, Beyond)"
    by blast
  show ?thesis
    using t line_reconstruct[of BufferOffset]
    by (simp add: YoriWinHexEditCellFromCharBufferOffset_def Let_def c)
qed

text \<open>
  Claim C1, as amended. In every configuration (1, 2, 4 or 8 bytes to the word; no
  offset column, or one of 32 or 64 bits), for every 64-bit buffer offset aligned to the
  word and every bit shift that is a multiple of 4 and at most \<open>BytesPerWord * 8 - 4\<close>, the
  cell that \<open>YoriWinHexEditCellFromHexBufferOffset\<close> computes is classified by
  \<open>YoriWinHexEditCellType\<close> as a hex digit with the same bit shift and with the byte
  offset of the buffer offset within its line; and for every buffer offset the cell that
  \<open>YoriWinHexEditCellFromCharBufferOffset\<close> computes is classified as a character value
  with that byte offset. When the buffer offset is below \<open>2^36\<close>, so that its line
  number fits the 32-bit line, the line and the byte offset give back the buffer offset
  as the callers compute it, line times bytes per line plus byte offset.
\<close>

theorem C1_coordinate_round_trip:
  assumes "HexEditConfigured H"
  shows
    "(BufferOffset mod ucast (BytesPerWord H) = 0
        \<and> BitShift mod 4 = 0 \<and> BitShift \<le> BytesPerWord H * 8 - 4 \<longrightarrow>
        (case YoriWinHexEditCellFromHexBufferOffset H BufferOffset BitShift of
           (Line, Cell) \<Rightarrow>
             (case YoriWinHexEditCellType H Line Cell of
                (CellType, ByteOffset, Shift, Beyond) \<Rightarrow>
                  CellType = YoriWinHexEditCellTypeHexDigit \<and> Shift = BitShift
                  \<and> ByteOffset = ucast (BufferOffset mod ucast (BytesPerLine H))
                  \<and> (BufferOffset < 0x1000000000 \<longrightarrow>
                        ucast Line * ucast (BytesPerLine H) + ucast ByteOffset = BufferOffset))))
     \<and> (case YoriWinHexEditCellFromCharBufferOffset H BufferOffset of
           (Line, Cell) \<Rightarrow>
             (case YoriWinHexEditCellType H Line Cell of
                (CellType, ByteOffset, Shift, Beyond) \<Rightarrow>
                  CellType = YoriWinHexEditCellTypeCharValue \<and> Shift = 0
                  \<and> ByteOffset = ucast (BufferOffset mod ucast (BytesPerLine H))
                  \<and> (BufferOffset < 0x1000000000 \<longrightarrow>
                        ucast Line * ucast (BytesPerLine H) + ucast ByteOffset = BufferOffset)))"
proof (intro conjI impI)
  assume "BufferOffset mod ucast (BytesPerWord H) = 0
            \<and> BitShift mod 4 = 0 \<and> BitShift \<le> BytesPerWord H * 8 - 4"
  then show "case YoriWinHexEditCellFromHexBufferOffset H BufferOffset BitShift of
           (Line, Cell) \<Rightarrow>
             (case YoriWinHexEditCellType H Line Cell of
                (CellType, ByteOffset, Shift, Beyond) \<Rightarrow>
                  CellType = YoriWinHexEditCellTypeHexDigit \<and> Shift = BitShift
                  \<and> ByteOffset = ucast (BufferOffset mod ucast (BytesPerLine H))
                  \<and> (BufferOffset < 0x1000000000 \<longrightarrow>
                        ucast Line * ucast (BytesPerLine H) + ucast ByteOffset = BufferOffset))"
    by (intro hex_round_trip[OF assms]) simp_all
next
  show "case YoriWinHexEditCellFromCharBufferOffset H BufferOffset of
           (Line, Cell) \<Rightarrow>
             (case YoriWinHexEditCellType H Line Cell of
                (CellType, ByteOffset, Shift, Beyond) \<Rightarrow>
                  CellType = YoriWinHexEditCellTypeCharValue \<and> Shift = 0
                  \<and> ByteOffset = ucast (BufferOffset mod ucast (BytesPerLine H))
                  \<and> (BufferOffset < 0x1000000000 \<longrightarrow>
                        ucast Line * ucast (BytesPerLine H) + ucast ByteOffset = BufferOffset))"
    by (rule char_round_trip[OF assms])
qed

lemma FourByteHexEdit_Configured: "HexEditConfigured FourByteHexEdit"
  by (simp add: HexEditConfigured_def FourByteHexEdit_def ZeroedHexEdit_def)

text \<open>
  Claim C1 as stated fails for a buffer offset whose line number does not fit 32 bits:
  the offset \<open>2^36\<close> is mapped to line 0, in the hex area and in the character area,
  and the classification of that cell gives byte 0 of line 0, which is buffer offset 0.
\<close>

theorem C1_counterexample:
  "YoriWinHexEditCellFromHexBufferOffset FourByteHexEdit 0x1000000000 4 = (0, 0)
   \<and> YoriWinHexEditCellType FourByteHexEdit 0 0 = (YoriWinHexEditCellTypeHexDigit, 0, 4, False)
   \<and> (ucast (0 :: DWORD) :: DWORDLONG) * ucast (BytesPerLine FourByteHexEdit) + ucast (0 :: DWORD)
        \<noteq> 0x1000000000
   \<and> YoriWinHexEditCellFromCharBufferOffset FourByteHexEdit 0x1000000000 = (0, 49)
   \<and> YoriWinHexEditCellType FourByteHexEdit 0 49 = (YoriWinHexEditCellTypeCharValue, 0, 0, False)"
  by (simp add: YoriWinHexEditCellFromHexBufferOffset_def YoriWinHexEditCellFromCharBufferOffset_def
        coord_defs YoriWinHexEditLinesPopulated_def Let_def FourByteHexEdit_def ZeroedHexEdit_def
        YORI_LIB_HEXDUMP_BYTES_PER_LINE_def)

theorem C1_coordinate_round_trip_witness:
  "HexEditConfigured FourByteHexEdit
   \<and> YoriWinHexEditCellFromHexBufferOffset FourByteHexEdit 3 4 = (0, 9)
   \<and> YoriWinHexEditCellType FourByteHexEdit 0 9 = (YoriWinHexEditCellTypeHexDigit, 3, 4, False)
   \<and> YoriWinHexEditCellFromCharBufferOffset FourByteHexEdit 3 = (0, 52)
   \<and> YoriWinHexEditCellType FourByteHexEdit 0 52 = (YoriWinHexEditCellTypeCharValue, 3, 0, False)"
proof -
  have e: "YoriWinHexEditCellFromHexBufferOffset FourByteHexEdit 3 4 = (0, 9)"
    "YoriWinHexEditCellFromCharBufferOffset FourByteHexEdit 3 = (0, 52)"
    by (simp_all add: YoriWinHexEditCellFromHexBufferOffset_def
          YoriWinHexEditCellFromCharBufferOffset_def coord_defs Let_def FourByteHexEdit_def
          ZeroedHexEdit_def YORI_LIB_HEXDUMP_BYTES_PER_LINE_def)
  have f: "snd (snd (snd (YoriWinHexEditCellType FourByteHexEdit 0 9))) = False"
    "snd (snd (snd (YoriWinHexEditCellType FourByteHexEdit 0 52))) = False"
    by (simp_all add: coord_defs YoriWinHexEditLinesPopulated_def Let_def FourByteHexEdit_def
          ZeroedHexEdit_def YORI_LIB_HEXDUMP_BYTES_PER_LINE_def)
  have b: "BytesPerLine FourByteHexEdit = 16" "BytesPerWord FourByteHexEdit = 1"
    by (simp_all add: FourByteHexEdit_def YORI_LIB_HEXDUMP_BYTES_PER_LINE_def)
  show ?thesis
    using C1_coordinate_round_trip[OF FourByteHexEdit_Configured, of 3 4] f
    by (auto simp add: e b FourByteHexEdit_Configured split: prod.splits)
qed

subsection \<open>Editing a cell when the allocator fails\<close>

lemma EnsureBufferLength_FailingHeap:
  "YoriWinHexEditEnsureBufferLength FailingHeap H n = Some (n \<le> BufferAllocated H, H)"
  by (auto simp add: YoriWinHexEditEnsureBufferLength_def YoriLibReferencedMalloc_def
        FailingHeap_def Let_def)

lemma EnsureBufferValid_FailingHeap:
  "BufferValid H < n \<Longrightarrow> BufferAllocated H < n \<Longrightarrow>
   YoriWinHexEditEnsureBufferValid FailingHeap H n = Some (False, H)"
  by (simp add: YoriWinHexEditEnsureBufferValid_def EnsureBufferLength_FailingHeap not_le)

lemma InsertSpaceInBuffer_FailingHeap:
  "BufferAllocated H < BufferValid H + ucast k \<Longrightarrow>
   YoriWinHexEditInsertSpaceInBuffer FailingHeap H BufferOffset k = Some (False, H)"
  by (simp add: YoriWinHexEditInsertSpaceInBuffer_def EnsureBufferLength_FailingHeap not_le)

lemma CellType_CharValue_shift:
  "YoriWinHexEditCellType H Line Cell = (YoriWinHexEditCellTypeCharValue, bo, bs, Beyond) \<Longrightarrow> bs = 0"
  by (auto simp add: YoriWinHexEditCellType_def Let_def split: if_splits)

lemma SetCaption_FailingHeap:
  "LengthAllocated (Caption H) < LengthInChars NewText \<Longrightarrow>
   YoriWinHexEditSetCaption FailingHeap H NewText = Some (False, H)"
  by (simp add: YoriWinHexEditSetCaption_def YoriLibAllocateString_def FailingHeap_def)

lemma OverwriteCell_FailingHeap:
  assumes va: "BufferValid H \<le> BufferAllocated H"
    and ct: "YoriWinHexEditCellType H Line Cell = (CellType, ByteOffset, BitShift, True)"
    and k: "CellType = YoriWinHexEditCellTypeHexDigit
              \<and> NewNibbleOf (YoriWinHexEditInputCharToByte InputTChar) \<noteq> None
            \<or> CellType = YoriWinHexEditCellTypeCharValue"
    and g: "BufferAllocated H
              < (let BufferOffset = ucast Line * ucast (BytesPerLine H) + ucast ByteOffset
                 in if BitShift \<ge> 8 then BufferOffset + ucast (BitShift div 8) else BufferOffset) + 1"
  shows "YoriWinHexEditOverwriteCell FailingHeap H Line Cell InputTChar = Some (True, Line, Cell, H)"
proof -
  let ?E = "(let BufferOffset = ucast Line * ucast (BytesPerLine H) + ucast ByteOffset
             in if BitShift \<ge> 8 then BufferOffset + ucast (BitShift div 8) else BufferOffset) + 1"
  have v: "BufferValid H < ?E" using va g by simp
  have e: "YoriWinHexEditEnsureBufferValid FailingHeap H ?E = Some (False, H)"
    using v g by (rule EnsureBufferValid_FailingHeap)
  from k show ?thesis
  proof
    assume "CellType = YoriWinHexEditCellTypeHexDigit
              \<and> NewNibbleOf (YoriWinHexEditInputCharToByte InputTChar) \<noteq> None"
    then show ?thesis
      using e by (auto simp add: YoriWinHexEditOverwriteCell_def ct Let_def)
  next
    assume "CellType = YoriWinHexEditCellTypeCharValue"
    then show ?thesis
      using e by (auto simp add: YoriWinHexEditOverwriteCell_def ct Let_def)
  qed
qed


lemma InsertCell_FailingHeap_reach:
  assumes ct: "YoriWinHexEditCellType H Line Cell = (CellType, ByteOffset, BitShift, True)"
    and v: "BufferValid H < ucast Line * ucast (BytesPerLine H) + ucast ByteOffset"
    and a: "BufferAllocated H < ucast Line * ucast (BytesPerLine H) + ucast ByteOffset"
  shows "YoriWinHexEditInsertCell FailingHeap H Line Cell InputTChar = Some (True, Line, Cell, H)"
  using EnsureBufferValid_FailingHeap[OF v a] v
  by (simp add: YoriWinHexEditInsertCell_def ct Let_def)

lemma InsertCell_FailingHeap_space:
  assumes ct: "YoriWinHexEditCellType H Line Cell = (CellType, ByteOffset, BitShift, Beyond)"
    and r: "\<not> (Beyond \<and> BufferValid H < ucast Line * ucast (BytesPerLine H) + ucast ByteOffset)"
    and k: "CellType = YoriWinHexEditCellTypeHexDigit
              \<and> NewNibbleOf (YoriWinHexEditInputCharToByte InputTChar) \<noteq> None
              \<and> BitShift = BytesPerWord H * 8 - 4
              \<and> BufferAllocated H < BufferValid H + ucast (BytesPerWord H)
            \<or> CellType = YoriWinHexEditCellTypeCharValue
              \<and> BufferAllocated H < BufferValid H + 1"
  shows "YoriWinHexEditInsertCell FailingHeap H Line Cell InputTChar =
           Some (True, Line, Cell,
                 YoriWinHexEditExpandDirtyRange H Line (if Beyond then - 1 else Line))"
  using k
proof
  assume h: "CellType = YoriWinHexEditCellTypeHexDigit
              \<and> NewNibbleOf (YoriWinHexEditInputCharToByte InputTChar) \<noteq> None
              \<and> BitShift = BytesPerWord H * 8 - 4
              \<and> BufferAllocated H < BufferValid H + ucast (BytesPerWord H)"
  then have "YoriWinHexEditInsertSpaceInBuffer FailingHeap H
               (ucast Line * ucast (BytesPerLine H) + ucast ByteOffset) (BytesPerWord H)
             = Some (False, H)"
    by (intro InsertSpaceInBuffer_FailingHeap) simp
  with h r show ?thesis
    by (auto simp add: YoriWinHexEditInsertCell_def ct Let_def)
next
  assume h: "CellType = YoriWinHexEditCellTypeCharValue
              \<and> BufferAllocated H < BufferValid H + 1"
  then have bs: "BitShift = 0" using CellType_CharValue_shift ct by blast
  have "YoriWinHexEditInsertSpaceInBuffer FailingHeap H
               (ucast Line * ucast (BytesPerLine H) + ucast ByteOffset) 1
             = Some (False, H)"
    using h by (intro InsertSpaceInBuffer_FailingHeap) simp
  with h r bs show ?thesis
    by (auto simp add: YoriWinHexEditInsertCell_def ct Let_def)
qed


text \<open>
  Claim C6, as amended. Let the allocator fail on every request, and let the cursor cell
  be classified by \<open>YoriWinHexEditCellType\<close> in a control whose valid length does not
  exceed its allocated length. An overwrite of a cell beyond the end of the data, with
  a character that the cell accepts, whose byte lies outside the allocation, returns
  TRUE with the cursor where it was and leaves the whole control unchanged. An insert
  at a cell beyond a gap that lies outside the allocation does the same. An insert at a
  cell with no gap before it, which needs room for a word (a hex digit at the highest
  bit shift) or a byte (a character cell) that the allocation does not have, returns
  TRUE with the cursor where it was and changes nothing but the dirty range. Setting a
  caption longer than the caption allocation returns FALSE and leaves the control
  unchanged. So the buffer and the caption keep their prior state, but only the caption
  routine reports the failure.
\<close>

theorem C6_allocation_failure:
  assumes "BufferValid H \<le> BufferAllocated H"
    and "YoriWinHexEditCellType H Line Cell = (CellType, ByteOffset, BitShift, Beyond)"
  shows
    "(let BufferOffset = ucast Line * ucast (BytesPerLine H) + ucast ByteOffset;
          EditBufferOffset = (if BitShift \<ge> 8 then BufferOffset + ucast (BitShift div 8)
                              else BufferOffset);
          HexDigitTyped = (CellType = YoriWinHexEditCellTypeHexDigit
                             \<and> NewNibbleOf (YoriWinHexEditInputCharToByte InputTChar) \<noteq> None)
      in (Beyond \<and> (HexDigitTyped \<or> CellType = YoriWinHexEditCellTypeCharValue)
            \<and> BufferAllocated H < EditBufferOffset + 1
            \<longrightarrow> YoriWinHexEditOverwriteCell FailingHeap H Line Cell InputTChar
                  = Some (True, Line, Cell, H))
         \<and> (Beyond \<and> BufferValid H < BufferOffset \<and> BufferAllocated H < BufferOffset
            \<longrightarrow> YoriWinHexEditInsertCell FailingHeap H Line Cell InputTChar
                  = Some (True, Line, Cell, H))
         \<and> (\<not> (Beyond \<and> BufferValid H < BufferOffset)
              \<and> (HexDigitTyped \<and> BitShift = BytesPerWord H * 8 - 4
                    \<and> BufferAllocated H < BufferValid H + ucast (BytesPerWord H)
                  \<or> CellType = YoriWinHexEditCellTypeCharValue
                    \<and> BufferAllocated H < BufferValid H + 1)
            \<longrightarrow> YoriWinHexEditInsertCell FailingHeap H Line Cell InputTChar
                  = Some (True, Line, Cell,
                          YoriWinHexEditExpandDirtyRange H Line (if Beyond then - 1 else Line)))
         \<and> (LengthAllocated (Caption H) < LengthInChars NewText
            \<longrightarrow> YoriWinHexEditSetCaption FailingHeap H NewText = Some (False, H)))"
  unfolding Let_def
proof (intro conjI impI)
  assume a: "Beyond \<and> (CellType = YoriWinHexEditCellTypeHexDigit
                \<and> NewNibbleOf (YoriWinHexEditInputCharToByte InputTChar) \<noteq> None
              \<or> CellType = YoriWinHexEditCellTypeCharValue)
            \<and> BufferAllocated H
                < (if 8 \<le> BitShift
                   then ucast Line * ucast (BytesPerLine H) + ucast ByteOffset + ucast (BitShift div 8)
                   else ucast Line * ucast (BytesPerLine H) + ucast ByteOffset) + 1"
  with assms(2) have ct: "YoriWinHexEditCellType H Line Cell = (CellType, ByteOffset, BitShift, True)"
    by simp
  from a show "YoriWinHexEditOverwriteCell FailingHeap H Line Cell InputTChar
                 = Some (True, Line, Cell, H)"
    by (intro OverwriteCell_FailingHeap[OF assms(1) ct]) (simp_all add: Let_def)
next
  assume a: "Beyond \<and> BufferValid H < ucast Line * ucast (BytesPerLine H) + ucast ByteOffset
             \<and> BufferAllocated H < ucast Line * ucast (BytesPerLine H) + ucast ByteOffset"
  with assms(2) have ct: "YoriWinHexEditCellType H Line Cell = (CellType, ByteOffset, BitShift, True)"
    by simp
  from a show "YoriWinHexEditInsertCell FailingHeap H Line Cell InputTChar
                 = Some (True, Line, Cell, H)"
    by (intro InsertCell_FailingHeap_reach[OF ct]) simp_all
next
  assume a: "\<not> (Beyond \<and> BufferValid H < ucast Line * ucast (BytesPerLine H) + ucast ByteOffset)
             \<and> ((CellType = YoriWinHexEditCellTypeHexDigit
                   \<and> NewNibbleOf (YoriWinHexEditInputCharToByte InputTChar) \<noteq> None)
                  \<and> BitShift = BytesPerWord H * 8 - 4
                  \<and> BufferAllocated H < BufferValid H + ucast (BytesPerWord H)
                \<or> CellType = YoriWinHexEditCellTypeCharValue
                  \<and> BufferAllocated H < BufferValid H + 1)"
  then show "YoriWinHexEditInsertCell FailingHeap H Line Cell InputTChar
               = Some (True, Line, Cell,
                       YoriWinHexEditExpandDirtyRange H Line (if Beyond then - 1 else Line))"
    by (intro InsertCell_FailingHeap_space[OF assms(2)]) auto
next
  assume "LengthAllocated (Caption H) < LengthInChars NewText"
  then show "YoriWinHexEditSetCaption FailingHeap H NewText = Some (False, H)"
    by (rule SetCaption_FailingHeap)
qed

lemma FourByteHexEdit_cell_12:
  "YoriWinHexEditCellType FourByteHexEdit 0 12 = (YoriWinHexEditCellTypeHexDigit, 4, 4, True)"
  by (simp add: coord_defs YoriWinHexEditLinesPopulated_def Let_def FourByteHexEdit_def
        ZeroedHexEdit_def YORI_LIB_HEXDUMP_BYTES_PER_LINE_def)

lemma NewNibbleOf_4: "NewNibbleOf (YoriWinHexEditInputCharToByte 0x34) = Some 4"
  by (simp add: NewNibbleOf_def YoriWinHexEditInputCharToByte_def YoriLibUpcaseChar_def Let_def)

text \<open>
  Claim C6 as stated fails: on the control whose four allocated bytes are all valid, with
  an allocator that fails, typing the digit 4 on the upper nibble of byte 4 returns TRUE
  in overwrite mode and in insert mode, although the edit needed an allocation that
  failed.
\<close>

theorem C6_counterexample:
  "YoriWinHexEditOverwriteCell FailingHeap FourByteHexEdit 0 12 0x34
     = Some (True, 0, 12, FourByteHexEdit)
   \<and> YoriWinHexEditInsertCell FailingHeap FourByteHexEdit 0 12 0x34
     = Some (True, 0, 12, FourByteHexEdit\<lparr>LastDirtyLine := - 1\<rparr>)"
proof -
  have f: "BufferValid FourByteHexEdit = 4" "BufferAllocated FourByteHexEdit = 4"
    "BytesPerWord FourByteHexEdit = 1" "BytesPerLine FourByteHexEdit = 16"
    by (simp_all add: FourByteHexEdit_def YORI_LIB_HEXDUMP_BYTES_PER_LINE_def)
  have o: "YoriWinHexEditOverwriteCell FailingHeap FourByteHexEdit 0 12 0x34
             = Some (True, 0, 12, FourByteHexEdit)"
    by (rule OverwriteCell_FailingHeap[OF _ FourByteHexEdit_cell_12])
       (simp_all add: f NewNibbleOf_4 Let_def)
  have i: "YoriWinHexEditInsertCell FailingHeap FourByteHexEdit 0 12 0x34
             = Some (True, 0, 12, YoriWinHexEditExpandDirtyRange FourByteHexEdit 0 (if True then - 1 else 0))"
    by (rule InsertCell_FailingHeap_space[OF FourByteHexEdit_cell_12])
       (simp_all add: f NewNibbleOf_4)
  have e: "YoriWinHexEditExpandDirtyRange FourByteHexEdit 0 (- 1)
             = FourByteHexEdit\<lparr>LastDirtyLine := - 1\<rparr>"
    by (simp add: YoriWinHexEditExpandDirtyRange_def FourByteHexEdit_def ZeroedHexEdit_def
          Let_def word_gt_0)
  show ?thesis using o i e by simp
qed

theorem C6_allocation_failure_witness:
  "BufferValid FourByteHexEdit \<le> BufferAllocated FourByteHexEdit
   \<and> YoriWinHexEditCellType FourByteHexEdit 0 12 = (YoriWinHexEditCellTypeHexDigit, 4, 4, True)
   \<and> YoriWinHexEditOverwriteCell FailingHeap FourByteHexEdit 0 12 0x34
       = Some (True, 0, 12, FourByteHexEdit)
   \<and> YoriWinHexEditInsertCell FailingHeap FourByteHexEdit 0 12 0x34
       = Some (True, 0, 12, YoriWinHexEditExpandDirtyRange FourByteHexEdit 0 (- 1))
   \<and> YoriWinHexEditSetCaption FailingHeap FourByteHexEdit
        \<lparr>StartOfString = Some [0x48, 0x69], LengthInChars = 2, LengthAllocated = 2\<rparr>
       = Some (False, FourByteHexEdit)"
proof -
  have f: "BufferValid FourByteHexEdit = 4" "BufferAllocated FourByteHexEdit = 4"
    "BytesPerWord FourByteHexEdit = 1" "BytesPerLine FourByteHexEdit = 16"
    "LengthAllocated (Caption FourByteHexEdit) = 0"
    by (simp_all add: FourByteHexEdit_def ZeroedHexEdit_def YORI_LIB_HEXDUMP_BYTES_PER_LINE_def)
  have v: "BufferValid FourByteHexEdit \<le> BufferAllocated FourByteHexEdit" by (simp add: f)
  show ?thesis
    using C6_allocation_failure[OF v FourByteHexEdit_cell_12, of "0x34"
            "\<lparr>StartOfString = Some [0x48, 0x69], LengthInChars = 2, LengthAllocated = 2\<rparr>"]
    by (simp add: f NewNibbleOf_4 Let_def FourByteHexEdit_cell_12)
qed

subsection \<open>Valid length after the edit of a cell\<close>

text \<open>
  The byte that an edit of a hex digit cell or a character cell addresses, and whether it
  lies beyond the valid data.
\<close>

lemma dword_lt_48_cases:
  fixes d :: DWORD
  assumes "d < 48"
  shows "\<exists>q r. d = 16 * q + r \<and> q \<in> {0, 1, 2} \<and> r < 16"
proof -
  have a: "d = 16 * (d div 16) + d mod 16" by (simp add: mult_div_mod_eq)
  from assms have "unat d < 48" by (simp add: word_less_nat_alt)
  then have "unat (d div 16) < 3" by (simp add: unat_div)
  then have "unat (d div 16) \<in> {0, 1, 2}" by (simp add: eval_nat_numeral less_Suc_eq)
  then have q: "d div 16 \<in> {0, 1, 2}" by (simp add: word_unat_eq_iff)
  have r: "d mod 16 < 16" by (simp add: word_less_nat_alt unat_mod)
  from a q r show ?thesis by blast
qed

text \<open>
  What the hex branch of \<open>YoriWinHexEditCellType\<close> computes from the position \<open>d\<close> of a
  cell among the hex cells of a line: the byte edited lies on the line and in its word.
\<close>

lemma hex_branch_facts:
  fixes d w :: DWORD
  assumes w: "w \<in> {1, 2, 4, 8}"
    and d: "d < 16 div w * (if w = 8 then w * 2 + 1 + 1 else w * 2 + 1)"
    and m: "d mod (if w = 8 then w * 2 + 1 + 1 else w * 2 + 1) \<noteq> 0"
    and e: "(if w = 8 then w * 2 + 1 + 1 else w * 2 + 1) - 1
              - d mod (if w = 8 then w * 2 + 1 + 1 else w * 2 + 1) \<noteq> 8"
  defines "c \<equiv> (if w = 8 then w * 2 + 1 + 1 else w * 2 + 1)"
  defines "m1 \<equiv> c - 1 - d mod c"
  defines "bs \<equiv> 4 * (if m1 > 8 then m1 - 1 else m1)"
  defines "bo \<equiv> d div c * w"
  shows "unat bo + unat bs div 8 < 16 \<and> unat (bs div 8) = unat bs div 8
         \<and> unat (bo + bs div 8) = unat bo + unat bs div 8
         \<and> unat bs div 8 < unat w \<and> unat bs + 4 \<le> 8 * unat w"
proof -
  have d48: "d < 48" using w d by (auto simp: word_less_nat_alt)
  from dword_lt_48_cases[OF d48] obtain q r
    where dq: "d = 16 * q + r" and q: "q \<in> {0, 1, 2}" and r16: "r < 16" by blast
  note r = dword_lt_16_cases[OF r16]
  from w q r d m e show ?thesis
    unfolding bo_def bs_def m1_def c_def dq
    apply (elim insertE emptyE)
    apply (simp_all add: word_less_nat_alt)
    done
qed

lemma CellType_editable:
  assumes cfg: "HexEditConfigured H"
    and ct: "YoriWinHexEditCellType H Line Cell = (CellType, ByteOffset, BitShift, Beyond)"
    and k: "CellType = YoriWinHexEditCellTypeHexDigit \<or> CellType = YoriWinHexEditCellTypeCharValue"
  shows "unat ByteOffset + unat BitShift div 8 < 16
         \<and> unat (BitShift div 8) = unat BitShift div 8
         \<and> unat (ByteOffset + BitShift div 8) = unat ByteOffset + unat BitShift div 8
         \<and> (CellType = YoriWinHexEditCellTypeHexDigit \<longrightarrow>
               unat BitShift div 8 < unat (BytesPerWord H)
               \<and> unat BitShift + 4 \<le> 8 * unat (BytesPerWord H))
         \<and> (CellType = YoriWinHexEditCellTypeCharValue \<longrightarrow> BitShift = 0)
         \<and> (Beyond \<longleftrightarrow>
               YoriWinHexEditLinesPopulated H \<le> Line
               \<or> (if Line + 1 = YoriWinHexEditLinesPopulated H
                   then ucast (BufferValid H - ucast Line * ucast (BytesPerLine H))
                   else BytesPerLine H) \<le> ByteOffset + BitShift div 8)"
proof -
  from cfg have l: "BytesPerLine H = 16" and w: "BytesPerWord H \<in> {1, 2, 4, 8}"
    by (auto simp: HexEditConfigured_def YORI_LIB_HEXDUMP_BYTES_PER_LINE_def)
  define oc where "oc = YoriWinHexEditOffsetSizeInCells H"
  define c where "c = (if BytesPerWord H = 8 then BytesPerWord H * 2 + 1 + 1
                       else BytesPerWord H * 2 + 1)"
  define d where "d = (if oc = 0 then Cell - oc + 1 else Cell - oc)"
  define LP where "LP = YoriWinHexEditLinesPopulated H"
  define BTL where "BTL = (if Line + 1 = LP
                           then (ucast (BufferValid H - ucast Line * ucast (BytesPerLine H)) :: DWORD)
                           else BytesPerLine H)"
  define m1 where "m1 = c - 1 - d mod c"
  define bs where "bs = 4 * (if m1 > 8 then m1 - 1 else m1)"
  define bo where "bo = d div c * BytesPerWord H"
  have ct': "YoriWinHexEditCellType H Line Cell =
     (if oc > 0 \<and> Cell < oc then (YoriWinHexEditCellTypeOffset, 0, 0, False)
      else if oc > 0 \<and> Cell = oc then (YoriWinHexEditCellTypeWhitespace, 0, 0, False)
      else if d < 16 div BytesPerWord H * c then
        (if d mod c = 0 then (YoriWinHexEditCellTypeWhitespace, 0, 0, False)
         else if m1 = 8 then (YoriWinHexEditCellTypeWhitespace, 0, 0, False)
         else (YoriWinHexEditCellTypeHexDigit, bo, bs, LP \<le> Line \<or> BTL \<le> bo + bs div 8))
      else if d - 16 div BytesPerWord H * c < 2 then (YoriWinHexEditCellTypeWhitespace, 0, 0, False)
      else if 16 \<le> d - 16 div BytesPerWord H * c - 2
        then (YoriWinHexEditCellTypeWhitespace, 0, 0, False)
      else (YoriWinHexEditCellTypeCharValue, d - 16 div BytesPerWord H * c - 2, 0,
            LP \<le> Line \<or> BTL \<le> d - 16 div BytesPerWord H * c - 2))"
    unfolding YoriWinHexEditCellType_def YoriWinHexEditGetCellsPerWord_def Let_def
      oc_def c_def d_def LP_def BTL_def m1_def bs_def bo_def l
    by simp
  from k show ?thesis
  proof
    assume h: "CellType = YoriWinHexEditCellTypeHexDigit"
    with ct ct' have br: "d < 16 div BytesPerWord H * c" "d mod c \<noteq> 0" "m1 \<noteq> 8"
      and r: "ByteOffset = bo" "BitShift = bs" "Beyond = (LP \<le> Line \<or> BTL \<le> bo + bs div 8)"
      by (auto split: if_splits)
    from hex_branch_facts[OF w br(1)[unfolded c_def] br(2)[unfolded c_def]
        br(3)[unfolded m1_def c_def]]
    have "unat bo + unat bs div 8 < 16 \<and> unat (bs div 8) = unat bs div 8
         \<and> unat (bo + bs div 8) = unat bo + unat bs div 8
         \<and> unat bs div 8 < unat (BytesPerWord H) \<and> unat bs + 4 \<le> 8 * unat (BytesPerWord H)"
      unfolding bo_def bs_def m1_def c_def .
    then show ?thesis
      using h by (simp add: r LP_def BTL_def)
  next
    assume h: "CellType = YoriWinHexEditCellTypeCharValue"
    with ct ct' have br: "\<not> 16 \<le> d - 16 div BytesPerWord H * c - 2"
      and r: "ByteOffset = d - 16 div BytesPerWord H * c - 2" "BitShift = 0"
        "Beyond = (LP \<le> Line \<or> BTL \<le> d - 16 div BytesPerWord H * c - 2)"
      by (auto split: if_splits)
    have "unat ByteOffset < 16" using br by (simp add: r word_less_nat_alt word_le_nat_alt)
    then show ?thesis
      using h by (simp add: r LP_def BTL_def)
  qed
qed

lemma LinesPopulated_unat:
  assumes "BytesPerLine H = 16" and "unat (BufferValid H) < 2 ^ 32"
  shows "unat (YoriWinHexEditLinesPopulated H) = (unat (BufferValid H) + 15) div 16"
proof -
  have a: "BufferValid H + 16 - 1 = BufferValid H + 15" by simp
  have b: "unat (BufferValid H + 15) = unat (BufferValid H) + 15"
    using assms(2) by (simp add: unat_word_ariths)
  have c: "unat ((BufferValid H + 15) div 16) = (unat (BufferValid H) + 15) div 16"
    by (simp add: unat_div b)
  show ?thesis
    using assms(2) unfolding YoriWinHexEditLinesPopulated_def assms(1)
    by (simp add: unat_ucast_mod c a)
qed

lemma Beyond_iff:
  assumes cfg: "HexEditConfigured H" and v32: "unat (BufferValid H) < 2 ^ 32"
    and ct: "YoriWinHexEditCellType H Line Cell = (CellType, ByteOffset, BitShift, Beyond)"
    and k: "CellType = YoriWinHexEditCellTypeHexDigit \<or> CellType = YoriWinHexEditCellTypeCharValue"
  shows "Beyond \<longleftrightarrow>
           unat (BufferValid H) \<le> unat Line * 16 + unat ByteOffset + unat BitShift div 8"
proof -
  from cfg have l: "BytesPerLine H = 16"
    by (auto simp: HexEditConfigured_def YORI_LIB_HEXDUMP_BYTES_PER_LINE_def)
  from CellType_editable[OF cfg ct k] have
    e16: "unat ByteOffset + unat BitShift div 8 < 16"
    and es: "unat (ByteOffset + BitShift div 8) = unat ByteOffset + unat BitShift div 8"
    and B: "Beyond \<longleftrightarrow>
               YoriWinHexEditLinesPopulated H \<le> Line
               \<or> (if Line + 1 = YoriWinHexEditLinesPopulated H
                   then ucast (BufferValid H - ucast Line * ucast (BytesPerLine H))
                   else BytesPerLine H) \<le> ByteOffset + BitShift div 8"
    by simp_all
  define v where "v = unat (BufferValid H)"
  define L where "L = unat Line"
  define e where "e = unat ByteOffset + unat BitShift div 8"
  define LP where "LP = YoriWinHexEditLinesPopulated H"
  have lp: "unat LP = (v + 15) div 16"
    unfolding LP_def v_def by (rule LinesPopulated_unat[OF l v32])
  have L32: "L < 2 ^ 32" unfolding L_def using unsigned_less[of Line, where 'a=nat] by simp
  have L16: "unat (ucast Line * 16 :: DWORDLONG) = L * 16"
    using L32 by (simp add: unat_word_ariths unat_ucast_up L_def)
  show ?thesis
  proof (cases "LP \<le> Line")
    case True
    then have "(v + 15) div 16 \<le> L" by (simp add: word_le_nat_alt lp L_def)
    then have "v \<le> L * 16 + e" by arith
    with True B show ?thesis by (simp add: LP_def v_def L_def e_def add.assoc)
  next
    case False
    then have lt: "L < (v + 15) div 16" by (simp add: word_le_nat_alt lp L_def not_le)
    then have Lv: "L * 16 < v" by arith
    have L1: "unat (Line + 1) = L + 1"
      using lt v32 by (simp add: unat_word_ariths L_def v_def)
    show ?thesis
    proof (cases "Line + 1 = LP")
      case True
      then have eq: "L + 1 = (v + 15) div 16"
        using L1 lp by (simp add: word_unat_eq_iff)
      then have vle: "v \<le> L * 16 + 16" by arith
      have "ucast Line * 16 \<le> BufferValid H"
        using Lv by (simp add: word_le_nat_alt L16 v_def)
      then have s: "unat (BufferValid H - ucast Line * 16) = v - L * 16"
        by (simp add: unat_sub L16 v_def)
      have s32: "unat (ucast (BufferValid H - ucast Line * 16) :: DWORD) = v - L * 16"
        using vle by (simp add: unat_ucast_mod s)
      have "Beyond \<longleftrightarrow> v - L * 16 \<le> e"
        using B False True by (simp add: LP_def l word_le_nat_alt s32 es e_def)
      then show ?thesis using Lv by (simp add: v_def L_def e_def add.assoc) arith
    next
      case ne: False
      then have "L + 1 \<noteq> (v + 15) div 16"
        using L1 lp by (simp add: word_unat_eq_iff)
      with lt have "L * 16 + 16 < v" by arith
      with e16 have nb: "\<not> v \<le> L * 16 + e" by (simp add: e_def)
      have "\<not> Beyond"
        using B False ne e16 by (simp add: LP_def l word_le_nat_alt es)
      with nb show ?thesis by (simp add: v_def L_def e_def add.assoc)
    qed
  qed
qed

lemma EditOffset_unat:
  fixes Line ByteOffset BitShift :: DWORD
  assumes e: "unat ByteOffset + unat BitShift div 8 < 16"
    and d: "unat (BitShift div 8) = unat BitShift div 8"
  shows "unat ((ucast Line :: DWORDLONG) * 16 + ucast ByteOffset) = unat Line * 16 + unat ByteOffset"
    and "unat (if BitShift \<ge> 8
               then (ucast Line :: DWORDLONG) * 16 + ucast ByteOffset + ucast (BitShift div 8)
               else ucast Line * 16 + ucast ByteOffset)
           = unat Line * 16 + unat ByteOffset + unat BitShift div 8"
proof -
  have L32: "unat Line < 2 ^ 32" using unsigned_less[of Line, where 'a=nat] by simp
  have L16: "unat (ucast Line * 16 :: DWORDLONG) = unat Line * 16"
    using L32 by (simp add: unat_word_ariths unat_ucast_up)
  from e have b16: "unat ByteOffset < 16" by simp
  show bo: "unat ((ucast Line :: DWORDLONG) * 16 + ucast ByteOffset) = unat Line * 16 + unat ByteOffset"
    using L32 b16 by (simp add: unat_word_ariths(1) L16 unat_ucast_up)
  show "unat (if BitShift \<ge> 8
               then (ucast Line :: DWORDLONG) * 16 + ucast ByteOffset + ucast (BitShift div 8)
               else ucast Line * 16 + ucast ByteOffset)
           = unat Line * 16 + unat ByteOffset + unat BitShift div 8"
  proof (cases "BitShift \<ge> 8")
    case True
    have "unat ((ucast Line :: DWORDLONG) * 16 + ucast ByteOffset + ucast (BitShift div 8))
            = unat Line * 16 + unat ByteOffset + unat BitShift div 8"
      using L32 e by (simp add: unat_word_ariths(1)[of "_ + _"] bo unat_ucast_up d)
    with True show ?thesis by simp
  next
    case False
    then have "unat BitShift < 8" by (simp add: word_le_nat_alt)
    then have "unat BitShift div 8 = 0" by simp
    with False bo show ?thesis by simp
  qed
qed

lemma WriteNibble_ok:
  assumes "unat EO < length (BufferBytes H)"
  shows "\<exists>H'. WriteNibble H EO s n = Some H' \<and> BufferValid H' = BufferValid H"
proof -
  have r: "BufferRead H (unat EO) (Suc 0) = Some (take (Suc 0) (drop (unat EO) (BufferBytes H)))"
    using assms by (intro BufferRead_Some) simp
  have w: "\<exists>H'. BufferWrite H (unat EO) [b] = Some H' \<and> BufferValid H' = BufferValid H" for b
    using assms by (simp add: BufferWrite_Some)
  show ?thesis
    using w by (simp add: WriteNibble_def r Let_def)
qed

lemma WriteByte_ok:
  assumes "unat EO < length (BufferBytes H)"
  shows "\<exists>H'. BufferWrite H (unat EO) [b] = Some H' \<and> BufferValid H' = BufferValid H"
  using assms by (simp add: BufferWrite_Some)

lemma NextCellSameType_Some:
  "CellType = YoriWinHexEditCellTypeHexDigit \<or> CellType = YoriWinHexEditCellTypeCharValue \<Longrightarrow>
   \<exists>L C. YoriWinHexEditNextCellSameType H CellType bo bs = Some (L, C)"
  by (auto simp add: YoriWinHexEditNextCellSameType_def Let_def)

lemma Updated_valid:
  assumes "CellType = YoriWinHexEditCellTypeHexDigit \<or> CellType = YoriWinHexEditCellTypeCharValue"
  shows "\<exists>L C H3.
           (case YoriWinHexEditNextCellSameType H2 CellType BO bs of
              Some (Line', Cell') \<Rightarrow>
                (True, Line', Cell',
                 (YoriWinHexEditExpandDirtyRange H2 Line Line')\<lparr>UserModified := True\<rparr>)
            | None \<Rightarrow>
                (True, Line, Cell,
                 (YoriWinHexEditExpandDirtyRange H2 Line Line)\<lparr>UserModified := True\<rparr>))
             = (True, L, C, H3)
           \<and> BufferValid H3 = BufferValid H2"
proof -
  from NextCellSameType_Some[OF assms] obtain L C
    where "YoriWinHexEditNextCellSameType H2 CellType BO bs = Some (L, C)" by blast
  then show ?thesis by (simp add: ExpandDirtyRange_frame)
qed

lemma Overwrite_step:
  fixes W :: "YORI_WIN_CTRL_HEX_EDIT \<Rightarrow> YORI_WIN_CTRL_HEX_EDIT option"
    and Upd :: "YORI_WIN_CTRL_HEX_EDIT \<Rightarrow> cell_edit"
  assumes wf: "BufferWellFormed H"
    and eo: "unat EO < 2 ^ 40"
    and bey: "Beyond \<longleftrightarrow> unat (BufferValid H) \<le> unat EO"
    and W: "\<And>H1. unat EO < length (BufferBytes H1) \<Longrightarrow>
                 \<exists>H2. W H1 = Some H2 \<and> BufferValid H2 = BufferValid H1"
    and U: "\<And>H2. \<exists>L C H3. Upd H2 = (True, L, C, H3) \<and> BufferValid H3 = BufferValid H2"
  shows "\<exists>L C H'.
           do {
             (Reached, H1) \<leftarrow>
               (if Beyond then YoriWinHexEditEnsureBufferValid Heap H (EO + 1)
                else Some (True, H));
             if \<not> Reached then Some (True, Line, Cell, H1)
             else do { H2 \<leftarrow> W H1; Some (Upd H2) }
           } = Some (True, L, C, H')
           \<and> (BufferValid H' = BufferValid H
                \<and> (Beyond \<longrightarrow>
                      YoriWinHexEditEnsureBufferLength Heap H (EO + 1) = Some (False, H))
              \<or> Beyond \<and> unat (BufferValid H') = unat EO + 1
                \<and> BufferValid H < BufferValid H')"
proof (cases Beyond)
  case False
  note b = WellFormed_valid_bound[OF wf]
  from False bey b have "unat EO < length (BufferBytes H)" by simp
  from W[OF this] obtain H2 where w: "W H = Some H2" "BufferValid H2 = BufferValid H" by blast
  from U[of H2] obtain L C H3 where u: "Upd H2 = (True, L, C, H3)" "BufferValid H3 = BufferValid H2"
    by blast
  from False w u show ?thesis by simp
next
  case True
  have n: "unat (EO + 1) = unat EO + 1" using eo by (simp add: unat_word_ariths)
  have nw: "unat (EO + 1) + 16384 < 2 ^ 64" using eo by (simp add: n)
  from True bey have nle: "\<not> EO + 1 \<le> BufferValid H" by (simp add: word_le_nat_alt n)
  from EnsureBufferValid_cases[OF wf nw, of Heap] show ?thesis
  proof (elim disjE exE conjE)
    assume "YoriWinHexEditEnsureBufferValid Heap H (EO + 1) = Some (False, H)"
      and "YoriWinHexEditEnsureBufferLength Heap H (EO + 1) = Some (False, H)"
    with True show ?thesis by simp
  next
    fix H1
    assume e: "YoriWinHexEditEnsureBufferValid Heap H (EO + 1) = Some (True, H1)"
      and wf1: "BufferWellFormed H1"
      and v1: "BufferValid H1 = (if EO + 1 \<le> BufferValid H then BufferValid H else EO + 1)"
    from v1 nle have v: "BufferValid H1 = EO + 1" by simp
    note b = WellFormed_valid_bound[OF wf1]
    from b have "unat EO < length (BufferBytes H1)" by (simp add: v n)
    from W[OF this] obtain H2 where w: "W H1 = Some H2" "BufferValid H2 = BufferValid H1" by blast
    from U[of H2] obtain L C H3 where u: "Upd H2 = (True, L, C, H3)" "BufferValid H3 = BufferValid H2"
      by blast
    from nle have lt: "BufferValid H < EO + 1" by simp
    from True e w u v n lt show ?thesis by simp
  qed
qed

lemma OverwriteCell_cases:
  assumes cfg: "HexEditConfigured H" and wf: "BufferWellFormed H"
    and ct: "YoriWinHexEditCellType H Line Cell = (CellType, ByteOffset, BitShift, Beyond)"
  shows "\<exists>L C H'.
           YoriWinHexEditOverwriteCell Heap H Line Cell InputTChar = Some (True, L, C, H')
           \<and> (if Beyond \<and> (CellType = YoriWinHexEditCellTypeHexDigit
                               \<and> NewNibbleOf (YoriWinHexEditInputCharToByte InputTChar) \<noteq> None
                             \<or> CellType = YoriWinHexEditCellTypeCharValue)
              then BufferValid H' = BufferValid H
                     \<and> YoriWinHexEditEnsureBufferLength Heap H
                          (of_nat (unat Line * 16 + unat ByteOffset + unat BitShift div 8 + 1))
                         = Some (False, H)
                   \<or> unat (BufferValid H')
                         = unat Line * 16 + unat ByteOffset + unat BitShift div 8 + 1
                     \<and> BufferValid H < BufferValid H'
              else BufferValid H' = BufferValid H)"
proof -
  from cfg have l: "BytesPerLine H = 16"
    by (auto simp: HexEditConfigured_def YORI_LIB_HEXDUMP_BYTES_PER_LINE_def)
  define BO where "BO = (ucast Line :: DWORDLONG) * 16 + ucast ByteOffset"
  define EO where "EO = (if BitShift \<ge> 8 then BO + ucast (BitShift div 8) else BO)"
  define ES where "ES = (if BitShift \<ge> 8 then BitShift mod 8 else BitShift)"
  define Upd where "Upd = (\<lambda>H2.
           (case YoriWinHexEditNextCellSameType H2 CellType BO BitShift of
              Some (Line', Cell') \<Rightarrow>
                (True, Line', Cell',
                 (YoriWinHexEditExpandDirtyRange H2 Line Line')\<lparr>UserModified := True\<rparr>)
            | None \<Rightarrow>
                (True, Line, Cell,
                 (YoriWinHexEditExpandDirtyRange H2 Line Line)\<lparr>UserModified := True\<rparr>)))"
  have edit: "\<exists>L C H'.
           YoriWinHexEditOverwriteCell Heap H Line Cell InputTChar = Some (True, L, C, H')
           \<and> (BufferValid H' = BufferValid H
                \<and> (Beyond \<longrightarrow>
                      YoriWinHexEditEnsureBufferLength Heap H
                        (of_nat (unat Line * 16 + unat ByteOffset + unat BitShift div 8 + 1))
                      = Some (False, H))
              \<or> Beyond \<and> unat (BufferValid H')
                           = unat Line * 16 + unat ByteOffset + unat BitShift div 8 + 1
                \<and> BufferValid H < BufferValid H')"
    if k: "CellType = YoriWinHexEditCellTypeHexDigit \<or> CellType = YoriWinHexEditCellTypeCharValue"
      and eq: "YoriWinHexEditOverwriteCell Heap H Line Cell InputTChar =
           do {
             (Reached, H1) \<leftarrow>
               (if Beyond then YoriWinHexEditEnsureBufferValid Heap H (EO + 1)
                else Some (True, H));
             if \<not> Reached then Some (True, Line, Cell, H1)
             else do { H2 \<leftarrow> W H1; Some (Upd H2) }
           }"
      and W: "\<And>H1. unat EO < length (BufferBytes H1) \<Longrightarrow>
                 \<exists>H2. W H1 = Some H2 \<and> BufferValid H2 = BufferValid H1"
    for W
  proof -
    note e = CellType_editable[OF cfg ct k]
    from e have e16: "unat ByteOffset + unat BitShift div 8 < 16"
      and ed: "unat (BitShift div 8) = unat BitShift div 8" by simp_all
    have ueo: "unat EO = unat Line * 16 + unat ByteOffset + unat BitShift div 8"
      unfolding EO_def BO_def using EditOffset_unat(2)[OF e16 ed, of Line] by simp
    have L32: "unat Line < 2 ^ 32" using unsigned_less[of Line, where 'a=nat] by simp
    have eo: "unat EO < 2 ^ 40" using L32 e16 by (simp add: ueo)
    have bey: "Beyond \<longleftrightarrow> unat (BufferValid H) \<le> unat EO"
      using Beyond_iff[OF cfg WellFormed_valid_bound(4)[OF wf] ct k] by (simp add: ueo)
    have U: "\<exists>L C H3. Upd H2 = (True, L, C, H3) \<and> BufferValid H3 = BufferValid H2" for H2
      unfolding Upd_def by (rule Updated_valid[OF k])
    have "EO + 1 = of_nat (unat EO + 1)" by simp
    then have eo1: "EO + 1 = of_nat (unat Line * 16 + unat ByteOffset + unat BitShift div 8 + 1)"
      unfolding ueo .
    from Overwrite_step[of H EO Beyond W Upd Heap Line Cell, OF wf eo bey W U]
    show ?thesis unfolding eq ueo eo1 by (simp add: add.assoc)
  qed
  show ?thesis
  proof (cases CellType)
    case YoriWinHexEditCellTypeOffset
    then show ?thesis by (simp add: YoriWinHexEditOverwriteCell_def ct Let_def)
  next
    case YoriWinHexEditCellTypeWhitespace
    then show ?thesis by (simp add: YoriWinHexEditOverwriteCell_def ct Let_def)
  next
    case h: YoriWinHexEditCellTypeHexDigit
    show ?thesis
    proof (cases "NewNibbleOf (YoriWinHexEditInputCharToByte InputTChar)")
      case None
      with h show ?thesis by (simp add: YoriWinHexEditOverwriteCell_def ct Let_def)
    next
      case (Some n)
      have "\<exists>L C H'.
           YoriWinHexEditOverwriteCell Heap H Line Cell InputTChar = Some (True, L, C, H')
           \<and> (BufferValid H' = BufferValid H
                \<and> (Beyond \<longrightarrow>
                      YoriWinHexEditEnsureBufferLength Heap H
                        (of_nat (unat Line * 16 + unat ByteOffset + unat BitShift div 8 + 1))
                      = Some (False, H))
              \<or> Beyond \<and> unat (BufferValid H')
                           = unat Line * 16 + unat ByteOffset + unat BitShift div 8 + 1
                \<and> BufferValid H < BufferValid H')"
      proof (rule edit[where W = "\<lambda>H1. WriteNibble H1 EO ES n"])
        show "CellType = YoriWinHexEditCellTypeHexDigit \<or> CellType = YoriWinHexEditCellTypeCharValue"
          using h by simp
        show "YoriWinHexEditOverwriteCell Heap H Line Cell InputTChar =
           do {
             (Reached, H1) \<leftarrow>
               (if Beyond then YoriWinHexEditEnsureBufferValid Heap H (EO + 1)
                else Some (True, H));
             if \<not> Reached then Some (True, Line, Cell, H1)
             else do { H2 \<leftarrow> WriteNibble H1 EO ES n; Some (Upd H2) }
           }"
          unfolding Upd_def EO_def ES_def BO_def h
          by (simp add: YoriWinHexEditOverwriteCell_def ct[unfolded h] Some l Let_def)
        show "\<exists>H2. WriteNibble H1 EO ES n = Some H2 \<and> BufferValid H2 = BufferValid H1"
          if "unat EO < length (BufferBytes H1)" for H1
          using that by (rule WriteNibble_ok)
      qed
      then obtain L C H' where
        r: "YoriWinHexEditOverwriteCell Heap H Line Cell InputTChar = Some (True, L, C, H')"
          "BufferValid H' = BufferValid H
                \<and> (Beyond \<longrightarrow>
                      YoriWinHexEditEnsureBufferLength Heap H
                        (of_nat (unat Line * 16 + unat ByteOffset + unat BitShift div 8 + 1))
                      = Some (False, H))
              \<or> Beyond \<and> unat (BufferValid H')
                           = unat Line * 16 + unat ByteOffset + unat BitShift div 8 + 1
                \<and> BufferValid H < BufferValid H'"
        by blast
      from r(2) show ?thesis
        unfolding r(1) using h Some by auto
    qed
  next
    case c: YoriWinHexEditCellTypeCharValue
    have "\<exists>L C H'.
           YoriWinHexEditOverwriteCell Heap H Line Cell InputTChar = Some (True, L, C, H')
           \<and> (BufferValid H' = BufferValid H
                \<and> (Beyond \<longrightarrow>
                      YoriWinHexEditEnsureBufferLength Heap H
                        (of_nat (unat Line * 16 + unat ByteOffset + unat BitShift div 8 + 1))
                      = Some (False, H))
              \<or> Beyond \<and> unat (BufferValid H')
                           = unat Line * 16 + unat ByteOffset + unat BitShift div 8 + 1
                \<and> BufferValid H < BufferValid H')"
    proof (rule edit[where W = "\<lambda>H1. BufferWrite H1 (unat EO)
                                   [YoriWinHexEditInputCharToByte InputTChar]"])
      show "CellType = YoriWinHexEditCellTypeHexDigit \<or> CellType = YoriWinHexEditCellTypeCharValue"
        using c by simp
      show "YoriWinHexEditOverwriteCell Heap H Line Cell InputTChar =
           do {
             (Reached, H1) \<leftarrow>
               (if Beyond then YoriWinHexEditEnsureBufferValid Heap H (EO + 1)
                else Some (True, H));
             if \<not> Reached then Some (True, Line, Cell, H1)
             else do { H2 \<leftarrow> BufferWrite H1 (unat EO) [YoriWinHexEditInputCharToByte InputTChar];
                       Some (Upd H2) }
           }"
        unfolding Upd_def EO_def ES_def BO_def c
        by (simp add: YoriWinHexEditOverwriteCell_def ct[unfolded c] l Let_def)
      show "\<exists>H2. BufferWrite H1 (unat EO) [YoriWinHexEditInputCharToByte InputTChar] = Some H2
                  \<and> BufferValid H2 = BufferValid H1"
        if "unat EO < length (BufferBytes H1)" for H1
        using that by (rule WriteByte_ok)
    qed
    then obtain L C H' where
      r: "YoriWinHexEditOverwriteCell Heap H Line Cell InputTChar = Some (True, L, C, H')"
        "BufferValid H' = BufferValid H
              \<and> (Beyond \<longrightarrow>
                    YoriWinHexEditEnsureBufferLength Heap H
                      (of_nat (unat Line * 16 + unat ByteOffset + unat BitShift div 8 + 1))
                    = Some (False, H))
            \<or> Beyond \<and> unat (BufferValid H')
                         = unat Line * 16 + unat ByteOffset + unat BitShift div 8 + 1
              \<and> BufferValid H < BufferValid H'"
      by blast
    from r(2) show ?thesis
      unfolding r(1) using c by auto
  qed
qed

lemma Insert_finish:
  "\<exists>L C H'.
     (let (CurrentLine, CurrentCharOffset, HexEdit6) =
            (if CellUpdated
             then (case YoriWinHexEditNextCellSameType H2 CellType BO bs of
                     Some (Line', Cell') \<Rightarrow> (Line', Cell', H2\<lparr>UserModified := True\<rparr>)
                   | None \<Rightarrow> (Line, Cell, H2\<lparr>UserModified := True\<rparr>))
             else (Line, Cell, H2))
      in Some (True, CurrentLine, CurrentCharOffset,
               YoriWinHexEditExpandDirtyRange HexEdit6 Line DirtyLastLine))
       = Some (True, L, C, H')
     \<and> BufferValid H' = BufferValid H2"
  by (cases CellUpdated; cases "YoriWinHexEditNextCellSameType H2 CellType BO bs")
     (auto simp add: ExpandDirtyRange_frame)

lemma InsertCell_other_nibble:
  assumes cfg: "HexEditConfigured H" and wf: "BufferWellFormed H"
    and ct: "YoriWinHexEditCellType H Line Cell
               = (YoriWinHexEditCellTypeHexDigit, ByteOffset, BitShift, False)"
    and ns: "BitShift \<noteq> BytesPerWord H * 8 - 4"
  shows "\<exists>L C H'.
           YoriWinHexEditInsertCell Heap H Line Cell InputTChar = Some (True, L, C, H')
           \<and> BufferValid H' = BufferValid H"
proof -
  from cfg have l: "BytesPerLine H = 16"
    by (auto simp: HexEditConfigured_def YORI_LIB_HEXDUMP_BYTES_PER_LINE_def)
  define BO where "BO = (ucast Line :: DWORDLONG) * 16 + ucast ByteOffset"
  define EO where "EO = (if BitShift \<ge> 8 then BO + ucast (BitShift div 8) else BO)"
  define ES where "ES = (if BitShift \<ge> 8 then BitShift mod 8 else BitShift)"
  note e = CellType_editable[OF cfg ct disjI1[OF refl]]
  from e have e16: "unat ByteOffset + unat BitShift div 8 < 16"
    and ed: "unat (BitShift div 8) = unat BitShift div 8" by simp_all
  have ueo: "unat EO = unat Line * 16 + unat ByteOffset + unat BitShift div 8"
    unfolding EO_def BO_def using EditOffset_unat(2)[OF e16 ed, of Line] by simp
  note b = WellFormed_valid_bound[OF wf]
  have "unat EO < unat (BufferValid H)"
    using Beyond_iff[OF cfg b(4) ct disjI1[OF refl]] by (simp add: ueo)
  with b have len: "unat EO < length (BufferBytes H)" by simp
  show ?thesis
  proof (cases "NewNibbleOf (YoriWinHexEditInputCharToByte InputTChar)")
    case None
    from Insert_finish[where CellUpdated = False and ?H2.0 = H
           and CellType = YoriWinHexEditCellTypeHexDigit and BO = BO and bs = BitShift
           and Line = Line and Cell = Cell and DirtyLastLine = Line]
    show ?thesis
      using ns by (simp add: YoriWinHexEditInsertCell_def ct None l Let_def BO_def)
  next
    case (Some n)
    from WriteNibble_ok[OF len, of ES n] obtain H5
      where w: "WriteNibble H EO ES n = Some H5" "BufferValid H5 = BufferValid H" by blast
    from Insert_finish[where CellUpdated = True and ?H2.0 = H5
           and CellType = YoriWinHexEditCellTypeHexDigit and BO = BO and bs = BitShift
           and Line = Line and Cell = Cell and DirtyLastLine = Line]
    show ?thesis
      using ns w unfolding EO_def ES_def BO_def
      by (simp add: YoriWinHexEditInsertCell_def ct Some l Let_def)
  qed
qed

lemma InsertCell_first_nibble:
  assumes cfg: "HexEditConfigured H" and wf: "BufferWellFormed H"
    and ct: "YoriWinHexEditCellType H Line Cell
               = (YoriWinHexEditCellTypeHexDigit, ByteOffset, BitShift, Beyond)"
    and nn: "NewNibbleOf (YoriWinHexEditInputCharToByte InputTChar) = Some n"
    and ms: "BitShift = BytesPerWord H * 8 - 4"
    and ov: "unat Line * 16 + unat ByteOffset \<le> unat (BufferValid H)"
  shows "\<exists>L C H'.
           YoriWinHexEditInsertCell Heap H Line Cell InputTChar = Some (True, L, C, H')
           \<and> (BufferValid H' = BufferValid H
                \<and> YoriWinHexEditEnsureBufferLength Heap H
                     (BufferValid H + ucast (BytesPerWord H)) = Some (False, H)
              \<or> unat (BufferValid H') = unat (BufferValid H) + unat (BytesPerWord H))"
proof -
  from cfg have l: "BytesPerLine H = 16"
    by (auto simp: HexEditConfigured_def YORI_LIB_HEXDUMP_BYTES_PER_LINE_def)
  define BO where "BO = (ucast Line :: DWORDLONG) * 16 + ucast ByteOffset"
  define EO where "EO = (if BitShift \<ge> 8 then BO + ucast (BitShift div 8) else BO)"
  define ES where "ES = (if BitShift \<ge> 8 then BitShift mod 8 else BitShift)"
  define D0 where "D0 = (if Beyond then - 1 else Line)"
  note e = CellType_editable[OF cfg ct disjI1[OF refl]]
  from e have e16: "unat ByteOffset + unat BitShift div 8 < 16"
    and ed: "unat (BitShift div 8) = unat BitShift div 8"
    and ew: "unat BitShift div 8 < unat (BytesPerWord H)" by simp_all
  have ubo: "unat BO = unat Line * 16 + unat ByteOffset"
    unfolding BO_def using EditOffset_unat(1)[OF e16 ed, of Line] by simp
  have ueo: "unat EO = unat Line * 16 + unat ByteOffset + unat BitShift div 8"
    unfolding EO_def BO_def using EditOffset_unat(2)[OF e16 ed, of Line] by simp
  have ov': "BO \<le> BufferValid H" using ov by (simp add: word_le_nat_alt ubo)
  then have ngt: "\<not> BufferValid H < BO" by simp
  from InsertSpaceInBuffer_cases[OF wf ov', of Heap "BytesPerWord H"] show ?thesis
  proof (elim disjE exE conjE)
    assume f: "YoriWinHexEditInsertSpaceInBuffer Heap H BO (BytesPerWord H) = Some (False, H)"
      and g: "YoriWinHexEditEnsureBufferLength Heap H (BufferValid H + ucast (BytesPerWord H))
                = Some (False, H)"
    from Insert_finish[where CellUpdated = False and ?H2.0 = H
           and CellType = YoriWinHexEditCellTypeHexDigit and BO = BO and bs = BitShift
           and Line = Line and Cell = Cell and DirtyLastLine = D0]
    show ?thesis
      using ngt f g ms[symmetric] unfolding BO_def D0_def
      by (auto simp add: YoriWinHexEditInsertCell_def ct nn l Let_def)
  next
    fix H4
    assume s: "YoriWinHexEditInsertSpaceInBuffer Heap H BO (BytesPerWord H) = Some (True, H4)"
      and wf4: "BufferWellFormed H4"
      and v4: "unat (BufferValid H4) = unat (BufferValid H) + unat (BytesPerWord H)"
    note b = WellFormed_valid_bound[OF wf4]
    have "unat EO < unat (BufferValid H4)" using ov ew by (simp add: ueo v4)
    with b have len: "unat EO < length (BufferBytes H4)" by simp
    from WriteNibble_ok[OF len, of ES n] obtain H5
      where w: "WriteNibble H4 EO ES n = Some H5" "BufferValid H5 = BufferValid H4" by blast
    from Insert_finish[where CellUpdated = True and ?H2.0 = H5
           and CellType = YoriWinHexEditCellTypeHexDigit and BO = BO and bs = BitShift
           and Line = Line and Cell = Cell and DirtyLastLine = "- 1"]
    show ?thesis
      using ngt s w ms[symmetric] v4 unfolding BO_def EO_def ES_def
      by (auto simp add: YoriWinHexEditInsertCell_def ct nn l Let_def)
  qed
qed

lemma InsertCell_beyond_gap:
  assumes cfg: "HexEditConfigured H" and wf: "BufferWellFormed H"
    and ct: "YoriWinHexEditCellType H Line Cell
               = (YoriWinHexEditCellTypeHexDigit, ByteOffset, BitShift, Beyond)"
    and nn: "NewNibbleOf (YoriWinHexEditInputCharToByte InputTChar) = Some n"
    and ms: "BitShift = BytesPerWord H * 8 - 4"
    and gap: "unat (BufferValid H) < unat Line * 16 + unat ByteOffset"
  shows "\<exists>L C H'.
           YoriWinHexEditInsertCell Heap H Line Cell InputTChar = Some (True, L, C, H')
           \<and> (BufferValid H' = BufferValid H
              \<or> unat (BufferValid H') = unat Line * 16 + unat ByteOffset
              \<or> unat (BufferValid H')
                  = unat Line * 16 + unat ByteOffset + unat (BytesPerWord H))"
proof -
  from cfg have l: "BytesPerLine H = 16"
    by (auto simp: HexEditConfigured_def YORI_LIB_HEXDUMP_BYTES_PER_LINE_def)
  define BO where "BO = (ucast Line :: DWORDLONG) * 16 + ucast ByteOffset"
  define EO where "EO = (if BitShift \<ge> 8 then BO + ucast (BitShift div 8) else BO)"
  define ES where "ES = (if BitShift \<ge> 8 then BitShift mod 8 else BitShift)"
  note e = CellType_editable[OF cfg ct disjI1[OF refl]]
  from e have e16: "unat ByteOffset + unat BitShift div 8 < 16"
    and ed: "unat (BitShift div 8) = unat BitShift div 8"
    and ew: "unat BitShift div 8 < unat (BytesPerWord H)" by simp_all
  have ubo: "unat BO = unat Line * 16 + unat ByteOffset"
    unfolding BO_def using EditOffset_unat(1)[OF e16 ed, of Line] by simp
  have ueo: "unat EO = unat Line * 16 + unat ByteOffset + unat BitShift div 8"
    unfolding EO_def BO_def using EditOffset_unat(2)[OF e16 ed, of Line] by simp
  note b = WellFormed_valid_bound[OF wf]
  have bey: Beyond
    using Beyond_iff[OF cfg b(4) ct disjI1[OF refl]] gap by simp
  have gt: "BufferValid H < BO" using gap by (simp add: word_less_nat_alt ubo)
  then have nle: "\<not> BO \<le> BufferValid H" by simp
  have L32: "unat Line < 2 ^ 32" using unsigned_less[of Line, where 'a=nat] by simp
  have nw: "unat BO + 16384 < 2 ^ 64" using L32 e16 by (simp add: ubo)
  from EnsureBufferValid_cases[OF wf nw, of Heap] show ?thesis
  proof (elim disjE exE conjE)
    assume f: "YoriWinHexEditEnsureBufferValid Heap H BO = Some (False, H)"
    show ?thesis
      using bey gt f unfolding BO_def
      by (auto simp add: YoriWinHexEditInsertCell_def ct nn l Let_def)
  next
    fix H1
    assume r: "YoriWinHexEditEnsureBufferValid Heap H BO = Some (True, H1)"
      and fr: "H1 = H\<lparr>Buffer := Buffer H1, BufferAllocated := BufferAllocated H1,
                       BufferValid := BufferValid H1\<rparr>"
      and wf1: "BufferWellFormed H1"
      and v1: "BufferValid H1 = (if BO \<le> BufferValid H then BufferValid H else BO)"
    from v1 nle have v: "BufferValid H1 = BO" by simp
    have w1: "BytesPerWord H1 = BytesPerWord H" by (subst fr) simp
    have ov1: "BO \<le> BufferValid H1" by (simp add: v)
    from InsertSpaceInBuffer_cases[OF wf1 ov1, of Heap "BytesPerWord H"] show ?thesis
    proof (elim disjE exE conjE)
      assume f: "YoriWinHexEditInsertSpaceInBuffer Heap H1 BO (BytesPerWord H) = Some (False, H1)"
      from Insert_finish[where CellUpdated = False and ?H2.0 = H1
             and CellType = YoriWinHexEditCellTypeHexDigit and BO = BO and bs = BitShift
             and Line = Line and Cell = Cell and DirtyLastLine = "- 1"]
      show ?thesis
        using bey gt r f ms[symmetric] w1 v ubo unfolding BO_def
        by (auto simp add: YoriWinHexEditInsertCell_def ct nn l Let_def)
    next
      fix H4
      assume s: "YoriWinHexEditInsertSpaceInBuffer Heap H1 BO (BytesPerWord H) = Some (True, H4)"
        and wf4: "BufferWellFormed H4"
        and v4: "unat (BufferValid H4) = unat (BufferValid H1) + unat (BytesPerWord H)"
      note b4 = WellFormed_valid_bound[OF wf4]
      have "unat EO < unat (BufferValid H4)" using ew by (simp add: ueo v4 v ubo)
      with b4 have len: "unat EO < length (BufferBytes H4)" by simp
      from WriteNibble_ok[OF len, of ES n] obtain H5
        where w: "WriteNibble H4 EO ES n = Some H5" "BufferValid H5 = BufferValid H4" by blast
      from Insert_finish[where CellUpdated = True and ?H2.0 = H5
             and CellType = YoriWinHexEditCellTypeHexDigit and BO = BO and bs = BitShift
             and Line = Line and Cell = Cell and DirtyLastLine = "- 1"]
      show ?thesis
        using bey gt r s w ms[symmetric] w1 v4 v ubo unfolding BO_def EO_def ES_def
        by (auto simp add: YoriWinHexEditInsertCell_def ct nn l Let_def)
    qed
  qed
qed

text \<open>
  Claim C2, as amended. In a control configured as \<open>YoriWinHexEditCreate\<close> configures it,
  whose lengths describe its buffer, let the cursor cell be classified by
  \<open>YoriWinHexEditCellType\<close>. An overwrite-mode edit returns TRUE for every cell and every
  character. It leaves the valid length as it was when the cell lies within the valid
  data or does not accept the character; at a cell beyond the end of the data that
  accepts the character it extends the valid length to one byte past the edited byte,
  unless the buffer cannot be grown to that length, in which case the valid length is
  unchanged. An insert-mode edit of a hex digit cell within the valid data that is not
  the nibble of the highest bit shift leaves the valid length as it was. An insert-mode
  edit of a hex digit at the nibble of the highest bit shift, in a word that starts at or
  before the end of the valid data, grows the valid length by exactly the bytes of a
  word, unless the buffer cannot be grown, in which case the valid length is unchanged.
  When that word starts after the end of the valid data, the gap is filled first: the
  valid length ends as it was, or at the start of the word, or at the start of the word
  plus the bytes of a word.
\<close>

theorem C2_valid_length_after_cell_edit:
  assumes "HexEditConfigured H" and "BufferWellFormed H"
    and "YoriWinHexEditCellType H Line Cell = (CellType, ByteOffset, BitShift, Beyond)"
  shows
    "(let WordOffset = unat Line * 16 + unat ByteOffset;
          EditOffset = WordOffset + unat BitShift div 8;
          HexDigitTyped = (CellType = YoriWinHexEditCellTypeHexDigit
                             \<and> NewNibbleOf (YoriWinHexEditInputCharToByte InputTChar) \<noteq> None);
          FirstNibble = (BitShift = BytesPerWord H * 8 - 4)
      in (\<exists>L C H'.
            YoriWinHexEditOverwriteCell Heap H Line Cell InputTChar = Some (True, L, C, H')
            \<and> (if Beyond \<and> (HexDigitTyped \<or> CellType = YoriWinHexEditCellTypeCharValue)
               then BufferValid H' = BufferValid H
                      \<and> YoriWinHexEditEnsureBufferLength Heap H (of_nat (EditOffset + 1))
                          = Some (False, H)
                    \<or> unat (BufferValid H') = EditOffset + 1
                      \<and> BufferValid H < BufferValid H'
               else BufferValid H' = BufferValid H))
         \<and> (CellType = YoriWinHexEditCellTypeHexDigit \<and> \<not> FirstNibble \<and> \<not> Beyond
            \<longrightarrow> (\<exists>L C H'.
                   YoriWinHexEditInsertCell Heap H Line Cell InputTChar = Some (True, L, C, H')
                   \<and> BufferValid H' = BufferValid H))
         \<and> (HexDigitTyped \<and> FirstNibble \<and> WordOffset \<le> unat (BufferValid H)
            \<longrightarrow> (\<exists>L C H'.
                   YoriWinHexEditInsertCell Heap H Line Cell InputTChar = Some (True, L, C, H')
                   \<and> (BufferValid H' = BufferValid H
                        \<and> YoriWinHexEditEnsureBufferLength Heap H
                             (BufferValid H + ucast (BytesPerWord H)) = Some (False, H)
                      \<or> unat (BufferValid H')
                          = unat (BufferValid H) + unat (BytesPerWord H))))
         \<and> (HexDigitTyped \<and> FirstNibble \<and> unat (BufferValid H) < WordOffset
            \<longrightarrow> (\<exists>L C H'.
                   YoriWinHexEditInsertCell Heap H Line Cell InputTChar = Some (True, L, C, H')
                   \<and> (BufferValid H' = BufferValid H
                      \<or> unat (BufferValid H') = WordOffset
                      \<or> unat (BufferValid H') = WordOffset + unat (BytesPerWord H)))))"
  unfolding Let_def
proof (intro conjI impI)
  show "\<exists>L C H'.
          YoriWinHexEditOverwriteCell Heap H Line Cell InputTChar = Some (True, L, C, H')
          \<and> (if Beyond \<and> ((CellType = YoriWinHexEditCellTypeHexDigit
                             \<and> NewNibbleOf (YoriWinHexEditInputCharToByte InputTChar) \<noteq> None)
                           \<or> CellType = YoriWinHexEditCellTypeCharValue)
             then BufferValid H' = BufferValid H
                    \<and> YoriWinHexEditEnsureBufferLength Heap H
                         (of_nat (unat Line * 16 + unat ByteOffset + unat BitShift div 8 + 1))
                        = Some (False, H)
                  \<or> unat (BufferValid H')
                      = unat Line * 16 + unat ByteOffset + unat BitShift div 8 + 1
                    \<and> BufferValid H < BufferValid H'
             else BufferValid H' = BufferValid H)"
    by (rule OverwriteCell_cases[OF assms])
next
  assume a: "CellType = YoriWinHexEditCellTypeHexDigit \<and> BitShift \<noteq> BytesPerWord H * 8 - 4
             \<and> \<not> Beyond"
  with assms(3) have ct: "YoriWinHexEditCellType H Line Cell
               = (YoriWinHexEditCellTypeHexDigit, ByteOffset, BitShift, False)" by simp
  from a show "\<exists>L C H'.
          YoriWinHexEditInsertCell Heap H Line Cell InputTChar = Some (True, L, C, H')
          \<and> BufferValid H' = BufferValid H"
    by (intro InsertCell_other_nibble[OF assms(1,2) ct]) simp
next
  assume a: "(CellType = YoriWinHexEditCellTypeHexDigit
                \<and> NewNibbleOf (YoriWinHexEditInputCharToByte InputTChar) \<noteq> None)
             \<and> BitShift = BytesPerWord H * 8 - 4
             \<and> unat Line * 16 + unat ByteOffset \<le> unat (BufferValid H)"
  with assms(3) have ct: "YoriWinHexEditCellType H Line Cell
               = (YoriWinHexEditCellTypeHexDigit, ByteOffset, BitShift, Beyond)" by simp
  from a obtain n where nn: "NewNibbleOf (YoriWinHexEditInputCharToByte InputTChar) = Some n"
    by blast
  from a show "\<exists>L C H'.
          YoriWinHexEditInsertCell Heap H Line Cell InputTChar = Some (True, L, C, H')
          \<and> (BufferValid H' = BufferValid H
               \<and> YoriWinHexEditEnsureBufferLength Heap H
                    (BufferValid H + ucast (BytesPerWord H)) = Some (False, H)
             \<or> unat (BufferValid H') = unat (BufferValid H) + unat (BytesPerWord H))"
    by (intro InsertCell_first_nibble[OF assms(1,2) ct nn]) simp_all
next
  assume a: "(CellType = YoriWinHexEditCellTypeHexDigit
                \<and> NewNibbleOf (YoriWinHexEditInputCharToByte InputTChar) \<noteq> None)
             \<and> BitShift = BytesPerWord H * 8 - 4
             \<and> unat (BufferValid H) < unat Line * 16 + unat ByteOffset"
  with assms(3) have ct: "YoriWinHexEditCellType H Line Cell
               = (YoriWinHexEditCellTypeHexDigit, ByteOffset, BitShift, Beyond)" by simp
  from a obtain n where nn: "NewNibbleOf (YoriWinHexEditInputCharToByte InputTChar) = Some n"
    by blast
  from a show "\<exists>L C H'.
          YoriWinHexEditInsertCell Heap H Line Cell InputTChar = Some (True, L, C, H')
          \<and> (BufferValid H' = BufferValid H
             \<or> unat (BufferValid H') = unat Line * 16 + unat ByteOffset
             \<or> unat (BufferValid H')
                 = unat Line * 16 + unat ByteOffset + unat (BytesPerWord H))"
    by (intro InsertCell_beyond_gap[OF assms(1,2) ct nn]) simp_all
qed

lemma EmptyValidHexEdit_Configured: "HexEditConfigured EmptyValidHexEdit"
  by (simp add: HexEditConfigured_def EmptyValidHexEdit_def FourByteHexEdit_def ZeroedHexEdit_def)

lemma EmptyValidHexEdit_WellFormed: "BufferWellFormed EmptyValidHexEdit"
  by (simp add: BufferWellFormed_def EmptyValidHexEdit_def FourByteHexEdit_def BufferBytes_def)

lemma EmptyValidHexEdit_cells:
  "YoriWinHexEditCellType EmptyValidHexEdit 0 0 = (YoriWinHexEditCellTypeHexDigit, 0, 4, True)"
  "YoriWinHexEditCellType EmptyValidHexEdit 0 3 = (YoriWinHexEditCellTypeHexDigit, 1, 4, True)"
  by (simp_all add: coord_defs YoriWinHexEditLinesPopulated_def Let_def EmptyValidHexEdit_def
        FourByteHexEdit_def ZeroedHexEdit_def YORI_LIB_HEXDUMP_BYTES_PER_LINE_def)

lemma FourByteHexEdit_cells:
  "YoriWinHexEditCellType FourByteHexEdit 0 0 = (YoriWinHexEditCellTypeHexDigit, 0, 4, False)"
  "YoriWinHexEditCellType FourByteHexEdit 0 1 = (YoriWinHexEditCellTypeHexDigit, 0, 0, False)"
  by (simp_all add: coord_defs YoriWinHexEditLinesPopulated_def Let_def
        FourByteHexEdit_def ZeroedHexEdit_def YORI_LIB_HEXDUMP_BYTES_PER_LINE_def)

text \<open>
  Claim C2 as stated fails on the control whose four allocated bytes hold no valid data,
  with one byte to the word. Typing the digit 4 in overwrite mode on the first cell
  changes the valid length from 0 to 1. Typing it in insert mode on the upper nibble of
  byte 1, which has the highest bit shift and lies beyond the end of the data, changes
  the valid length from 0 to 2, which is not the one byte of a word.
\<close>

theorem C2_counterexample:
  "YoriWinHexEditOverwriteCell ZeroHeap EmptyValidHexEdit 0 0 0x34
     = Some (True, 0, 1,
             EmptyValidHexEdit\<lparr>Buffer := Some [0x40, 0x01, 0x02, 0x03], BufferValid := 1,
                               UserModified := True\<rparr>)
   \<and> YoriWinHexEditCellType EmptyValidHexEdit 0 3 = (YoriWinHexEditCellTypeHexDigit, 1, 4, True)
   \<and> YoriWinHexEditInsertCell ZeroHeap EmptyValidHexEdit 0 3 0x34
     = Some (True, 0, 4,
             EmptyValidHexEdit\<lparr>Buffer := Some [0x00, 0x40, 0x02, 0x03], BufferValid := 2,
                               LastDirtyLine := - 1, UserModified := True\<rparr>)
   \<and> BufferValid EmptyValidHexEdit = 0 \<and> BytesPerWord EmptyValidHexEdit = 1"
proof -
  have o: "YoriWinHexEditOverwriteCell ZeroHeap EmptyValidHexEdit 0 0 0x34
     = Some (True, 0, 1,
             EmptyValidHexEdit\<lparr>Buffer := Some [0x40, 0x01, 0x02, 0x03], BufferValid := 1,
                               UserModified := True\<rparr>)"
    by (simp add: YoriWinHexEditOverwriteCell_def coord_defs YoriWinHexEditLinesPopulated_def
       EmptyValidHexEdit_def FourByteHexEdit_def ZeroedHexEdit_def YORI_LIB_HEXDUMP_BYTES_PER_LINE_def
       NewNibbleOf_def YoriWinHexEditInputCharToByte_def YoriLibUpcaseChar_def
       YoriWinHexEditEnsureBufferValid_def YoriWinHexEditEnsureBufferLength_def
       BufferWrite_def BufferRead_def memory_write_def memory_read_def WriteNibble_def
       YoriWinHexEditNextCellSameType_def YoriWinHexEditCellFromHexBufferOffset_def
       YoriWinHexEditExpandDirtyRange_def Let_def)
  have i: "YoriWinHexEditInsertCell ZeroHeap EmptyValidHexEdit 0 3 0x34
     = Some (True, 0, 4,
             EmptyValidHexEdit\<lparr>Buffer := Some [0x00, 0x40, 0x02, 0x03], BufferValid := 2,
                               LastDirtyLine := - 1, UserModified := True\<rparr>)"
    by (simp add: YoriWinHexEditInsertCell_def coord_defs YoriWinHexEditLinesPopulated_def
       EmptyValidHexEdit_def FourByteHexEdit_def ZeroedHexEdit_def YORI_LIB_HEXDUMP_BYTES_PER_LINE_def
       NewNibbleOf_def YoriWinHexEditInputCharToByte_def YoriLibUpcaseChar_def
       YoriWinHexEditEnsureBufferValid_def YoriWinHexEditEnsureBufferLength_def
       YoriWinHexEditInsertSpaceInBuffer_def
       BufferWrite_def BufferRead_def memory_write_def memory_read_def WriteNibble_def
       YoriWinHexEditNextCellSameType_def YoriWinHexEditCellFromHexBufferOffset_def
       YoriWinHexEditExpandDirtyRange_def Let_def word_gt_0)
  have v: "BufferValid EmptyValidHexEdit = 0" "BytesPerWord EmptyValidHexEdit = 1"
    by (simp_all add: EmptyValidHexEdit_def FourByteHexEdit_def)
  show ?thesis using o i v EmptyValidHexEdit_cells(2) by simp
qed

lemma EmptyValidHexEdit_room:
  "YoriWinHexEditEnsureBufferLength Heap EmptyValidHexEdit 1 = Some (True, EmptyValidHexEdit)"
  by (rule EnsureBufferLength_noop) (simp add: EmptyValidHexEdit_def FourByteHexEdit_def)

theorem C2_valid_length_after_cell_edit_witness:
  "HexEditConfigured FourByteHexEdit \<and> BufferWellFormed FourByteHexEdit
   \<and> HexEditConfigured EmptyValidHexEdit \<and> BufferWellFormed EmptyValidHexEdit
   \<and> YoriWinHexEditCellType FourByteHexEdit 0 0 = (YoriWinHexEditCellTypeHexDigit, 0, 4, False)
   \<and> (\<exists>L C H'. YoriWinHexEditOverwriteCell ZeroHeap FourByteHexEdit 0 0 0x34
                   = Some (True, L, C, H')
          \<and> BufferValid H' = 4)
   \<and> YoriWinHexEditCellType EmptyValidHexEdit 0 0 = (YoriWinHexEditCellTypeHexDigit, 0, 4, True)
   \<and> (\<exists>L C H'. YoriWinHexEditOverwriteCell ZeroHeap EmptyValidHexEdit 0 0 0x34
                   = Some (True, L, C, H')
          \<and> unat (BufferValid H') = 1)
   \<and> YoriWinHexEditCellType FourByteHexEdit 0 1 = (YoriWinHexEditCellTypeHexDigit, 0, 0, False)
   \<and> (\<exists>L C H'. YoriWinHexEditInsertCell ZeroHeap FourByteHexEdit 0 1 0x34
                   = Some (True, L, C, H')
          \<and> BufferValid H' = 4)
   \<and> (\<exists>L C H'. YoriWinHexEditInsertCell ZeroHeap EmptyValidHexEdit 0 0 0x34
                   = Some (True, L, C, H')
          \<and> unat (BufferValid H') = 1)
   \<and> YoriWinHexEditCellType EmptyValidHexEdit 0 3 = (YoriWinHexEditCellTypeHexDigit, 1, 4, True)
   \<and> (\<exists>L C H'. YoriWinHexEditInsertCell ZeroHeap EmptyValidHexEdit 0 3 0x34
                   = Some (True, L, C, H')
          \<and> (BufferValid H' = 0 \<or> unat (BufferValid H') = 1 \<or> unat (BufferValid H') = 2))"
proof -
  have f: "BufferValid FourByteHexEdit = 4" "BytesPerWord FourByteHexEdit = 1"
    "BufferValid EmptyValidHexEdit = 0" "BytesPerWord EmptyValidHexEdit = 1"
    by (simp_all add: EmptyValidHexEdit_def FourByteHexEdit_def)
  note four = C2_valid_length_after_cell_edit[OF FourByteHexEdit_Configured
                FourByteHexEdit_WellFormed, where Heap = ZeroHeap and InputTChar = "0x34"]
  note empty = C2_valid_length_after_cell_edit[OF EmptyValidHexEdit_Configured
                 EmptyValidHexEdit_WellFormed, where Heap = ZeroHeap and InputTChar = "0x34"]
  have 1: "\<exists>L C H'. YoriWinHexEditOverwriteCell ZeroHeap FourByteHexEdit 0 0 0x34
                   = Some (True, L, C, H')
          \<and> BufferValid H' = 4"
    using four[OF FourByteHexEdit_cells(1), unfolded Let_def, THEN conjunct1] by (simp add: f)
  have 2: "\<exists>L C H'. YoriWinHexEditOverwriteCell ZeroHeap EmptyValidHexEdit 0 0 0x34
                   = Some (True, L, C, H')
          \<and> unat (BufferValid H') = 1"
    using empty[OF EmptyValidHexEdit_cells(1), unfolded Let_def, THEN conjunct1]
    by (auto simp add: f NewNibbleOf_4 EmptyValidHexEdit_room)
  have 3: "\<exists>L C H'. YoriWinHexEditInsertCell ZeroHeap FourByteHexEdit 0 1 0x34
                   = Some (True, L, C, H')
          \<and> BufferValid H' = 4"
    using four[OF FourByteHexEdit_cells(2), unfolded Let_def, THEN conjunct2, THEN conjunct1] by (simp add: f)
  have 4: "\<exists>L C H'. YoriWinHexEditInsertCell ZeroHeap EmptyValidHexEdit 0 0 0x34
                   = Some (True, L, C, H')
          \<and> unat (BufferValid H') = 1"
    using empty[OF EmptyValidHexEdit_cells(1), unfolded Let_def, THEN conjunct2, THEN conjunct2, THEN conjunct1]
    by (auto simp add: f NewNibbleOf_4 EmptyValidHexEdit_room)
  have 5: "\<exists>L C H'. YoriWinHexEditInsertCell ZeroHeap EmptyValidHexEdit 0 3 0x34
                   = Some (True, L, C, H')
          \<and> (BufferValid H' = 0 \<or> unat (BufferValid H') = 1 \<or> unat (BufferValid H') = 2)"
    using empty[OF EmptyValidHexEdit_cells(2), unfolded Let_def, THEN conjunct2, THEN conjunct2, THEN conjunct2]
    by (auto simp add: f NewNibbleOf_4)
  show ?thesis
    using FourByteHexEdit_Configured FourByteHexEdit_WellFormed EmptyValidHexEdit_Configured
      EmptyValidHexEdit_WellFormed FourByteHexEdit_cells EmptyValidHexEdit_cells 1 2 3 4 5
    by blast
qed

end
